theory Spec2Isabelle
  imports Main "HOL-Library.Sublist"
begin

section \<open>The installer and its environment\<close>

text \<open>
  The program under verification is \<^verbatim>\<open>install.py\<close>, a single Python script that
  creates a directory tree and writes a fixed set of text files below the current
  working directory. Everything the script does beyond computing strings is an effect
  on its environment, so the model threads an explicit \<open>world\<close> through every
  function of the script: the file system below the working directory, the lines still
  waiting on standard input, and the sequence of observable events so far (lines
  printed, prompts issued, directories created, files written).

  Python strings are modelled as \<open>string\<close>, holding the UTF-8 bytes of the text.
  The only string operations of the script are concatenation, \<^verbatim>\<open>str.center\<close> on two
  ASCII titles and the test \<^verbatim>\<open>response.lower() != 'y'\<close>; on all of them the byte view and
  Python's code point view agree (no code point other than \<open>Y\<close> and \<open>y\<close> lowers to
  \<open>y\<close>). Literals of the source that are not ASCII appear below as their UTF-8 bytes.

  The file system holds regular files and directories. Failures that depend on more than
  its shape (permissions, a full disk, symbolic links, the encoding of the locale) are
  outside the model; the failures inside it are those of path resolution and of an entry
  of the wrong kind at a path.
\<close>

subsection \<open>Paths and file system\<close>

text \<open>
  A path is the list of its components relative to the working directory, as
  \<^verbatim>\<open>pathlib.PurePath.parts\<close> has them; the empty list is the working directory itself
  (\<^verbatim>\<open>Path('.')\<close>). The script uses relative paths only.
\<close>

type_synonym path = "string list"

datatype node = File string | Dir

type_synonym filesystem = "path \<rightharpoonup> node"

datatype error =
    FileNotFoundError path
  | FileExistsError path
  | NotADirectoryError path
  | IsADirectoryError path
  | EOFError
  | SystemExit int

datatype event =
    Print string
  | Prompt string
  | Mkdir path
  | Write path string

record world =
  files :: filesystem
  stdin :: "string list"
  events :: "event list"

text \<open>
  A statement of the script maps a world to a new world and either completes (\<open>None\<close>)
  or raises (\<open>Some e\<close>); a raised exception skips the statements that follow.
\<close>

type_synonym action = "world \<Rightarrow> error option \<times> world"

definition raise :: "error \<Rightarrow> action" where
  "raise e w = (Some e, w)"

fun steps :: "action list \<Rightarrow> action" where
  "steps [] w = (None, w)"
| "steps (s # ss) w =
     (case s w of
        (None, w') \<Rightarrow> steps ss w'
      | (Some e, w') \<Rightarrow> (Some e, w'))"

definition for_each :: "('a \<Rightarrow> action) \<Rightarrow> 'a list \<Rightarrow> action" where
  "for_each f xs = steps (map f xs)"

text \<open>An \<^verbatim>\<open>if\<close> statement without \<^verbatim>\<open>else\<close>.\<close>

definition if_then :: "(world \<Rightarrow> bool) \<Rightarrow> action \<Rightarrow> action" where
  "if_then b s w = (if b w then s w else (None, w))"

text \<open>\<^verbatim>\<open>Path(s)\<close>: split at \<open>/\<close>, dropping empty components and \<open>.\<close> components.\<close>

fun split_on :: "char \<Rightarrow> string \<Rightarrow> string list" where
  "split_on sep [] = [[]]"
| "split_on sep (c # cs) =
     (if c = sep then [] # split_on sep cs
      else (case split_on sep cs of
              [] \<Rightarrow> [[c]]
            | r # rs \<Rightarrow> (c # r) # rs))"

definition Path :: "string \<Rightarrow> path" where
  "Path s = filter (\<lambda>part. part \<noteq> [] \<and> part \<noteq> ''.'') (split_on CHR ''/'' s)"

definition parent :: "path \<Rightarrow> path" where
  "parent p = butlast p"

text \<open>
  Resolving a path visits its non-empty prefixes in turn, shortest first. A missing
  component is \<^verbatim>\<open>ENOENT\<close>; a regular file met before the last component is
  \<^verbatim>\<open>ENOTDIR\<close>. The exception carries the path the call was made on.
\<close>

definition ancestry :: "path \<Rightarrow> path list" where
  "ancestry p = tl (prefixes p)"

fun walk :: "filesystem \<Rightarrow> path \<Rightarrow> path list \<Rightarrow> error + node" where
  "walk fs p [] = Inr Dir"
| "walk fs p (q # qs) =
     (case fs q of
        None \<Rightarrow> Inl (FileNotFoundError p)
      | Some (File c) \<Rightarrow> (if qs = [] then Inr (File c) else Inl (NotADirectoryError p))
      | Some Dir \<Rightarrow> walk fs p qs)"

definition stat :: "filesystem \<Rightarrow> path \<Rightarrow> error + node" where
  "stat fs p = walk fs p (ancestry p)"

text \<open>\<^verbatim>\<open>Path.exists()\<close> and \<^verbatim>\<open>Path.is_dir()\<close> answer \<open>False\<close> where \<open>stat\<close> fails.\<close>

definition path_exists :: "filesystem \<Rightarrow> path \<Rightarrow> bool" where
  "path_exists fs p = (case stat fs p of Inl e \<Rightarrow> False | Inr n \<Rightarrow> True)"

definition is_dir :: "filesystem \<Rightarrow> path \<Rightarrow> bool" where
  "is_dir fs p = (stat fs p = Inr Dir)"

definition read_text :: "filesystem \<Rightarrow> path \<Rightarrow> error + string" where
  "read_text fs p =
     (case stat fs p of
        Inl e \<Rightarrow> Inl e
      | Inr Dir \<Rightarrow> Inl (IsADirectoryError p)
      | Inr (File c) \<Rightarrow> Inr c)"

text \<open>\<^verbatim>\<open>os.mkdir(p)\<close>: the parent must resolve to a directory and \<open>p\<close> must be free.\<close>

definition os_mkdir :: "path \<Rightarrow> action" where
  "os_mkdir p w =
     (if p = [] then (Some (FileExistsError p), w)
      else (case walk (files w) p (ancestry (parent p)) of
              Inl e \<Rightarrow> (Some e, w)
            | Inr (File c) \<Rightarrow> (Some (NotADirectoryError p), w)
            | Inr Dir \<Rightarrow>
                (case files w p of
                   Some n \<Rightarrow> (Some (FileExistsError p), w)
                 | None \<Rightarrow>
                     (None, w\<lparr>files := (files w)(p \<mapsto> Dir),
                               events := events w @ [Mkdir p]\<rparr>))))"

text \<open>
  \<^verbatim>\<open>Path.mkdir(parents, exist_ok)\<close>, after CPython's \<^verbatim>\<open>pathlib\<close>:
  \<^verbatim>\<open>
  try:
      os.mkdir(self, mode)
  except FileNotFoundError:
      if not parents or self.parent == self:
          raise
      self.parent.mkdir(parents=True, exist_ok=True)
      self.mkdir(mode, parents=False, exist_ok=exist_ok)
  except OSError:
      if not exist_ok or not self.is_dir():
          raise
  \<close>
\<close>

function Path_mkdir :: "bool \<Rightarrow> bool \<Rightarrow> path \<Rightarrow> action" where
  "Path_mkdir parents exist_ok p w =
     (case os_mkdir p w of
        (None, w') \<Rightarrow> (None, w')
      | (Some (FileNotFoundError q), w') \<Rightarrow>
          (if \<not> parents \<or> parent p = p then (Some (FileNotFoundError q), w')
           else (case Path_mkdir True True (parent p) w' of
                   (None, w'') \<Rightarrow> Path_mkdir False exist_ok p w''
                 | (Some e, w'') \<Rightarrow> (Some e, w'')))
      | (Some e, w') \<Rightarrow>
          (if \<not> exist_ok \<or> \<not> is_dir (files w') p then (Some e, w')
           else (None, w')))"
  by pat_completeness auto
termination
proof (relation "measure (\<lambda>(parents, exist_ok, p, w). if parents then 2 * length p + 1 else 0)")
  fix parents :: bool and p :: path
  assume "\<not> (\<not> parents \<or> parent p = p)"
  then have "p \<noteq> []"
    by (auto simp: parent_def)
  then show "((True, True, parent p, w'), (parents, exist_ok, p, w))
      \<in> measure (\<lambda>(parents, exist_ok, p, w). if parents then 2 * length p + 1 else 0)"
    for exist_ok and w w' :: world
    using \<open>\<not> (\<not> parents \<or> parent p = p)\<close> by (simp add: parent_def)
qed auto

text \<open>
  \<^verbatim>\<open>Path.write_text(content)\<close> opens the file for writing, truncating it, and writes
  the text; it never creates a directory.
\<close>

definition write_text :: "path \<Rightarrow> string \<Rightarrow> action" where
  "write_text p content w =
     (if p = [] then (Some (IsADirectoryError p), w)
      else (case walk (files w) p (ancestry (parent p)) of
              Inl e \<Rightarrow> (Some e, w)
            | Inr (File c) \<Rightarrow> (Some (NotADirectoryError p), w)
            | Inr Dir \<Rightarrow>
                (case files w p of
                   Some Dir \<Rightarrow> (Some (IsADirectoryError p), w)
                 | _ \<Rightarrow>
                     (None, w\<lparr>files := (files w)(p \<mapsto> File content),
                               events := events w @ [Write p content]\<rparr>))))"

subsection \<open>Console\<close>

text \<open>
  \<^verbatim>\<open>print(line)\<close> appends a line to standard output. \<^verbatim>\<open>input(prompt)\<close> shows the
  prompt and takes the next line of standard input, without its line terminator; at end
  of input it raises \<^verbatim>\<open>EOFError\<close>.
\<close>

definition print :: "string \<Rightarrow> action" where
  "print line w = (None, w\<lparr>events := events w @ [Print line]\<rparr>)"

definition input :: "string \<Rightarrow> world \<Rightarrow> (error + string) \<times> world" where
  "input prompt w =
     (let w' = w\<lparr>events := events w @ [Prompt prompt]\<rparr> in
      case stdin w of
        [] \<Rightarrow> (Inl EOFError, w')
      | l # ls \<Rightarrow> (Inr l, w'\<lparr>stdin := ls\<rparr>))"

definition sys_exit :: "int \<Rightarrow> action" where
  "sys_exit code = raise (SystemExit code)"

text \<open>
  The status the interpreter hands to the operating system: 0 when \<open>main\<close> returns,
  the argument of \<^verbatim>\<open>sys.exit\<close>, and 1 for any other uncaught exception.
\<close>

fun exit_status :: "error option \<Rightarrow> int" where
  "exit_status None = 0"
| "exit_status (Some (SystemExit code)) = code"
| "exit_status (Some e) = 1"

text \<open>\<^verbatim>\<open>str.lower\<close> and \<^verbatim>\<open>str.center\<close> (the latter with CPython's rounding).\<close>

definition lower_char :: "char \<Rightarrow> char" where
  "lower_char c =
     (if 65 \<le> (of_char c :: nat) \<and> (of_char c :: nat) \<le> 90
      then char_of (of_char c + 32 :: nat) else c)"

definition lower :: "string \<Rightarrow> string" where
  "lower s = map lower_char s"

definition center :: "nat \<Rightarrow> string \<Rightarrow> string" where
  "center width s =
     (if width \<le> length s then s
      else (let marg = width - length s;
                left = marg div 2 + (if odd marg \<and> odd width then 1 else 0)
            in replicate left CHR '' '' @ s @ replicate (marg - left) CHR '' ''))"


section \<open>The script\<close>

subsection \<open>Console helpers\<close>

text \<open>The constants of \<^verbatim>\<open>class Colors\<close>: ANSI escape sequences.\<close>

definition HEADER :: string where
  "HEADER = [CHR 0x1B] @ ''[95m''"

definition OKBLUE :: string where
  "OKBLUE = [CHR 0x1B] @ ''[94m''"

definition OKCYAN :: string where
  "OKCYAN = [CHR 0x1B] @ ''[96m''"

definition OKGREEN :: string where
  "OKGREEN = [CHR 0x1B] @ ''[92m''"

definition WARNING :: string where
  "WARNING = [CHR 0x1B] @ ''[93m''"

definition FAIL :: string where
  "FAIL = [CHR 0x1B] @ ''[91m''"

definition ENDC :: string where
  "ENDC = [CHR 0x1B] @ ''[0m''"

definition BOLD :: string where
  "BOLD = [CHR 0x1B] @ ''[1m''"

definition print_header :: "string \<Rightarrow> action" where
  "print_header text =
     steps
      [print (''\<newline>'' @ HEADER @ BOLD @ replicate 60 CHR ''='' @ ENDC),
       print (HEADER @ BOLD @ center 60 text @ ENDC),
       print (HEADER @ BOLD @ replicate 60 CHR ''='' @ ENDC @ ''\<newline>'')]"

definition print_success :: "string \<Rightarrow> action" where
  "print_success text =
     print (OKGREEN @ [CHR 0xC3, CHR 0xA2, CHR 0xC5, CHR 0x93, CHR 0xE2, CHR 0x80, CHR 0x9C] @ '' '' @ text @ ENDC)"

definition print_info :: "string \<Rightarrow> action" where
  "print_info text =
     print (OKCYAN @ [CHR 0xC3, CHR 0xA2, CHR 0xE2, CHR 0x80, CHR 0x9E, CHR 0xC2, CHR 0xB9] @ '' '' @ text @ ENDC)"

definition print_warning :: "string \<Rightarrow> action" where
  "print_warning text =
     print (WARNING @ [CHR 0xC3, CHR 0xA2, CHR 0xC5, CHR 0xA1, CHR 0xC2, CHR 0xA0] @ '' '' @ text @ ENDC)"

definition print_error :: "string \<Rightarrow> action" where
  "print_error text =
     print (FAIL @ [CHR 0xC3, CHR 0xA2, CHR 0xC5, CHR 0x93, CHR 0xE2, CHR 0x80, CHR 0x94] @ '' '' @ text @ ENDC)"

subsection \<open>The embedded files\<close>

text \<open>
  The dictionary \<^verbatim>\<open>FILES\<close>, in insertion order (the order in which \<^verbatim>\<open>items()\<close>
  yields it); its keys are distinct. Each content is given line by line.
\<close>

definition README_md :: string where
  \<open>README_md =
    ''# AI Infrastructure Projects\<newline>'' @
    ''\<newline>'' @
    ''Complete production-ready AI infrastructure with Kubernetes, Terraform, PyTorch, and modern MLOps tools.\<newline>'' @
    ''\<newline>'' @
    ''## '' @ [CHR 0xC4, CHR 0x9F, CHR 0xC5, CHR 0xB8, CHR 0xC5, CHR 0xA1, CHR 0xE2, CHR 0x82, CHR 0xAC] @ '' Quick Start\<newline>'' @
    ''\<newline>'' @
    ''```bash\<newline>'' @
    ''# One-command installation\<newline>'' @
    ''curl -sSL https://raw.githubusercontent.com/YOUR_USERNAME/ai-infrastructure-projects/main/install.py | python3\<newline>'' @
    ''\<newline>'' @
    ''# Or clone and run\<newline>'' @
    ''git clone https://github.com/YOUR_USERNAME/ai-infrastructure-projects\<newline>'' @
    ''cd ai-infrastructure-projects\<newline>'' @
    ''./scripts/quick-start.sh\<newline>'' @
    ''```\<newline>'' @
    ''\<newline>'' @
    ''## '' @ [CHR 0xC4, CHR 0x9F, CHR 0xC5, CHR 0xB8, CHR 0xE2, CHR 0x80, CHR 0x9C, CHR 0xC2, CHR 0xA6] @ '' What's Included\<newline>'' @
    ''\<newline>'' @
    ''- '' @ [CHR 0xC3, CHR 0xA2, CHR 0xC5, CHR 0x93, CHR 0xE2, CHR 0x80, CHR 0xA6] @ '' **Multi-Cloud Kubernetes**: AWS EKS + GCP GKE clusters with Terraform\<newline>'' @
    ''- '' @ [CHR 0xC3, CHR 0xA2, CHR 0xC5, CHR 0x93, CHR 0xE2, CHR 0x80, CHR 0xA6] @ '' **Distributed Training**: PyTorch DDP on GPU clusters  \<newline>'' @
    ''- '' @ [CHR 0xC3, CHR 0xA2, CHR 0xC5, CHR 0x93, CHR 0xE2, CHR 0x80, CHR 0xA6] @ '' **Inference API**: FastAPI service with auto-scaling\<newline>'' @
    ''- '' @ [CHR 0xC3, CHR 0xA2, CHR 0xC5, CHR 0x93, CHR 0xE2, CHR 0x80, CHR 0xA6] @ '' **Monitoring Stack**: Prometheus + Grafana + Loki + custom GPU metrics\<newline>'' @
    ''- '' @ [CHR 0xC3, CHR 0xA2, CHR 0xC5, CHR 0x93, CHR 0xE2, CHR 0x80, CHR 0xA6] @ '' **CI/CD Pipeline**: GitHub Actions + ArgoCD GitOps\<newline>'' @
    ''- '' @ [CHR 0xC3, CHR 0xA2, CHR 0xC5, CHR 0x93, CHR 0xE2, CHR 0x80, CHR 0xA6] @ '' **Service Mesh**: Istio with canary deployments (optional)\<newline>'' @
    ''\<newline>'' @
    ''## '' @ [CHR 0xC4, CHR 0x9F, CHR 0xC5, CHR 0xB8, CHR 0xE2, CHR 0x80, CHR 0x99, CHR 0xC2, CHR 0xB0] @ '' Cost\<newline>'' @
    ''\<newline>'' @
    ''**Estimated: $70-140/month** with optimizations\<newline>'' @
    ''- Free tier eligible for 12 months (AWS) / 90 days (GCP)\<newline>'' @
    ''- Auto-scaling to minimize costs\<newline>'' @
    ''- Spot/preemptible instances support\<newline>'' @
    ''\<newline>'' @
    ''## '' @ [CHR 0xC4, CHR 0x9F, CHR 0xC5, CHR 0xB8, CHR 0xE2, CHR 0x80, CHR 0x9C, CHR 0xC5, CHR 0xA1] @ '' Documentation\<newline>'' @
    ''\<newline>'' @
    ''- [Complete Setup Guide](docs/SETUP_GUIDE.md)\<newline>'' @
    ''- [Quick Reference](docs/QUICK_REFERENCE.md)\<newline>'' @
    ''- [Architecture Overview](docs/ARCHITECTURE.md)\<newline>'' @
    ''- [Troubleshooting](docs/TROUBLESHOOTING.md)\<newline>'' @
    ''\<newline>'' @
    ''## '' @ [CHR 0xC4, CHR 0x9F, CHR 0xC5, CHR 0xB8, CHR 0xC2, CHR 0xAF] @ '' Next Steps\<newline>'' @
    ''\<newline>'' @
    ''1. Configure cloud credentials: `aws configure` and `gcloud auth login`\<newline>'' @
    ''2. Deploy: `./scripts/quick-start.sh`\<newline>'' @
    ''3. Access services: See port-forward commands in Quick Reference\<newline>'' @
    ''\<newline>'' @
    ''## '' @ [CHR 0xC4, CHR 0x9F, CHR 0xC5, CHR 0xB8, CHR 0xE2, CHR 0x80, CHR 0x9C, CHR 0xC5, CHR 0xA0] @ '' Architecture\<newline>'' @
    ''\<newline>'' @
    ''```\<newline>'' @
    [CHR 0xC3, CHR 0xA2, CHR 0xE2, CHR 0x80, CHR 0x9D, CHR 0xC5, CHR 0x92, CHR 0xC3, CHR 0xA2, CHR 0xE2,
      CHR 0x80, CHR 0x9D, CHR 0xE2, CHR 0x82, CHR 0xAC, CHR 0xC3, CHR 0xA2, CHR 0xE2, CHR 0x80, CHR 0x9D,
      CHR 0xE2, CHR 0x82, CHR 0xAC, CHR 0xC3, CHR 0xA2, CHR 0xE2, CHR 0x80, CHR 0x9D, CHR 0xE2, CHR 0x82,
      CHR 0xAC, CHR 0xC3, CHR 0xA2, CHR 0xE2, CHR 0x80, CHR 0x9D, CHR 0xE2, CHR 0x82, CHR 0xAC, CHR 0xC3,
      CHR 0xA2, CHR 0xE2, CHR 0x80, CHR 0x9D, CHR 0xE2, CHR 0x82, CHR 0xAC, CHR 0xC3, CHR 0xA2, CHR 0xE2,
      CHR 0x80, CHR 0x9D, CHR 0xE2, CHR 0x82, CHR 0xAC, CHR 0xC3, CHR 0xA2, CHR 0xE2, CHR 0x80, CHR 0x9D,
      CHR 0xE2, CHR 0x82, CHR 0xAC, CHR 0xC3, CHR 0xA2, CHR 0xE2, CHR 0x80, CHR 0x9D, CHR 0xE2, CHR 0x82,
      CHR 0xAC, CHR 0xC3, CHR 0xA2, CHR 0xE2, CHR 0x80, CHR 0x9D, CHR 0xE2, CHR 0x82, CHR 0xAC, CHR 0xC3,
      CHR 0xA2, CHR 0xE2, CHR 0x80, CHR 0x9D, CHR 0xE2, CHR 0x82, CHR 0xAC, CHR 0xC3, CHR 0xA2, CHR 0xE2,
      CHR 0x80, CHR 0x9D, CHR 0xE2, CHR 0x82, CHR 0xAC, CHR 0xC3, CHR 0xA2, CHR 0xE2, CHR 0x80, CHR 0x9D,
      CHR 0xE2, CHR 0x82, CHR 0xAC, CHR 0xC3, CHR 0xA2, CHR 0xE2, CHR 0x80, CHR 0x9D, CHR 0xE2, CHR 0x82,
      CHR 0xAC, CHR 0xC3, CHR 0xA2, CHR 0xE2, CHR 0x80, CHR 0x9D, CHR 0xE2, CHR 0x82, CHR 0xAC, CHR 0xC3,
      CHR 0xA2, CHR 0xE2, CHR 0x80, CHR 0x9D, CHR 0xE2, CHR 0x82, CHR 0xAC, CHR 0xC3, CHR 0xA2, CHR 0xE2,
      CHR 0x80, CHR 0x9D, CHR 0xE2, CHR 0x82, CHR 0xAC, CHR 0xC3, CHR 0xA2, CHR 0xE2, CHR 0x80, CHR 0x9D,
      CHR 0xE2, CHR 0x82, CHR 0xAC, CHR 0xC3, CHR 0xA2, CHR 0xE2, CHR 0x80, CHR 0x9D, CHR 0xE2, CHR 0x82,
      CHR 0xAC, CHR 0xC3, CHR 0xA2, CHR 0xE2, CHR 0x80, CHR 0x9D, CHR 0xE2, CHR 0x82, CHR 0xAC, CHR 0xC3,
      CHR 0xA2, CHR 0xE2, CHR 0x80, CHR 0x9D, CHR 0xE2, CHR 0x82, CHR 0xAC, CHR 0xC3, CHR 0xA2, CHR 0xE2,
      CHR 0x80, CHR 0x9D, CHR 0xE2, CHR 0x82, CHR 0xAC, CHR 0xC3, CHR 0xA2, CHR 0xE2, CHR 0x80, CHR 0x9D,
      CHR 0xE2, CHR 0x82, CHR 0xAC, CHR 0xC3, CHR 0xA2, CHR 0xE2, CHR 0x80, CHR 0x9D, CHR 0xE2, CHR 0x82,
      CHR 0xAC, CHR 0xC3, CHR 0xA2, CHR 0xE2, CHR 0x80, CHR 0x9D, CHR 0xE2, CHR 0x82, CHR 0xAC, CHR 0xC3,
      CHR 0xA2, CHR 0xE2, CHR 0x80, CHR 0x9D, CHR 0xE2, CHR 0x82, CHR 0xAC, CHR 0xC3, CHR 0xA2, CHR 0xE2,
      CHR 0x80, CHR 0x9D, CHR 0xE2, CHR 0x82, CHR 0xAC, CHR 0xC3, CHR 0xA2, CHR 0xE2, CHR 0x80, CHR 0x9D,
      CHR 0xE2, CHR 0x82, CHR 0xAC, CHR 0xC3, CHR 0xA2, CHR 0xE2, CHR 0x80, CHR 0x9D, CHR 0xE2, CHR 0x82,
      CHR 0xAC, CHR 0xC3, CHR 0xA2, CHR 0xE2, CHR 0x80, CHR 0x9D, CHR 0xE2, CHR 0x82, CHR 0xAC, CHR 0xC3,
      CHR 0xA2, CHR 0xE2, CHR 0x80, CHR 0x9D, CHR 0xE2, CHR 0x82, CHR 0xAC, CHR 0xC3, CHR 0xA2, CHR 0xE2,
      CHR 0x80, CHR 0x9D, CHR 0xE2, CHR 0x82, CHR 0xAC, CHR 0xC3, CHR 0xA2, CHR 0xE2, CHR 0x80, CHR 0x9D,
      CHR 0xE2, CHR 0x82, CHR 0xAC, CHR 0xC3, CHR 0xA2, CHR 0xE2, CHR 0x80, CHR 0x9D, CHR 0xE2, CHR 0x82,
      CHR 0xAC, CHR 0xC3, CHR 0xA2, CHR 0xE2, CHR 0x80, CHR 0x9D, CHR 0xE2, CHR 0x82, CHR 0xAC, CHR 0xC3,
      CHR 0xA2, CHR 0xE2, CHR 0x80, CHR 0x9D, CHR 0xE2, CHR 0x82, CHR 0xAC, CHR 0xC3, CHR 0xA2, CHR 0xE2,
      CHR 0x80, CHR 0x9D, CHR 0xE2, CHR 0x82, CHR 0xAC, CHR 0xC3, CHR 0xA2, CHR 0xE2, CHR 0x80, CHR 0x9D,
      CHR 0xE2, CHR 0x82, CHR 0xAC, CHR 0xC3, CHR 0xA2, CHR 0xE2, CHR 0x80, CHR 0x9D, CHR 0xE2, CHR 0x82,
      CHR 0xAC, CHR 0xC3, CHR 0xA2, CHR 0xE2, CHR 0x80, CHR 0x9D, CHR 0xE2, CHR 0x82, CHR 0xAC, CHR 0xC3,
      CHR 0xA2, CHR 0xE2, CHR 0x80, CHR 0x9D, CHR 0xE2, CHR 0x82, CHR 0xAC, CHR 0xC3, CHR 0xA2, CHR 0xE2,
      CHR 0x80, CHR 0x9D, CHR 0xE2, CHR 0x82, CHR 0xAC, CHR 0xC3, CHR 0xA2, CHR 0xE2, CHR 0x80, CHR 0x9D,
      CHR 0xE2, CHR 0x82, CHR 0xAC, CHR 0xC3, CHR 0xA2, CHR 0xE2, CHR 0x80, CHR 0x9D, CHR 0xE2, CHR 0x82,
      CHR 0xAC, CHR 0xC3, CHR 0xA2, CHR 0xE2, CHR 0x80, CHR 0x9D, CHR 0xE2, CHR 0x82, CHR 0xAC, CHR 0xC3,
      CHR 0xA2, CHR 0xE2, CHR 0x80, CHR 0x9D, CHR 0xE2, CHR 0x82, CHR 0xAC, CHR 0xC3, CHR 0xA2, CHR 0xE2,
      CHR 0x80, CHR 0x9D, CHR 0xE2, CHR 0x82, CHR 0xAC, CHR 0xC3, CHR 0xA2, CHR 0xE2, CHR 0x80, CHR 0x9D,
      CHR 0xE2, CHR 0x82, CHR 0xAC, CHR 0xC3, CHR 0xA2, CHR 0xE2, CHR 0x80, CHR 0x9D, CHR 0xE2, CHR 0x82,
      CHR 0xAC, CHR 0xC3, CHR 0xA2, CHR 0xE2, CHR 0x80, CHR 0x9D, CHR 0xE2, CHR 0x82, CHR 0xAC, CHR 0xC3,
      CHR 0xA2, CHR 0xE2, CHR 0x80, CHR 0x9D, CHR 0xE2, CHR 0x82, CHR 0xAC, CHR 0xC3, CHR 0xA2, CHR 0xE2,
      CHR 0x80, CHR 0x9D, CHR 0xE2, CHR 0x82, CHR 0xAC, CHR 0xC3, CHR 0xA2, CHR 0xE2, CHR 0x80, CHR 0x9D,
      CHR 0xE2, CHR 0x82, CHR 0xAC, CHR 0xC3, CHR 0xA2, CHR 0xE2, CHR 0x80, CHR 0x9D, CHR 0xE2, CHR 0x82,
      CHR 0xAC, CHR 0xC3, CHR 0xA2, CHR 0xE2, CHR 0x80, CHR 0x9D, CHR 0xE2, CHR 0x82, CHR 0xAC, CHR 0xC3,
      CHR 0xA2, CHR 0xE2, CHR 0x80, CHR 0x9D, CHR 0xE2, CHR 0x82, CHR 0xAC, CHR 0xC3, CHR 0xA2, CHR 0xE2,
      CHR 0x80, CHR 0x9D, CHR 0xE2, CHR 0x82, CHR 0xAC, CHR 0xC3, CHR 0xA2, CHR 0xE2, CHR 0x80, CHR 0x9D,
      CHR 0xE2, CHR 0x82, CHR 0xAC, CHR 0xC3, CHR 0xA2, CHR 0xE2, CHR 0x80, CHR 0x9D] @ ''\<newline>'' @
    [CHR 0xC3, CHR 0xA2, CHR 0xE2, CHR 0x80, CHR 0x9D, CHR 0xE2, CHR 0x80, CHR 0x9A] @ ''                     Load Balancer                        '' @ [CHR 0xC3, CHR 0xA2, CHR 0xE2, CHR 0x80, CHR 0x9D, CHR 0xE2, CHR 0x80, CHR 0x9A] @ ''\<newline>'' @
    [CHR 0xC3, CHR 0xA2, CHR 0xE2, CHR 0x80, CHR 0x9D, CHR 0xE2, CHR 0x80, CHR 0x9D, CHR 0xC3, CHR 0xA2,
      CHR 0xE2, CHR 0x80, CHR 0x9D, CHR 0xE2, CHR 0x82, CHR 0xAC, CHR 0xC3, CHR 0xA2, CHR 0xE2, CHR 0x80,
      CHR 0x9D, CHR 0xE2, CHR 0x82, CHR 0xAC, CHR 0xC3, CHR 0xA2, CHR 0xE2, CHR 0x80, CHR 0x9D, CHR 0xE2,
      CHR 0x82, CHR 0xAC, CHR 0xC3, CHR 0xA2, CHR 0xE2, CHR 0x80, CHR 0x9D, CHR 0xE2, CHR 0x82, CHR 0xAC,
      CHR 0xC3, CHR 0xA2, CHR 0xE2, CHR 0x80, CHR 0x9D, CHR 0xE2, CHR 0x82, CHR 0xAC, CHR 0xC3, CHR 0xA2,
      CHR 0xE2, CHR 0x80, CHR 0x9D, CHR 0xE2, CHR 0x82, CHR 0xAC, CHR 0xC3, CHR 0xA2, CHR 0xE2, CHR 0x80,
      CHR 0x9D, CHR 0xE2, CHR 0x82, CHR 0xAC, CHR 0xC3, CHR 0xA2, CHR 0xE2, CHR 0x80, CHR 0x9D, CHR 0xE2,
      CHR 0x82, CHR 0xAC, CHR 0xC3, CHR 0xA2, CHR 0xE2, CHR 0x80, CHR 0x9D, CHR 0xE2, CHR 0x82, CHR 0xAC,
      CHR 0xC3, CHR 0xA2, CHR 0xE2, CHR 0x80, CHR 0x9D, CHR 0xE2, CHR 0x82, CHR 0xAC, CHR 0xC3, CHR 0xA2,
      CHR 0xE2, CHR 0x80, CHR 0x9D, CHR 0xE2, CHR 0x82, CHR 0xAC, CHR 0xC3, CHR 0xA2, CHR 0xE2, CHR 0x80,
      CHR 0x9D, CHR 0xE2, CHR 0x82, CHR 0xAC, CHR 0xC3, CHR 0xA2, CHR 0xE2, CHR 0x80, CHR 0x9D, CHR 0xE2,
      CHR 0x82, CHR 0xAC, CHR 0xC3, CHR 0xA2, CHR 0xE2, CHR 0x80, CHR 0x9D, CHR 0xE2, CHR 0x82, CHR 0xAC,
      CHR 0xC3, CHR 0xA2, CHR 0xE2, CHR 0x80, CHR 0x9D, CHR 0xE2, CHR 0x82, CHR 0xAC, CHR 0xC3, CHR 0xA2,
      CHR 0xE2, CHR 0x80, CHR 0x9D, CHR 0xE2, CHR 0x82, CHR 0xAC, CHR 0xC3, CHR 0xA2, CHR 0xE2, CHR 0x80,
      CHR 0x9D, CHR 0xE2, CHR 0x82, CHR 0xAC, CHR 0xC3, CHR 0xA2, CHR 0xE2, CHR 0x80, CHR 0x9D, CHR 0xE2,
      CHR 0x82, CHR 0xAC, CHR 0xC3, CHR 0xA2, CHR 0xE2, CHR 0x80, CHR 0x9D, CHR 0xE2, CHR 0x82, CHR 0xAC,
      CHR 0xC3, CHR 0xA2, CHR 0xE2, CHR 0x80, CHR 0x9D, CHR 0xE2, CHR 0x82, CHR 0xAC, CHR 0xC3, CHR 0xA2,
      CHR 0xE2, CHR 0x80, CHR 0x9D, CHR 0xC2, CHR 0xAC, CHR 0xC3, CHR 0xA2, CHR 0xE2, CHR 0x80, CHR 0x9D,
      CHR 0xE2, CHR 0x82, CHR 0xAC, CHR 0xC3, CHR 0xA2, CHR 0xE2, CHR 0x80, CHR 0x9D, CHR 0xE2, CHR 0x82,
      CHR 0xAC, CHR 0xC3, CHR 0xA2, CHR 0xE2, CHR 0x80, CHR 0x9D, CHR 0xE2, CHR 0x82, CHR 0xAC, CHR 0xC3,
      CHR 0xA2, CHR 0xE2, CHR 0x80, CHR 0x9D, CHR 0xE2, CHR 0x82, CHR 0xAC, CHR 0xC3, CHR 0xA2, CHR 0xE2,
      CHR 0x80, CHR 0x9D, CHR 0xE2, CHR 0x82, CHR 0xAC, CHR 0xC3, CHR 0xA2, CHR 0xE2, CHR 0x80, CHR 0x9D,
      CHR 0xE2, CHR 0x82, CHR 0xAC, CHR 0xC3, CHR 0xA2, CHR 0xE2, CHR 0x80, CHR 0x9D, CHR 0xE2, CHR 0x82,
      CHR 0xAC, CHR 0xC3, CHR 0xA2, CHR 0xE2, CHR 0x80, CHR 0x9D, CHR 0xE2, CHR 0x82, CHR 0xAC, CHR 0xC3,
      CHR 0xA2, CHR 0xE2, CHR 0x80, CHR 0x9D, CHR 0xE2, CHR 0x82, CHR 0xAC, CHR 0xC3, CHR 0xA2, CHR 0xE2,
      CHR 0x80, CHR 0x9D, CHR 0xE2, CHR 0x82, CHR 0xAC, CHR 0xC3, CHR 0xA2, CHR 0xE2, CHR 0x80, CHR 0x9D,
      CHR 0xE2, CHR 0x82, CHR 0xAC, CHR 0xC3, CHR 0xA2, CHR 0xE2, CHR 0x80, CHR 0x9D, CHR 0xE2, CHR 0x82,
      CHR 0xAC, CHR 0xC3, CHR 0xA2, CHR 0xE2, CHR 0x80, CHR 0x9D, CHR 0xE2, CHR 0x82, CHR 0xAC, CHR 0xC3,
      CHR 0xA2, CHR 0xE2, CHR 0x80, CHR 0x9D, CHR 0xE2, CHR 0x82, CHR 0xAC, CHR 0xC3, CHR 0xA2, CHR 0xE2,
      CHR 0x80, CHR 0x9D, CHR 0xE2, CHR 0x82, CHR 0xAC, CHR 0xC3, CHR 0xA2, CHR 0xE2, CHR 0x80, CHR 0x9D,
      CHR 0xE2, CHR 0x82, CHR 0xAC, CHR 0xC3, CHR 0xA2, CHR 0xE2, CHR 0x80, CHR 0x9D, CHR 0xE2, CHR 0x82,
      CHR 0xAC, CHR 0xC3, CHR 0xA2, CHR 0xE2, CHR 0x80, CHR 0x9D, CHR 0xE2, CHR 0x82, CHR 0xAC, CHR 0xC3,
      CHR 0xA2, CHR 0xE2, CHR 0x80, CHR 0x9D, CHR 0xE2, CHR 0x82, CHR 0xAC, CHR 0xC3, CHR 0xA2, CHR 0xE2,
      CHR 0x80, CHR 0x9D, CHR 0xE2, CHR 0x82, CHR 0xAC, CHR 0xC3, CHR 0xA2, CHR 0xE2, CHR 0x80, CHR 0x9D,
      CHR 0xE2, CHR 0x82, CHR 0xAC, CHR 0xC3, CHR 0xA2, CHR 0xE2, CHR 0x80, CHR 0x9D, CHR 0xE2, CHR 0x82,
      CHR 0xAC, CHR 0xC3, CHR 0xA2, CHR 0xE2, CHR 0x80, CHR 0x9D, CHR 0xE2, CHR 0x82, CHR 0xAC, CHR 0xC3,
      CHR 0xA2, CHR 0xE2, CHR 0x80, CHR 0x9D, CHR 0xE2, CHR 0x82, CHR 0xAC, CHR 0xC3, CHR 0xA2, CHR 0xE2,
      CHR 0x80, CHR 0x9D, CHR 0xE2, CHR 0x82, CHR 0xAC, CHR 0xC3, CHR 0xA2, CHR 0xE2, CHR 0x80, CHR 0x9D,
      CHR 0xE2, CHR 0x82, CHR 0xAC, CHR 0xC3, CHR 0xA2, CHR 0xE2, CHR 0x80, CHR 0x9D, CHR 0xE2, CHR 0x82,
      CHR 0xAC, CHR 0xC3, CHR 0xA2, CHR 0xE2, CHR 0x80, CHR 0x9D, CHR 0xE2, CHR 0x82, CHR 0xAC, CHR 0xC3,
      CHR 0xA2, CHR 0xE2, CHR 0x80, CHR 0x9D, CHR 0xE2, CHR 0x82, CHR 0xAC, CHR 0xC3, CHR 0xA2, CHR 0xE2,
      CHR 0x80, CHR 0x9D, CHR 0xE2, CHR 0x82, CHR 0xAC, CHR 0xC3, CHR 0xA2, CHR 0xE2, CHR 0x80, CHR 0x9D,
      CHR 0xE2, CHR 0x82, CHR 0xAC, CHR 0xC3, CHR 0xA2, CHR 0xE2, CHR 0x80, CHR 0x9D, CHR 0xE2, CHR 0x82,
      CHR 0xAC, CHR 0xC3, CHR 0xA2, CHR 0xE2, CHR 0x80, CHR 0x9D, CHR 0xE2, CHR 0x82, CHR 0xAC, CHR 0xC3,
      CHR 0xA2, CHR 0xE2, CHR 0x80, CHR 0x9D, CHR 0xE2, CHR 0x82, CHR 0xAC, CHR 0xC3, CHR 0xA2, CHR 0xE2,
      CHR 0x80, CHR 0x9D, CHR 0xE2, CHR 0x82, CHR 0xAC, CHR 0xC3, CHR 0xA2, CHR 0xE2, CHR 0x80, CHR 0x9D,
      CHR 0xE2, CHR 0x82, CHR 0xAC, CHR 0xC3, CHR 0xA2, CHR 0xE2, CHR 0x80, CHR 0x9D, CHR 0xCB, CHR 0x9C] @ ''\<newline>'' @
    ''                     '' @ [CHR 0xC3, CHR 0xA2, CHR 0xE2, CHR 0x80, CHR 0x9D, CHR 0xE2, CHR 0x80, CHR 0x9A] @ ''\<newline>'' @
    ''        '' @ [CHR 0xC3, CHR 0xA2, CHR 0xE2, CHR 0x80, CHR 0x9D, CHR 0xC5, CHR 0x92, CHR 0xC3, CHR 0xA2, CHR 0xE2,
      CHR 0x80, CHR 0x9D, CHR 0xE2, CHR 0x82, CHR 0xAC, CHR 0xC3, CHR 0xA2, CHR 0xE2, CHR 0x80, CHR 0x9D,
      CHR 0xE2, CHR 0x82, CHR 0xAC, CHR 0xC3, CHR 0xA2, CHR 0xE2, CHR 0x80, CHR 0x9D, CHR 0xE2, CHR 0x82,
      CHR 0xAC, CHR 0xC3, CHR 0xA2, CHR 0xE2, CHR 0x80, CHR 0x9D, CHR 0xE2, CHR 0x82, CHR 0xAC, CHR 0xC3,
      CHR 0xA2, CHR 0xE2, CHR 0x80, CHR 0x9D, CHR 0xE2, CHR 0x82, CHR 0xAC, CHR 0xC3, CHR 0xA2, CHR 0xE2,
      CHR 0x80, CHR 0x9D, CHR 0xE2, CHR 0x82, CHR 0xAC, CHR 0xC3, CHR 0xA2, CHR 0xE2, CHR 0x80, CHR 0x9D,
      CHR 0xE2, CHR 0x82, CHR 0xAC, CHR 0xC3, CHR 0xA2, CHR 0xE2, CHR 0x80, CHR 0x9D, CHR 0xE2, CHR 0x82,
      CHR 0xAC, CHR 0xC3, CHR 0xA2, CHR 0xE2, CHR 0x80, CHR 0x9D, CHR 0xE2, CHR 0x82, CHR 0xAC, CHR 0xC3,
      CHR 0xA2, CHR 0xE2, CHR 0x80, CHR 0x9D, CHR 0xE2, CHR 0x82, CHR 0xAC, CHR 0xC3, CHR 0xA2, CHR 0xE2,
      CHR 0x80, CHR 0x9D, CHR 0xE2, CHR 0x82, CHR 0xAC, CHR 0xC3, CHR 0xA2, CHR 0xE2, CHR 0x80, CHR 0x9D,
      CHR 0xE2, CHR 0x82, CHR 0xAC, CHR 0xC3, CHR 0xA2, CHR 0xE2, CHR 0x80, CHR 0x9D, CHR 0xC2, CHR 0xB4,
      CHR 0xC3, CHR 0xA2, CHR 0xE2, CHR 0x80, CHR 0x9D, CHR 0xE2, CHR 0x82, CHR 0xAC, CHR 0xC3, CHR 0xA2,
      CHR 0xE2, CHR 0x80, CHR 0x9D, CHR 0xE2, CHR 0x82, CHR 0xAC, CHR 0xC3, CHR 0xA2, CHR 0xE2, CHR 0x80,
      CHR 0x9D, CHR 0xE2, CHR 0x82, CHR 0xAC, CHR 0xC3, CHR 0xA2, CHR 0xE2, CHR 0x80, CHR 0x9D, CHR 0xE2,
      CHR 0x82, CHR 0xAC, CHR 0xC3, CHR 0xA2, CHR 0xE2, CHR 0x80, CHR 0x9D, CHR 0xE2, CHR 0x82, CHR 0xAC,
      CHR 0xC3, CHR 0xA2, CHR 0xE2, CHR 0x80, CHR 0x9D, CHR 0xE2, CHR 0x82, CHR 0xAC, CHR 0xC3, CHR 0xA2,
      CHR 0xE2, CHR 0x80, CHR 0x9D, CHR 0xE2, CHR 0x82, CHR 0xAC, CHR 0xC3, CHR 0xA2, CHR 0xE2, CHR 0x80,
      CHR 0x9D, CHR 0xE2, CHR 0x82, CHR 0xAC, CHR 0xC3, CHR 0xA2, CHR 0xE2, CHR 0x80, CHR 0x9D, CHR 0xE2,
      CHR 0x82, CHR 0xAC, CHR 0xC3, CHR 0xA2, CHR 0xE2, CHR 0x80, CHR 0x9D, CHR 0xE2, CHR 0x82, CHR 0xAC,
      CHR 0xC3, CHR 0xA2, CHR 0xE2, CHR 0x80, CHR 0x9D, CHR 0xE2, CHR 0x82, CHR 0xAC, CHR 0xC3, CHR 0xA2,
      CHR 0xE2, CHR 0x80, CHR 0x9D, CHR 0xE2, CHR 0x82, CHR 0xAC, CHR 0xC3, CHR 0xA2, CHR 0xE2, CHR 0x80,
      CHR 0x9D] @ ''\<newline>'' @
    ''        '' @ [CHR 0xC3, CHR 0xA2, CHR 0xE2, CHR 0x80, CHR 0x9D, CHR 0xE2, CHR 0x80, CHR 0x9A] @ ''                         '' @ [CHR 0xC3, CHR 0xA2, CHR 0xE2, CHR 0x80, CHR 0x9D, CHR 0xE2, CHR 0x80, CHR 0x9A] @ ''\<newline>'' @
    ''   '' @ [CHR 0xC3, CHR 0xA2, CHR 0xE2, CHR 0x80, CHR 0x9D, CHR 0xC5, CHR 0x92, CHR 0xC3, CHR 0xA2, CHR 0xE2,
      CHR 0x80, CHR 0x9D, CHR 0xE2, CHR 0x82, CHR 0xAC, CHR 0xC3, CHR 0xA2, CHR 0xE2, CHR 0x80, CHR 0x9D,
      CHR 0xE2, CHR 0x82, CHR 0xAC, CHR 0xC3, CHR 0xA2, CHR 0xE2, CHR 0x80, CHR 0x9D, CHR 0xE2, CHR 0x82,
      CHR 0xAC, CHR 0xC3, CHR 0xA2, CHR 0xE2, CHR 0x80, CHR 0x9D, CHR 0xE2, CHR 0x82, CHR 0xAC, CHR 0xC3,
      CHR 0xA2, CHR 0xE2, CHR 0x80, CHR 0x93, CHR 0xC2, CHR 0xBC, CHR 0xC3, CHR 0xA2, CHR 0xE2, CHR 0x80,
      CHR 0x9D, CHR 0xE2, CHR 0x82, CHR 0xAC, CHR 0xC3, CHR 0xA2, CHR 0xE2, CHR 0x80, CHR 0x9D, CHR 0xE2,
      CHR 0x82, CHR 0xAC, CHR 0xC3, CHR 0xA2, CHR 0xE2, CHR 0x80, CHR 0x9D, CHR 0xE2, CHR 0x82, CHR 0xAC,
      CHR 0xC3, CHR 0xA2, CHR 0xE2, CHR 0x80, CHR 0x9D, CHR 0xE2, CHR 0x82, CHR 0xAC, CHR 0xC3, CHR 0xA2,
      CHR 0xE2, CHR 0x80, CHR 0x9D, CHR 0xE2, CHR 0x82, CHR 0xAC, CHR 0xC3, CHR 0xA2, CHR 0xE2, CHR 0x80,
      CHR 0x9D] @ ''            '' @ [CHR 0xC3, CHR 0xA2, CHR 0xE2, CHR 0x80, CHR 0x9D, CHR 0xC5, CHR 0x92, CHR 0xC3, CHR 0xA2, CHR 0xE2,
      CHR 0x80, CHR 0x9D, CHR 0xE2, CHR 0x82, CHR 0xAC, CHR 0xC3, CHR 0xA2, CHR 0xE2, CHR 0x80, CHR 0x9D,
      CHR 0xE2, CHR 0x82, CHR 0xAC, CHR 0xC3, CHR 0xA2, CHR 0xE2, CHR 0x80, CHR 0x9D, CHR 0xE2, CHR 0x82,
      CHR 0xAC, CHR 0xC3, CHR 0xA2, CHR 0xE2, CHR 0x80, CHR 0x9D, CHR 0xE2, CHR 0x82, CHR 0xAC, CHR 0xC3,
      CHR 0xA2, CHR 0xE2, CHR 0x80, CHR 0x9D, CHR 0xE2, CHR 0x82, CHR 0xAC, CHR 0xC3, CHR 0xA2, CHR 0xE2,
      CHR 0x80, CHR 0x93, CHR 0xC2, CHR 0xBC, CHR 0xC3, CHR 0xA2, CHR 0xE2, CHR 0x80, CHR 0x9D, CHR 0xE2,
      CHR 0x82, CHR 0xAC, CHR 0xC3, CHR 0xA2, CHR 0xE2, CHR 0x80, CHR 0x9D, CHR 0xE2, CHR 0x82, CHR 0xAC,
      CHR 0xC3, CHR 0xA2, CHR 0xE2, CHR 0x80, CHR 0x9D, CHR 0xE2, CHR 0x82, CHR 0xAC, CHR 0xC3, CHR 0xA2,
      CHR 0xE2, CHR 0x80, CHR 0x9D, CHR 0xE2, CHR 0x82, CHR 0xAC, CHR 0xC3, CHR 0xA2, CHR 0xE2, CHR 0x80,
      CHR 0x9D] @ ''\<newline>'' @
    ''   '' @ [CHR 0xC3, CHR 0xA2, CHR 0xE2, CHR 0x80, CHR 0x9D, CHR 0xE2, CHR 0x80, CHR 0x9A] @ ''   AWS    '' @ [CHR 0xC3, CHR 0xA2, CHR 0xE2, CHR 0x80, CHR 0x9D, CHR 0xE2, CHR 0x80, CHR 0x9A] @ ''            '' @ [CHR 0xC3, CHR 0xA2, CHR 0xE2, CHR 0x80, CHR 0x9D, CHR 0xE2, CHR 0x80, CHR 0x9A] @ ''   GCP    '' @ [CHR 0xC3, CHR 0xA2, CHR 0xE2, CHR 0x80, CHR 0x9D, CHR 0xE2, CHR 0x80, CHR 0x9A] @ ''\<newline>'' @
    ''   '' @ [CHR 0xC3, CHR 0xA2, CHR 0xE2, CHR 0x80, CHR 0x9D, CHR 0xE2, CHR 0x80, CHR 0x9A] @ ''   EKS    '' @ [CHR 0xC3, CHR 0xA2, CHR 0xE2, CHR 0x80, CHR 0x9D, CHR 0xE2, CHR 0x80, CHR 0x9A] @ ''            '' @ [CHR 0xC3, CHR 0xA2, CHR 0xE2, CHR 0x80, CHR 0x9D, CHR 0xE2, CHR 0x80, CHR 0x9A] @ ''   GKE    '' @ [CHR 0xC3, CHR 0xA2, CHR 0xE2, CHR 0x80, CHR 0x9D, CHR 0xE2, CHR 0x80, CHR 0x9A] @ ''\<newline>'' @
    ''   '' @ [CHR 0xC3, CHR 0xA2, CHR 0xE2, CHR 0x80, CHR 0x9D, CHR 0xE2, CHR 0x80, CHR 0x9D, CHR 0xC3, CHR 0xA2,
      CHR 0xE2, CHR 0x80, CHR 0x9D, CHR 0xE2, CHR 0x82, CHR 0xAC, CHR 0xC3, CHR 0xA2, CHR 0xE2, CHR 0x80,
      CHR 0x9D, CHR 0xE2, CHR 0x82, CHR 0xAC, CHR 0xC3, CHR 0xA2, CHR 0xE2, CHR 0x80, CHR 0x9D, CHR 0xE2,
      CHR 0x82, CHR 0xAC, CHR 0xC3, CHR 0xA2, CHR 0xE2, CHR 0x80, CHR 0x9D, CHR 0xE2, CHR 0x82, CHR 0xAC,
      CHR 0xC3, CHR 0xA2, CHR 0xE2, CHR 0x80, CHR 0x9D, CHR 0xC2, CHR 0xAC, CHR 0xC3, CHR 0xA2, CHR 0xE2,
      CHR 0x80, CHR 0x9D, CHR 0xE2, CHR 0x82, CHR 0xAC, CHR 0xC3, CHR 0xA2, CHR 0xE2, CHR 0x80, CHR 0x9D,
      CHR 0xE2, CHR 0x82, CHR 0xAC, CHR 0xC3, CHR 0xA2, CHR 0xE2, CHR 0x80, CHR 0x9D, CHR 0xE2, CHR 0x82,
      CHR 0xAC, CHR 0xC3, CHR 0xA2, CHR 0xE2, CHR 0x80, CHR 0x9D, CHR 0xE2, CHR 0x82, CHR 0xAC, CHR 0xC3,
      CHR 0xA2, CHR 0xE2, CHR 0x80, CHR 0x9D, CHR 0xE2, CHR 0x82, CHR 0xAC, CHR 0xC3, CHR 0xA2, CHR 0xE2,
      CHR 0x80, CHR 0x9D, CHR 0xCB, CHR 0x9C] @ ''            '' @ [CHR 0xC3, CHR 0xA2, CHR 0xE2, CHR 0x80, CHR 0x9D, CHR 0xE2, CHR 0x80, CHR 0x9D, CHR 0xC3, CHR 0xA2,
      CHR 0xE2, CHR 0x80, CHR 0x9D, CHR 0xE2, CHR 0x82, CHR 0xAC, CHR 0xC3, CHR 0xA2, CHR 0xE2, CHR 0x80,
      CHR 0x9D, CHR 0xE2, CHR 0x82, CHR 0xAC, CHR 0xC3, CHR 0xA2, CHR 0xE2, CHR 0x80, CHR 0x9D, CHR 0xE2,
      CHR 0x82, CHR 0xAC, CHR 0xC3, CHR 0xA2, CHR 0xE2, CHR 0x80, CHR 0x9D, CHR 0xE2, CHR 0x82, CHR 0xAC,
      CHR 0xC3, CHR 0xA2, CHR 0xE2, CHR 0x80, CHR 0x9D, CHR 0xE2, CHR 0x82, CHR 0xAC, CHR 0xC3, CHR 0xA2,
      CHR 0xE2, CHR 0x80, CHR 0x9D, CHR 0xC2, CHR 0xAC, CHR 0xC3, CHR 0xA2, CHR 0xE2, CHR 0x80, CHR 0x9D,
      CHR 0xE2, CHR 0x82, CHR 0xAC, CHR 0xC3, CHR 0xA2, CHR 0xE2, CHR 0x80, CHR 0x9D, CHR 0xE2, CHR 0x82,
      CHR 0xAC, CHR 0xC3, CHR 0xA2, CHR 0xE2, CHR 0x80, CHR 0x9D, CHR 0xE2, CHR 0x82, CHR 0xAC, CHR 0xC3,
      CHR 0xA2, CHR 0xE2, CHR 0x80, CHR 0x9D, CHR 0xE2, CHR 0x82, CHR 0xAC, CHR 0xC3, CHR 0xA2, CHR 0xE2,
      CHR 0x80, CHR 0x9D, CHR 0xCB, CHR 0x9C] @ ''\<newline>'' @
    ''        '' @ [CHR 0xC3, CHR 0xA2, CHR 0xE2, CHR 0x80, CHR 0x9D, CHR 0xE2, CHR 0x80, CHR 0x9A] @ ''                         '' @ [CHR 0xC3, CHR 0xA2, CHR 0xE2, CHR 0x80, CHR 0x9D, CHR 0xE2, CHR 0x80, CHR 0x9A] @ ''\<newline>'' @
    ''   '' @ [CHR 0xC3, CHR 0xA2, CHR 0xE2, CHR 0x80, CHR 0x9D, CHR 0xC5, CHR 0x92, CHR 0xC3, CHR 0xA2, CHR 0xE2,
      CHR 0x80, CHR 0x9D, CHR 0xE2, CHR 0x82, CHR 0xAC, CHR 0xC3, CHR 0xA2, CHR 0xE2, CHR 0x80, CHR 0x9D,
      CHR 0xE2, CHR 0x82, CHR 0xAC, CHR 0xC3, CHR 0xA2, CHR 0xE2, CHR 0x80, CHR 0x9D, CHR 0xE2, CHR 0x82,
      CHR 0xAC, CHR 0xC3, CHR 0xA2, CHR 0xE2, CHR 0x80, CHR 0x9D, CHR 0xE2, CHR 0x82, CHR 0xAC, CHR 0xC3,
      CHR 0xA2, CHR 0xE2, CHR 0x80, CHR 0x93, CHR 0xC2, CHR 0xBC, CHR 0xC3, CHR 0xA2, CHR 0xE2, CHR 0x80,
      CHR 0x9D, CHR 0xE2, CHR 0x82, CHR 0xAC, CHR 0xC3, CHR 0xA2, CHR 0xE2, CHR 0x80, CHR 0x9D, CHR 0xE2,
      CHR 0x82, CHR 0xAC, CHR 0xC3, CHR 0xA2, CHR 0xE2, CHR 0x80, CHR 0x9D, CHR 0xE2, CHR 0x82, CHR 0xAC,
      CHR 0xC3, CHR 0xA2, CHR 0xE2, CHR 0x80, CHR 0x9D, CHR 0xE2, CHR 0x82, CHR 0xAC, CHR 0xC3, CHR 0xA2,
      CHR 0xE2, CHR 0x80, CHR 0x9D, CHR 0xE2, CHR 0x82, CHR 0xAC, CHR 0xC3, CHR 0xA2, CHR 0xE2, CHR 0x80,
      CHR 0x9D, CHR 0xE2, CHR 0x82, CHR 0xAC, CHR 0xC3, CHR 0xA2, CHR 0xE2, CHR 0x80, CHR 0x9D, CHR 0xE2,
      CHR 0x82, CHR 0xAC, CHR 0xC3, CHR 0xA2, CHR 0xE2, CHR 0x80, CHR 0x9D, CHR 0xE2, CHR 0x82, CHR 0xAC,
      CHR 0xC3, CHR 0xA2, CHR 0xE2, CHR 0x80, CHR 0x9D, CHR 0xE2, CHR 0x82, CHR 0xAC, CHR 0xC3, CHR 0xA2,
      CHR 0xE2, CHR 0x80, CHR 0x9D, CHR 0xE2, CHR 0x82, CHR 0xAC, CHR 0xC3, CHR 0xA2, CHR 0xE2, CHR 0x80,
      CHR 0x9D, CHR 0xE2, CHR 0x82, CHR 0xAC, CHR 0xC3, CHR 0xA2, CHR 0xE2, CHR 0x80, CHR 0x9D, CHR 0xE2,
      CHR 0x82, CHR 0xAC, CHR 0xC3, CHR 0xA2, CHR 0xE2, CHR 0x80, CHR 0x9D, CHR 0xE2, CHR 0x82, CHR 0xAC,
      CHR 0xC3, CHR 0xA2, CHR 0xE2, CHR 0x80, CHR 0x9D, CHR 0xE2, CHR 0x82, CHR 0xAC, CHR 0xC3, CHR 0xA2,
      CHR 0xE2, CHR 0x80, CHR 0x9D, CHR 0xE2, CHR 0x82, CHR 0xAC, CHR 0xC3, CHR 0xA2, CHR 0xE2, CHR 0x80,
      CHR 0x9D, CHR 0xE2, CHR 0x82, CHR 0xAC, CHR 0xC3, CHR 0xA2, CHR 0xE2, CHR 0x80, CHR 0x9D, CHR 0xE2,
      CHR 0x82, CHR 0xAC, CHR 0xC3, CHR 0xA2, CHR 0xE2, CHR 0x80, CHR 0x9D, CHR 0xE2, CHR 0x82, CHR 0xAC,
      CHR 0xC3, CHR 0xA2, CHR 0xE2, CHR 0x80, CHR 0x9D, CHR 0xE2, CHR 0x82, CHR 0xAC, CHR 0xC3, CHR 0xA2,
      CHR 0xE2, CHR 0x80, CHR 0x9D, CHR 0xE2, CHR 0x82, CHR 0xAC, CHR 0xC3, CHR 0xA2, CHR 0xE2, CHR 0x80,
      CHR 0x9D, CHR 0xE2, CHR 0x82, CHR 0xAC, CHR 0xC3, CHR 0xA2, CHR 0xE2, CHR 0x80, CHR 0x9D, CHR 0xE2,
      CHR 0x82, CHR 0xAC, CHR 0xC3, CHR 0xA2, CHR 0xE2, CHR 0x80, CHR 0x9D, CHR 0xC2, CHR 0xAC, CHR 0xC3,
      CHR 0xA2, CHR 0xE2, CHR 0x80, CHR 0x9D, CHR 0xE2, CHR 0x82, CHR 0xAC, CHR 0xC3, CHR 0xA2, CHR 0xE2,
      CHR 0x80, CHR 0x9D, CHR 0xE2, CHR 0x82, CHR 0xAC, CHR 0xC3, CHR 0xA2, CHR 0xE2, CHR 0x80, CHR 0x93,
      CHR 0xC2, CHR 0xBC, CHR 0xC3, CHR 0xA2, CHR 0xE2, CHR 0x80, CHR 0x9D, CHR 0xE2, CHR 0x82, CHR 0xAC,
      CHR 0xC3, CHR 0xA2, CHR 0xE2, CHR 0x80, CHR 0x9D, CHR 0xE2, CHR 0x82, CHR 0xAC, CHR 0xC3, CHR 0xA2,
      CHR 0xE2, CHR 0x80, CHR 0x9D, CHR 0xE2, CHR 0x82, CHR 0xAC, CHR 0xC3, CHR 0xA2, CHR 0xE2, CHR 0x80,
      CHR 0x9D, CHR 0xE2, CHR 0x82, CHR 0xAC, CHR 0xC3, CHR 0xA2, CHR 0xE2, CHR 0x80, CHR 0x9D] @ ''\<newline>'' @
    ''   '' @ [CHR 0xC3, CHR 0xA2, CHR 0xE2, CHR 0x80, CHR 0x9D, CHR 0xE2, CHR 0x80, CHR 0x9A] @ ''  Inference API (FastAPI)  '' @ [CHR 0xC3, CHR 0xA2, CHR 0xE2, CHR 0x80, CHR 0x9D, CHR 0xE2, CHR 0x80, CHR 0x9A] @ ''  GPU  '' @ [CHR 0xC3, CHR 0xA2, CHR 0xE2, CHR 0x80, CHR 0x9D, CHR 0xE2, CHR 0x80, CHR 0x9A] @ ''\<newline>'' @
    ''   '' @ [CHR 0xC3, CHR 0xA2, CHR 0xE2, CHR 0x80, CHR 0x9D, CHR 0xE2, CHR 0x80, CHR 0x9A] @ ''  + Redis Cache            '' @ [CHR 0xC3, CHR 0xA2, CHR 0xE2, CHR 0x80, CHR 0x9D, CHR 0xE2, CHR 0x80, CHR 0x9A] @ '' Nodes '' @ [CHR 0xC3, CHR 0xA2, CHR 0xE2, CHR 0x80, CHR 0x9D, CHR 0xE2, CHR 0x80, CHR 0x9A] @ ''\<newline>'' @
    ''   '' @ [CHR 0xC3, CHR 0xA2, CHR 0xE2, CHR 0x80, CHR 0x9D, CHR 0xC5, CHR 0x93, CHR 0xC3, CHR 0xA2, CHR 0xE2,
      CHR 0x80, CHR 0x9D, CHR 0xE2, CHR 0x82, CHR 0xAC, CHR 0xC3, CHR 0xA2, CHR 0xE2, CHR 0x80, CHR 0x9D,
      CHR 0xE2, CHR 0x82, CHR 0xAC, CHR 0xC3, CHR 0xA2, CHR 0xE2, CHR 0x80, CHR 0x9D, CHR 0xE2, CHR 0x82,
      CHR 0xAC, CHR 0xC3, CHR 0xA2, CHR 0xE2, CHR 0x80, CHR 0x9D, CHR 0xE2, CHR 0x82, CHR 0xAC, CHR 0xC3,
      CHR 0xA2, CHR 0xE2, CHR 0x80, CHR 0x9D, CHR 0xE2, CHR 0x82, CHR 0xAC, CHR 0xC3, CHR 0xA2, CHR 0xE2,
      CHR 0x80, CHR 0x9D, CHR 0xE2, CHR 0x82, CHR 0xAC, CHR 0xC3, CHR 0xA2, CHR 0xE2, CHR 0x80, CHR 0x9D,
      CHR 0xE2, CHR 0x82, CHR 0xAC, CHR 0xC3, CHR 0xA2, CHR 0xE2, CHR 0x80, CHR 0x9D, CHR 0xE2, CHR 0x82,
      CHR 0xAC, CHR 0xC3, CHR 0xA2, CHR 0xE2, CHR 0x80, CHR 0x9D, CHR 0xE2, CHR 0x82, CHR 0xAC, CHR 0xC3,
      CHR 0xA2, CHR 0xE2, CHR 0x80, CHR 0x9D, CHR 0xE2, CHR 0x82, CHR 0xAC, CHR 0xC3, CHR 0xA2, CHR 0xE2,
      CHR 0x80, CHR 0x9D, CHR 0xE2, CHR 0x82, CHR 0xAC, CHR 0xC3, CHR 0xA2, CHR 0xE2, CHR 0x80, CHR 0x9D,
      CHR 0xE2, CHR 0x82, CHR 0xAC, CHR 0xC3, CHR 0xA2, CHR 0xE2, CHR 0x80, CHR 0x9D, CHR 0xE2, CHR 0x82,
      CHR 0xAC, CHR 0xC3, CHR 0xA2, CHR 0xE2, CHR 0x80, CHR 0x9D, CHR 0xE2, CHR 0x82, CHR 0xAC, CHR 0xC3,
      CHR 0xA2, CHR 0xE2, CHR 0x80, CHR 0x9D, CHR 0xE2, CHR 0x82, CHR 0xAC, CHR 0xC3, CHR 0xA2, CHR 0xE2,
      CHR 0x80, CHR 0x9D, CHR 0xE2, CHR 0x82, CHR 0xAC, CHR 0xC3, CHR 0xA2, CHR 0xE2, CHR 0x80, CHR 0x9D,
      CHR 0xE2, CHR 0x82, CHR 0xAC, CHR 0xC3, CHR 0xA2, CHR 0xE2, CHR 0x80, CHR 0x9D, CHR 0xE2, CHR 0x82,
      CHR 0xAC, CHR 0xC3, CHR 0xA2, CHR 0xE2, CHR 0x80, CHR 0x9D, CHR 0xE2, CHR 0x82, CHR 0xAC, CHR 0xC3,
      CHR 0xA2, CHR 0xE2, CHR 0x80, CHR 0x9D, CHR 0xE2, CHR 0x82, CHR 0xAC, CHR 0xC3, CHR 0xA2, CHR 0xE2,
      CHR 0x80, CHR 0x9D, CHR 0xE2, CHR 0x82, CHR 0xAC, CHR 0xC3, CHR 0xA2, CHR 0xE2, CHR 0x80, CHR 0x9D,
      CHR 0xE2, CHR 0x82, CHR 0xAC, CHR 0xC3, CHR 0xA2, CHR 0xE2, CHR 0x80, CHR 0x9D, CHR 0xE2, CHR 0x82,
      CHR 0xAC, CHR 0xC3, CHR 0xA2, CHR 0xE2, CHR 0x80, CHR 0x9D, CHR 0xE2, CHR 0x82, CHR 0xAC, CHR 0xC3,
      CHR 0xA2, CHR 0xE2, CHR 0x80, CHR 0x9D, CHR 0xE2, CHR 0x82, CHR 0xAC, CHR 0xC3, CHR 0xA2, CHR 0xE2,
      CHR 0x80, CHR 0x9D, CHR 0xE2, CHR 0x82, CHR 0xAC, CHR 0xC3, CHR 0xA2, CHR 0xE2, CHR 0x80, CHR 0x9D,
      CHR 0xE2, CHR 0x82, CHR 0xAC, CHR 0xC3, CHR 0xA2, CHR 0xE2, CHR 0x80, CHR 0x9D, CHR 0xC2, CHR 0xB4,
      CHR 0xC3, CHR 0xA2, CHR 0xE2, CHR 0x80, CHR 0x9D, CHR 0xE2, CHR 0x82, CHR 0xAC, CHR 0xC3, CHR 0xA2,
      CHR 0xE2, CHR 0x80, CHR 0x9D, CHR 0xE2, CHR 0x82, CHR 0xAC, CHR 0xC3, CHR 0xA2, CHR 0xE2, CHR 0x80,
      CHR 0x9D, CHR 0xE2, CHR 0x82, CHR 0xAC, CHR 0xC3, CHR 0xA2, CHR 0xE2, CHR 0x80, CHR 0x9D, CHR 0xE2,
      CHR 0x82, CHR 0xAC, CHR 0xC3, CHR 0xA2, CHR 0xE2, CHR 0x80, CHR 0x9D, CHR 0xE2, CHR 0x82, CHR 0xAC,
      CHR 0xC3, CHR 0xA2, CHR 0xE2, CHR 0x80, CHR 0x9D, CHR 0xE2, CHR 0x82, CHR 0xAC, CHR 0xC3, CHR 0xA2,
      CHR 0xE2, CHR 0x80, CHR 0x9D, CHR 0xE2, CHR 0x82, CHR 0xAC, CHR 0xC3, CHR 0xA2, CHR 0xE2, CHR 0x80,
      CHR 0x9D, CHR 0xC2, CHR 0xA4] @ ''\<newline>'' @
    ''   '' @ [CHR 0xC3, CHR 0xA2, CHR 0xE2, CHR 0x80, CHR 0x9D, CHR 0xE2, CHR 0x80, CHR 0x9A] @ ''    Monitoring (Prometheus)        '' @ [CHR 0xC3, CHR 0xA2, CHR 0xE2, CHR 0x80, CHR 0x9D, CHR 0xE2, CHR 0x80, CHR 0x9A] @ ''\<newline>'' @
    ''   '' @ [CHR 0xC3, CHR 0xA2, CHR 0xE2, CHR 0x80, CHR 0x9D, CHR 0xE2, CHR 0x80, CHR 0x9A] @ ''    Logging (Loki)                 '' @ [CHR 0xC3, CHR 0xA2, CHR 0xE2, CHR 0x80, CHR 0x9D, CHR 0xE2, CHR 0x80, CHR 0x9A] @ ''\<newline>'' @
    ''   '' @ [CHR 0xC3, CHR 0xA2, CHR 0xE2, CHR 0x80, CHR 0x9D, CHR 0xE2, CHR 0x80, CHR 0x9A] @ ''    Dashboards (Grafana)           '' @ [CHR 0xC3, CHR 0xA2, CHR 0xE2, CHR 0x80, CHR 0x9D, CHR 0xE2, CHR 0x80, CHR 0x9A] @ ''\<newline>'' @
    ''   '' @ [CHR 0xC3, CHR 0xA2, CHR 0xE2, CHR 0x80, CHR 0x9D, CHR 0xE2, CHR 0x80, CHR 0x9D, CHR 0xC3, CHR 0xA2,
      CHR 0xE2, CHR 0x80, CHR 0x9D, CHR 0xE2, CHR 0x82, CHR 0xAC, CHR 0xC3, CHR 0xA2, CHR 0xE2, CHR 0x80,
      CHR 0x9D, CHR 0xE2, CHR 0x82, CHR 0xAC, CHR 0xC3, CHR 0xA2, CHR 0xE2, CHR 0x80, CHR 0x9D, CHR 0xE2,
      CHR 0x82, CHR 0xAC, CHR 0xC3, CHR 0xA2, CHR 0xE2, CHR 0x80, CHR 0x9D, CHR 0xE2, CHR 0x82, CHR 0xAC,
      CHR 0xC3, CHR 0xA2, CHR 0xE2, CHR 0x80, CHR 0x9D, CHR 0xE2, CHR 0x82, CHR 0xAC, CHR 0xC3, CHR 0xA2,
      CHR 0xE2, CHR 0x80, CHR 0x9D, CHR 0xE2, CHR 0x82, CHR 0xAC, CHR 0xC3, CHR 0xA2, CHR 0xE2, CHR 0x80,
      CHR 0x9D, CHR 0xE2, CHR 0x82, CHR 0xAC, CHR 0xC3, CHR 0xA2, CHR 0xE2, CHR 0x80, CHR 0x9D, CHR 0xE2,
      CHR 0x82, CHR 0xAC, CHR 0xC3, CHR 0xA2, CHR 0xE2, CHR 0x80, CHR 0x9D, CHR 0xE2, CHR 0x82, CHR 0xAC,
      CHR 0xC3, CHR 0xA2, CHR 0xE2, CHR 0x80, CHR 0x9D, CHR 0xE2, CHR 0x82, CHR 0xAC, CHR 0xC3, CHR 0xA2,
      CHR 0xE2, CHR 0x80, CHR 0x9D, CHR 0xE2, CHR 0x82, CHR 0xAC, CHR 0xC3, CHR 0xA2, CHR 0xE2, CHR 0x80,
      CHR 0x9D, CHR 0xE2, CHR 0x82, CHR 0xAC, CHR 0xC3, CHR 0xA2, CHR 0xE2, CHR 0x80, CHR 0x9D, CHR 0xE2,
      CHR 0x82, CHR 0xAC, CHR 0xC3, CHR 0xA2, CHR 0xE2, CHR 0x80, CHR 0x9D, CHR 0xE2, CHR 0x82, CHR 0xAC,
      CHR 0xC3, CHR 0xA2, CHR 0xE2, CHR 0x80, CHR 0x9D, CHR 0xE2, CHR 0x82, CHR 0xAC, CHR 0xC3, CHR 0xA2,
      CHR 0xE2, CHR 0x80, CHR 0x9D, CHR 0xE2, CHR 0x82, CHR 0xAC, CHR 0xC3, CHR 0xA2, CHR 0xE2, CHR 0x80,
      CHR 0x9D, CHR 0xE2, CHR 0x82, CHR 0xAC, CHR 0xC3, CHR 0xA2, CHR 0xE2, CHR 0x80, CHR 0x9D, CHR 0xE2,
      CHR 0x82, CHR 0xAC, CHR 0xC3, CHR 0xA2, CHR 0xE2, CHR 0x80, CHR 0x9D, CHR 0xE2, CHR 0x82, CHR 0xAC,
      CHR 0xC3, CHR 0xA2, CHR 0xE2, CHR 0x80, CHR 0x9D, CHR 0xE2, CHR 0x82, CHR 0xAC, CHR 0xC3, CHR 0xA2,
      CHR 0xE2, CHR 0x80, CHR 0x9D, CHR 0xE2, CHR 0x82, CHR 0xAC, CHR 0xC3, CHR 0xA2, CHR 0xE2, CHR 0x80,
      CHR 0x9D, CHR 0xE2, CHR 0x82, CHR 0xAC, CHR 0xC3, CHR 0xA2, CHR 0xE2, CHR 0x80, CHR 0x9D, CHR 0xE2,
      CHR 0x82, CHR 0xAC, CHR 0xC3, CHR 0xA2, CHR 0xE2, CHR 0x80, CHR 0x9D, CHR 0xE2, CHR 0x82, CHR 0xAC,
      CHR 0xC3, CHR 0xA2, CHR 0xE2, CHR 0x80, CHR 0x9D, CHR 0xE2, CHR 0x82, CHR 0xAC, CHR 0xC3, CHR 0xA2,
      CHR 0xE2, CHR 0x80, CHR 0x9D, CHR 0xE2, CHR 0x82, CHR 0xAC, CHR 0xC3, CHR 0xA2, CHR 0xE2, CHR 0x80,
      CHR 0x9D, CHR 0xE2, CHR 0x82, CHR 0xAC, CHR 0xC3, CHR 0xA2, CHR 0xE2, CHR 0x80, CHR 0x9D, CHR 0xE2,
      CHR 0x82, CHR 0xAC, CHR 0xC3, CHR 0xA2, CHR 0xE2, CHR 0x80, CHR 0x9D, CHR 0xE2, CHR 0x82, CHR 0xAC,
      CHR 0xC3, CHR 0xA2, CHR 0xE2, CHR 0x80, CHR 0x9D, CHR 0xE2, CHR 0x82, CHR 0xAC, CHR 0xC3, CHR 0xA2,
      CHR 0xE2, CHR 0x80, CHR 0x9D, CHR 0xE2, CHR 0x82, CHR 0xAC, CHR 0xC3, CHR 0xA2, CHR 0xE2, CHR 0x80,
      CHR 0x9D, CHR 0xE2, CHR 0x82, CHR 0xAC, CHR 0xC3, CHR 0xA2, CHR 0xE2, CHR 0x80, CHR 0x9D, CHR 0xE2,
      CHR 0x82, CHR 0xAC, CHR 0xC3, CHR 0xA2, CHR 0xE2, CHR 0x80, CHR 0x9D, CHR 0xE2, CHR 0x82, CHR 0xAC,
      CHR 0xC3, CHR 0xA2, CHR 0xE2, CHR 0x80, CHR 0x9D, CHR 0xE2, CHR 0x82, CHR 0xAC, CHR 0xC3, CHR 0xA2,
      CHR 0xE2, CHR 0x80, CHR 0x9D, CHR 0xCB, CHR 0x9C] @ ''\<newline>'' @
    ''```\<newline>'' @
    ''\<newline>'' @
    ''## '' @ [CHR 0xC4, CHR 0x9F, CHR 0xC5, CHR 0xB8, CHR 0xC2, CHR 0xA4] @ '' Contributing\<newline>'' @
    ''\<newline>'' @
    ''Contributions welcome! Please open an issue or submit a PR.\<newline>'' @
    ''\<newline>'' @
    ''## '' @ [CHR 0xC4, CHR 0x9F, CHR 0xC5, CHR 0xB8, CHR 0xE2, CHR 0x80, CHR 0x9C] @ '' License\<newline>'' @
    ''\<newline>'' @
    ''MIT License - See LICENSE file\<newline>'' @
    ''\<newline>'' @
    ''## '' @ [CHR 0xC4, CHR 0x9F, CHR 0xC5, CHR 0xB8, CHR 0xE2, CHR 0x84, CHR 0xA2] @ '' Acknowledgments\<newline>'' @
    ''\<newline>'' @
    ''Built with modern cloud-native technologies:\<newline>'' @
    ''- Kubernetes, Docker, Terraform\<newline>'' @
    ''- PyTorch, FastAPI, Redis\<newline>'' @
    ''- Prometheus, Grafana, ArgoCD\<newline>'' @
    ''- AWS, GCP, GitHub Actions\<newline>'' @
    ''\<newline>'' @
    ''---\<newline>'' @
    ''\<newline>'' @
    ''**'' @ [CHR 0xC3, CHR 0xA2, CHR 0xC2, CHR 0xAD] @ '' Star this repo if it helped you!**\<newline>''\<close>

definition gitignore :: string where
  \<open>gitignore =
    ''# Terraform\<newline>'' @
    ''*.tfstate\<newline>'' @
    ''*.tfstate.*\<newline>'' @
    ''.terraform/\<newline>'' @
    ''.terraform.lock.hcl\<newline>'' @
    ''terraform.tfplan\<newline>'' @
    ''crash.log\<newline>'' @
    ''*.tfvars.json\<newline>'' @
    ''override.tf\<newline>'' @
    ''*_override.tf\<newline>'' @
    ''\<newline>'' @
    ''# Python\<newline>'' @
    ''__pycache__/\<newline>'' @
    ''*.py[cod]\<newline>'' @
    ''*.so\<newline>'' @
    ''.Python\<newline>'' @
    ''venv/\<newline>'' @
    ''env/\<newline>'' @
    ''*.egg-info/\<newline>'' @
    ''.pytest_cache/\<newline>'' @
    ''.coverage\<newline>'' @
    ''htmlcov/\<newline>'' @
    ''\<newline>'' @
    ''# Secrets & Credentials\<newline>'' @
    ''*.pem\<newline>'' @
    ''*.key\<newline>'' @
    ''*-key.json\<newline>'' @
    ''secrets.yaml\<newline>'' @
    ''.env\<newline>'' @
    ''.env.local\<newline>'' @
    ''credentials.json\<newline>'' @
    ''\<newline>'' @
    ''# IDE\<newline>'' @
    ''.vscode/\<newline>'' @
    ''.idea/\<newline>'' @
    ''*.swp\<newline>'' @
    ''*.swo\<newline>'' @
    ''*~\<newline>'' @
    ''.DS_Store\<newline>'' @
    ''\<newline>'' @
    ''# Kubernetes\<newline>'' @
    ''*.kubeconfig\<newline>'' @
    ''kubeconfig\<newline>'' @
    ''.kube/\<newline>'' @
    ''\<newline>'' @
    ''# Logs\<newline>'' @
    ''*.log\<newline>'' @
    ''logs/\<newline>'' @
    ''\<newline>'' @
    ''# Build artifacts\<newline>'' @
    ''dist/\<newline>'' @
    ''build/\<newline>'' @
    ''*.egg\<newline>'' @
    ''\<newline>'' @
    ''# Temporary\<newline>'' @
    ''tmp/\<newline>'' @
    ''temp/\<newline>'' @
    ''*.tmp\<newline>''\<close>

definition LICENSE :: string where
  \<open>LICENSE =
    ''MIT License\<newline>'' @
    ''\<newline>'' @
    ''Copyright (c) 2025 AI Infrastructure Projects\<newline>'' @
    ''\<newline>'' @
    ''Permission is hereby granted, free of charge, to any person obtaining a copy\<newline>'' @
    ''of this software and associated documentation files (the "Software"), to deal\<newline>'' @
    ''in the Software without restriction, including without limitation the rights\<newline>'' @
    ''to use, copy, modify, merge, publish, distribute, sublicense, and/or sell\<newline>'' @
    ''copies of the Software, and to permit persons to whom the Software is\<newline>'' @
    ''furnished to do so, subject to the following conditions:\<newline>'' @
    ''\<newline>'' @
    ''The above copyright notice and this permission notice shall be included in all\<newline>'' @
    ''copies or substantial portions of the Software.\<newline>'' @
    ''\<newline>'' @
    ''THE SOFTWARE IS PROVIDED "AS IS", WITHOUT WARRANTY OF ANY KIND, EXPRESS OR\<newline>'' @
    ''IMPLIED, INCLUDING BUT NOT LIMITED TO THE WARRANTIES OF MERCHANTABILITY,\<newline>'' @
    ''FITNESS FOR A PARTICULAR PURPOSE AND NONINFRINGEMENT. IN NO EVENT SHALL THE\<newline>'' @
    ''AUTHORS OR COPYRIGHT HOLDERS BE LIABLE FOR ANY CLAIM, DAMAGES OR OTHER\<newline>'' @
    ''LIABILITY, WHETHER IN AN ACTION OF CONTRACT, TORT OR OTHERWISE, ARISING FROM,\<newline>'' @
    ''OUT OF OR IN CONNECTION WITH THE SOFTWARE OR THE USE OR OTHER DEALINGS IN THE\<newline>'' @
    ''SOFTWARE.\<newline>''\<close>

definition ARCHITECTURE_md :: string where
  \<open>ARCHITECTURE_md =
    ''# Architecture Overview\<newline>'' @
    ''\<newline>'' @
    ''## System Design\<newline>'' @
    ''\<newline>'' @
    ''The AI infrastructure is built on a multi-cloud, microservices architecture designed for:\<newline>'' @
    ''- **Scalability**: Auto-scaling inference and training workloads\<newline>'' @
    ''- **Reliability**: Multi-region deployment with failover\<newline>'' @
    ''- **Observability**: Comprehensive monitoring and logging\<newline>'' @
    ''- **Cost-efficiency**: Spot instances and auto-scaling\<newline>'' @
    ''\<newline>'' @
    ''## Components\<newline>'' @
    ''\<newline>'' @
    ''### 1. Infrastructure Layer (Terraform)\<newline>'' @
    ''- **AWS EKS**: Primary Kubernetes cluster\<newline>'' @
    ''- **GCP GKE**: Secondary cluster for geo-distribution\<newline>'' @
    ''- **Networking**: VPCs, subnets, load balancers\<newline>'' @
    ''- **Storage**: S3/GCS for models and data\<newline>'' @
    ''\<newline>'' @
    ''### 2. Compute Layer (Kubernetes)\<newline>'' @
    ''- **Control Plane**: Managed by cloud providers\<newline>'' @
    ''- **Worker Nodes**: CPU nodes for general workloads\<newline>'' @
    ''- **GPU Nodes**: For training and GPU inference\<newline>'' @
    ''- **Auto-scaling**: HPA and cluster autoscaler\<newline>'' @
    ''\<newline>'' @
    ''### 3. Application Layer\<newline>'' @
    ''- **Training**: Distributed PyTorch jobs\<newline>'' @
    ''- **Inference**: FastAPI REST API\<newline>'' @
    ''- **Caching**: Redis for prediction caching\<newline>'' @
    ''- **Queue**: (Optional) Celery for async tasks\<newline>'' @
    ''\<newline>'' @
    ''### 4. Observability Layer\<newline>'' @
    ''- **Metrics**: Prometheus + custom exporters\<newline>'' @
    ''- **Visualization**: Grafana dashboards\<newline>'' @
    ''- **Logging**: Loki for log aggregation\<newline>'' @
    ''- **Alerting**: AlertManager + integrations\<newline>'' @
    ''\<newline>'' @
    ''### 5. CI/CD Layer\<newline>'' @
    ''- **Source Control**: GitHub\<newline>'' @
    ''- **CI Pipeline**: GitHub Actions\<newline>'' @
    ''- **CD/GitOps**: ArgoCD\<newline>'' @
    ''- **Service Mesh**: Istio (optional)\<newline>'' @
    ''\<newline>'' @
    ''## Data Flow\<newline>'' @
    ''\<newline>'' @
    ''### Training Flow\<newline>'' @
    ''```\<newline>'' @
    ''Developer '' @ [CHR 0xC3, CHR 0xA2, CHR 0xE2, CHR 0x80, CHR 0xA0, CHR 0xE2, CHR 0x80, CHR 0x99] @ '' Git Push '' @ [CHR 0xC3, CHR 0xA2, CHR 0xE2, CHR 0x80, CHR 0xA0, CHR 0xE2, CHR 0x80, CHR 0x99] @ '' GitHub Actions '' @ [CHR 0xC3, CHR 0xA2, CHR 0xE2, CHR 0x80, CHR 0xA0, CHR 0xE2, CHR 0x80, CHR 0x99] @ '' Build Container '' @ [CHR 0xC3, CHR 0xA2, CHR 0xE2, CHR 0x80, CHR 0xA0, CHR 0xE2, CHR 0x80, CHR 0x99] @ '' \<newline>'' @
    ''ECR/GCR '' @ [CHR 0xC3, CHR 0xA2, CHR 0xE2, CHR 0x80, CHR 0xA0, CHR 0xE2, CHR 0x80, CHR 0x99] @ '' Kubernetes Job '' @ [CHR 0xC3, CHR 0xA2, CHR 0xE2, CHR 0x80, CHR 0xA0, CHR 0xE2, CHR 0x80, CHR 0x99] @ '' GPU Nodes '' @ [CHR 0xC3, CHR 0xA2, CHR 0xE2, CHR 0x80, CHR 0xA0, CHR 0xE2, CHR 0x80, CHR 0x99] @ '' Train Model '' @ [CHR 0xC3, CHR 0xA2, CHR 0xE2, CHR 0x80, CHR 0xA0, CHR 0xE2, CHR 0x80, CHR 0x99] @ '' \<newline>'' @
    ''Save to S3/GCS '' @ [CHR 0xC3, CHR 0xA2, CHR 0xE2, CHR 0x80, CHR 0xA0, CHR 0xE2, CHR 0x80, CHR 0x99] @ '' Update Model Registry\<newline>'' @
    ''```\<newline>'' @
    ''\<newline>'' @
    ''### Inference Flow\<newline>'' @
    ''```\<newline>'' @
    ''User Request '' @ [CHR 0xC3, CHR 0xA2, CHR 0xE2, CHR 0x80, CHR 0xA0, CHR 0xE2, CHR 0x80, CHR 0x99] @ '' Load Balancer '' @ [CHR 0xC3, CHR 0xA2, CHR 0xE2, CHR 0x80, CHR 0xA0, CHR 0xE2, CHR 0x80, CHR 0x99] @ '' Inference API '' @ [CHR 0xC3, CHR 0xA2, CHR 0xE2, CHR 0x80, CHR 0xA0, CHR 0xE2, CHR 0x80, CHR 0x99] @ '' \<newline>'' @
    ''Check Redis Cache '' @ [CHR 0xC3, CHR 0xA2, CHR 0xE2, CHR 0x80, CHR 0xA0, CHR 0xE2, CHR 0x80, CHR 0x99] @ '' (if miss) Load Model '' @ [CHR 0xC3, CHR 0xA2, CHR 0xE2, CHR 0x80, CHR 0xA0, CHR 0xE2, CHR 0x80, CHR 0x99] @ '' \<newline>'' @
    ''Run Inference '' @ [CHR 0xC3, CHR 0xA2, CHR 0xE2, CHR 0x80, CHR 0xA0, CHR 0xE2, CHR 0x80, CHR 0x99] @ '' Cache Result '' @ [CHR 0xC3, CHR 0xA2, CHR 0xE2, CHR 0x80, CHR 0xA0, CHR 0xE2, CHR 0x80, CHR 0x99] @ '' Return Prediction\<newline>'' @
    ''```\<newline>'' @
    ''\<newline>'' @
    ''### Monitoring Flow\<newline>'' @
    ''```\<newline>'' @
    ''All Services '' @ [CHR 0xC3, CHR 0xA2, CHR 0xE2, CHR 0x80, CHR 0xA0, CHR 0xE2, CHR 0x80, CHR 0x99] @ '' Prometheus Scrape '' @ [CHR 0xC3, CHR 0xA2, CHR 0xE2, CHR 0x80, CHR 0xA0, CHR 0xE2, CHR 0x80, CHR 0x99] @ '' Store Metrics '' @ [CHR 0xC3, CHR 0xA2, CHR 0xE2, CHR 0x80, CHR 0xA0, CHR 0xE2, CHR 0x80, CHR 0x99] @ ''\<newline>'' @
    ''Grafana Query '' @ [CHR 0xC3, CHR 0xA2, CHR 0xE2, CHR 0x80, CHR 0xA0, CHR 0xE2, CHR 0x80, CHR 0x99] @ '' Display Dashboards '' @ [CHR 0xC3, CHR 0xA2, CHR 0xE2, CHR 0x80, CHR 0xA0, CHR 0xE2, CHR 0x80, CHR 0x99] @ '' \<newline>'' @
    ''AlertManager '' @ [CHR 0xC3, CHR 0xA2, CHR 0xE2, CHR 0x80, CHR 0xA0, CHR 0xE2, CHR 0x80, CHR 0x99] @ '' Slack/Email Notifications\<newline>'' @
    ''```\<newline>'' @
    ''\<newline>'' @
    ''## Security\<newline>'' @
    ''\<newline>'' @
    ''- **Network**: Network policies, security groups\<newline>'' @
    ''- **Authentication**: RBAC, service accounts\<newline>'' @
    ''- **Secrets**: Kubernetes secrets, AWS Secrets Manager\<newline>'' @
    ''- **Encryption**: At-rest and in-transit\<newline>'' @
    ''- **Scanning**: Container image vulnerability scanning\<newline>'' @
    ''\<newline>'' @
    ''## High Availability\<newline>'' @
    ''\<newline>'' @
    ''- **Multi-AZ**: Kubernetes nodes across availability zones\<newline>'' @
    ''- **Multi-Region**: Deploy to multiple cloud regions\<newline>'' @
    ''- **Health Checks**: Liveness and readiness probes\<newline>'' @
    ''- **Auto-recovery**: Kubernetes self-healing\<newline>'' @
    ''- **Backups**: Regular snapshots of state\<newline>'' @
    ''\<newline>'' @
    ''## Scalability\<newline>'' @
    ''\<newline>'' @
    ''- **Horizontal**: HPA for pods, cluster autoscaler for nodes\<newline>'' @
    ''- **Vertical**: Resource requests/limits tuning\<newline>'' @
    ''- **Caching**: Redis for frequently accessed predictions\<newline>'' @
    ''- **Load Balancing**: Cloud load balancers + Istio\<newline>'' @
    ''- **Database**: (If needed) Managed databases with read replicas\<newline>''\<close>

definition TROUBLESHOOTING_md :: string where
  \<open>TROUBLESHOOTING_md =
    ''# Troubleshooting Guide\<newline>'' @
    ''\<newline>'' @
    ''## Common Issues\<newline>'' @
    ''\<newline>'' @
    ''### 1. Cannot Connect to Kubernetes Cluster\<newline>'' @
    ''\<newline>'' @
    ''**Symptoms:**\<newline>'' @
    ''```\<newline>'' @
    ''Unable to connect to the server: dial tcp: lookup ... no such host\<newline>'' @
    ''```\<newline>'' @
    ''\<newline>'' @
    ''**Solutions:**\<newline>'' @
    ''```bash\<newline>'' @
    ''# Update kubeconfig for AWS\<newline>'' @
    ''aws eks update-kubeconfig --region us-west-2 --name ai-infrastructure-eks\<newline>'' @
    ''\<newline>'' @
    ''# Update kubeconfig for GCP  \<newline>'' @
    ''gcloud container clusters get-credentials ai-infrastructure-gke '' @ [CHR 0x5C] @ ''\<newline>'' @
    ''  --zone us-central1-a --project YOUR_PROJECT\<newline>'' @
    ''\<newline>'' @
    ''# Verify connection\<newline>'' @
    ''kubectl get nodes\<newline>'' @
    ''```\<newline>'' @
    ''\<newline>'' @
    ''### 2. Pods Stuck in Pending State\<newline>'' @
    ''\<newline>'' @
    ''**Symptoms:**\<newline>'' @
    ''```\<newline>'' @
    ''NAME                    READY   STATUS    RESTARTS   AGE\<newline>'' @
    ''ai-inference-xxx        0/1     Pending   0          5m\<newline>'' @
    ''```\<newline>'' @
    ''\<newline>'' @
    ''**Diagnosis:**\<newline>'' @
    ''```bash\<newline>'' @
    ''kubectl describe pod <pod-name> -n <namespace>\<newline>'' @
    ''```\<newline>'' @
    ''\<newline>'' @
    ''**Common Causes:**\<newline>'' @
    ''- Insufficient resources\<newline>'' @
    ''- Node selector mismatch\<newline>'' @
    ''- PVC not bound\<newline>'' @
    ''\<newline>'' @
    ''**Solutions:**\<newline>'' @
    ''```bash\<newline>'' @
    ''# Check node resources\<newline>'' @
    ''kubectl top nodes\<newline>'' @
    ''\<newline>'' @
    ''# Check node labels\<newline>'' @
    ''kubectl get nodes --show-labels\<newline>'' @
    ''\<newline>'' @
    ''# Scale cluster if needed\<newline>'' @
    ''# (Cluster autoscaler should do this automatically)\<newline>'' @
    ''```\<newline>'' @
    ''\<newline>'' @
    ''### 3. Image Pull Errors\<newline>'' @
    ''\<newline>'' @
    ''**Symptoms:**\<newline>'' @
    ''```\<newline>'' @
    ''Failed to pull image "...": rpc error: code = Unknown\<newline>'' @
    ''```\<newline>'' @
    ''\<newline>'' @
    ''**Solutions:**\<newline>'' @
    ''```bash\<newline>'' @
    ''# Check image exists\<newline>'' @
    ''docker pull <image>\<newline>'' @
    ''\<newline>'' @
    ''# Update image pull secrets\<newline>'' @
    ''kubectl create secret docker-registry regcred '' @ [CHR 0x5C] @ ''\<newline>'' @
    ''  --docker-server=<registry> '' @ [CHR 0x5C] @ ''\<newline>'' @
    ''  --docker-username=<username> '' @ [CHR 0x5C] @ ''\<newline>'' @
    ''  --docker-password=<password>\<newline>'' @
    ''\<newline>'' @
    ''# Verify secret\<newline>'' @
    ''kubectl get secrets\<newline>'' @
    ''```\<newline>'' @
    ''\<newline>'' @
    ''### 4. Terraform State Lock\<newline>'' @
    ''\<newline>'' @
    ''**Symptoms:**\<newline>'' @
    ''```\<newline>'' @
    ''Error: Error acquiring the state lock\<newline>'' @
    ''```\<newline>'' @
    ''\<newline>'' @
    ''**Solutions:**\<newline>'' @
    ''```bash\<newline>'' @
    ''# Force unlock (use with caution)\<newline>'' @
    ''terraform force-unlock <lock-id>\<newline>'' @
    ''\<newline>'' @
    ''# Or remove lock file\<newline>'' @
    ''rm -rf .terraform/\<newline>'' @
    ''terraform init\<newline>'' @
    ''```\<newline>'' @
    ''\<newline>'' @
    ''### 5. High Cloud Costs\<newline>'' @
    ''\<newline>'' @
    ''**Diagnosis:**\<newline>'' @
    ''```bash\<newline>'' @
    ''# Check resource usage\<newline>'' @
    ''kubectl top nodes\<newline>'' @
    ''kubectl top pods --all-namespaces\<newline>'' @
    ''\<newline>'' @
    ''# List all resources\<newline>'' @
    ''kubectl get all --all-namespaces\<newline>'' @
    ''```\<newline>'' @
    ''\<newline>'' @
    ''**Solutions:**\<newline>'' @
    ''```bash\<newline>'' @
    ''# Scale down inference\<newline>'' @
    ''kubectl scale deployment ai-inference --replicas=1 -n production\<newline>'' @
    ''\<newline>'' @
    ''# Delete GPU nodes when not training\<newline>'' @
    ''kubectl delete nodes -l node-pool=gpu\<newline>'' @
    ''\<newline>'' @
    ''# Destroy development resources\<newline>'' @
    ''cd terraform/aws && terraform destroy\<newline>'' @
    ''```\<newline>'' @
    ''\<newline>'' @
    ''### 6. Monitoring Not Working\<newline>'' @
    ''\<newline>'' @
    ''**Symptoms:**\<newline>'' @
    ''- Grafana shows no data\<newline>'' @
    ''- Prometheus targets down\<newline>'' @
    ''\<newline>'' @
    ''**Solutions:**\<newline>'' @
    ''```bash\<newline>'' @
    ''# Check Prometheus pods\<newline>'' @
    ''kubectl get pods -n monitoring\<newline>'' @
    ''\<newline>'' @
    ''# Check Prometheus targets\<newline>'' @
    ''kubectl port-forward svc/prometheus-kube-prometheus-prometheus 9090:9090 -n monitoring\<newline>'' @
    ''# Visit http://localhost:9090/targets\<newline>'' @
    ''\<newline>'' @
    ''# Restart Prometheus\<newline>'' @
    ''kubectl rollout restart statefulset prometheus-kube-prometheus-prometheus -n monitoring\<newline>'' @
    ''\<newline>'' @
    ''# Check service discovery\<newline>'' @
    ''kubectl get servicemonitors -n monitoring\<newline>'' @
    ''```\<newline>'' @
    ''\<newline>'' @
    ''### 7. Training Jobs Failing\<newline>'' @
    ''\<newline>'' @
    ''**Diagnosis:**\<newline>'' @
    ''```bash\<newline>'' @
    ''# Check job status\<newline>'' @
    ''kubectl get jobs\<newline>'' @
    ''\<newline>'' @
    ''# View job logs\<newline>'' @
    ''kubectl logs job/<job-name>\<newline>'' @
    ''\<newline>'' @
    ''# Describe job\<newline>'' @
    ''kubectl describe job <job-name>\<newline>'' @
    ''```\<newline>'' @
    ''\<newline>'' @
    ''**Common Issues:**\<newline>'' @
    ''- OOM (Out of Memory)\<newline>'' @
    ''- GPU not available\<newline>'' @
    ''- Network connectivity\<newline>'' @
    ''\<newline>'' @
    ''**Solutions:**\<newline>'' @
    ''```bash\<newline>'' @
    ''# Increase memory limits\<newline>'' @
    ''# Edit kubernetes/training-job.yaml\<newline>'' @
    ''\<newline>'' @
    ''# Check GPU availability\<newline>'' @
    ''kubectl get nodes -l accelerator=nvidia\<newline>'' @
    ''\<newline>'' @
    ''# Check GPU plugin\<newline>'' @
    ''kubectl get daemonset nvidia-device-plugin-daemonset -n kube-system\<newline>'' @
    ''```\<newline>'' @
    ''\<newline>'' @
    ''### 8. ArgoCD Sync Issues\<newline>'' @
    ''\<newline>'' @
    ''**Symptoms:**\<newline>'' @
    ''- Application out of sync\<newline>'' @
    ''- Sync fails with errors\<newline>'' @
    ''\<newline>'' @
    ''**Solutions:**\<newline>'' @
    ''```bash\<newline>'' @
    ''# Manual sync\<newline>'' @
    ''kubectl port-forward svc/argocd-server 8080:443 -n argocd\<newline>'' @
    ''# Visit UI and click "Sync"\<newline>'' @
    ''\<newline>'' @
    ''# Or via CLI\<newline>'' @
    ''argocd app sync <app-name>\<newline>'' @
    ''\<newline>'' @
    ''# Hard refresh\<newline>'' @
    ''argocd app get <app-name> --hard-refresh\<newline>'' @
    ''\<newline>'' @
    ''# Check application health\<newline>'' @
    ''argocd app get <app-name>\<newline>'' @
    ''```\<newline>'' @
    ''\<newline>'' @
    ''## Getting Help\<newline>'' @
    ''\<newline>'' @
    ''1. **Check logs**: `kubectl logs <pod-name> -n <namespace>`\<newline>'' @
    ''2. **Describe resources**: `kubectl describe <resource> <name> -n <namespace>`\<newline>'' @
    ''3. **Check events**: `kubectl get events -n <namespace> --sort-by='.metadata.creationTimestamp'`\<newline>'' @
    ''4. **Search issues**: Check GitHub issues for similar problems\<newline>'' @
    ''5. **Ask community**: Kubernetes Slack, Stack Overflow\<newline>'' @
    ''\<newline>'' @
    ''## Debug Commands\<newline>'' @
    ''\<newline>'' @
    ''```bash\<newline>'' @
    ''# Get all resources\<newline>'' @
    ''kubectl get all --all-namespaces\<newline>'' @
    ''\<newline>'' @
    ''# Check pod details\<newline>'' @
    ''kubectl get pod <pod-name> -o yaml -n <namespace>\<newline>'' @
    ''\<newline>'' @
    ''# Execute shell in pod\<newline>'' @
    ''kubectl exec -it <pod-name> -n <namespace> -- /bin/bash\<newline>'' @
    ''\<newline>'' @
    ''# Check resource usage\<newline>'' @
    ''kubectl top pods -n <namespace>\<newline>'' @
    ''kubectl top nodes\<newline>'' @
    ''\<newline>'' @
    ''# View recent events\<newline>'' @
    ''kubectl get events --sort-by='.lastTimestamp' -n <namespace>\<newline>'' @
    ''\<newline>'' @
    ''# Test DNS\<newline>'' @
    ''kubectl run -it --rm debug --image=busybox --restart=Never -- nslookup kubernetes\<newline>'' @
    ''\<newline>'' @
    ''# Test connectivity\<newline>'' @
    ''kubectl run -it --rm debug --image=curlimages/curl --restart=Never -- curl <service-url>\<newline>'' @
    ''```\<newline>''\<close>

definition FILES :: "(string \<times> string) list" where
  "FILES =
    [(''README.md'', README_md),
     (''.gitignore'', gitignore),
     (''LICENSE'', LICENSE),
     (''docs/ARCHITECTURE.md'', ARCHITECTURE_md),
     (''docs/TROUBLESHOOTING.md'', TROUBLESHOOTING_md)]"

subsection \<open>Writers\<close>

definition create_file :: "string \<Rightarrow> string \<Rightarrow> action" where
  "create_file filepath content =
     (let path = Path filepath in
      steps
       [Path_mkdir True True (parent path),
        write_text path content,
        print_success (''Created '' @ filepath)])"

definition directories :: "string list" where
  "directories =
    [''terraform/aws'',
     ''terraform/gcp'',
     ''kubernetes/rbac'',
     ''kubernetes/network-policies'',
     ''monitoring/prometheus'',
     ''monitoring/loki'',
     ''monitoring/gpu-exporter'',
     ''monitoring/deployment'',
     ''inference/app'',
     ''training/src'',
     ''training/docker'',
     ''training/scripts'',
     ''istio'',
     ''argocd/applications'',
     ''argocd/projects'',
     ''.github/workflows'',
     ''scripts'',
     ''tests'',
     ''docs'']"

definition create_directory_structure :: action where
  "create_directory_structure =
     steps
      [for_each (\<lambda>directory. Path_mkdir True True (Path directory)) directories,
       print_success ''Created directory structure'']"

text \<open>The formatted string that \<^verbatim>\<open>create_placeholder_note\<close> builds from a description.\<close>

definition placeholder_content :: "string \<Rightarrow> string" where
  \<open>placeholder_content description =
    ''# '' @ description @ ''\<newline>'' @
    ''\<newline>'' @
    ''## '' @ [CHR 0xC3, CHR 0xA2, CHR 0xC5, CHR 0xA1, CHR 0xC2, CHR 0xA0, CHR 0xC3, CHR 0xAF, CHR 0xC2, CHR 0xB8] @ '' IMPORTANT: Copy Content from Artifacts\<newline>'' @
    ''\<newline>'' @
    ''This file needs content from the Claude artifacts. Please copy the corresponding content:\<newline>'' @
    ''\<newline>'' @
    ''1. Scroll up in your Claude conversation\<newline>'' @
    ''2. Find the artifact titled: "'' @ description @ ''"\<newline>'' @
    ''3. Copy the entire content\<newline>'' @
    ''4. Paste it into this file\<newline>'' @
    ''\<newline>'' @
    ''## File Purpose\<newline>'' @
    ''\<newline>'' @
    description @ ''\<newline>'' @
    ''\<newline>'' @
    ''## What to do after copying:\<newline>'' @
    ''\<newline>'' @
    ''1. Save this file\<newline>'' @
    ''2. Continue with the next file in docs/SETUP_INSTRUCTIONS.md\<newline>'' @
    ''3. Once all files are copied, run: ./scripts/quick-start.sh\<newline>'' @
    ''\<newline>'' @
    ''---\<newline>'' @
    ''Generated by AI Infrastructure Installer\<newline>''\<close>

definition create_placeholder_note :: "string \<Rightarrow> string \<Rightarrow> action" where
  "create_placeholder_note filename description =
     create_file filename (placeholder_content description)"

subsection \<open>The main function\<close>

text \<open>The local tables and documents of \<^verbatim>\<open>main\<close>.\<close>

definition placeholders :: "(string \<times> string) list" where
  \<open>placeholders =
    [(''terraform/aws/main.tf'', ''Project A - AWS Terraform Complete Implementation''),
     (''terraform/aws/variables.tf'', ''Project A - Terraform Variables''),
     (''terraform/gcp/main.tf'', ''Project A - GCP Terraform Complete Implementation''),
     (''terraform/gcp/variables.tf'', ''Project A - GCP Variables and Config''),
     (''training/src/train_distributed.py'', ''Project B - Complete Distributed Training Implementation''),
     (''training/docker/Dockerfile'', ''Project B - Docker and Kubernetes Configuration (Dockerfile section)''),
     (''kubernetes/training-job.yaml'', ''Project B - Docker and Kubernetes Configuration (training-job.yaml section)''),
     (''monitoring/prometheus/values.yaml'', ''Project C - Complete Monitoring Stack (prometheus section)''),
     (''monitoring/gpu-exporter/gpu_metrics.py'', ''Project C - Complete Monitoring Stack (gpu_metrics.py section)''),
     (''inference/app/main.py'', ''Project D - Complete AI Inference Platform''),
     (''inference/Dockerfile'', ''Project D - Complete AI Inference Platform (Dockerfile section)''),
     (''kubernetes/inference-deployment.yaml'', ''Project D - Complete AI Inference Platform (deployment.yaml section)''),
     (''.github/workflows/ci-cd-pipeline.yaml'', ''Complete CI/CD Pipeline and GitOps Configuration''),
     (''scripts/quick-start.sh'', ''Automated Deployment Scripts and Documentation (quick-start.sh section)''),
     (''scripts/setup-local-dev.sh'', ''Automated Deployment Scripts and Documentation (setup-local-dev.sh section)'')]\<close>

definition setup_instructions :: string where
  \<open>setup_instructions =
    ''# Setup Instructions\<newline>'' @
    ''\<newline>'' @
    ''## '' @ [CHR 0xC3, CHR 0xA2, CHR 0xC5, CHR 0x93, CHR 0xE2, CHR 0x80, CHR 0xA6] @ '' Step 1: Installation Complete!\<newline>'' @
    ''\<newline>'' @
    ''The project structure has been created. Now you need to copy content from the Claude artifacts.\<newline>'' @
    ''\<newline>'' @
    ''## '' @ [CHR 0xC4, CHR 0x9F, CHR 0xC5, CHR 0xB8, CHR 0xE2, CHR 0x80, CHR 0x9C, CHR 0xE2, CHR 0x80, CHR 0xB9] @ '' Step 2: Copy Artifact Contents\<newline>'' @
    ''\<newline>'' @
    ''Each placeholder file contains instructions. Go through them in this order:\<newline>'' @
    ''\<newline>'' @
    ''### Infrastructure (Terraform)\<newline>'' @
    ''1. `terraform/aws/main.tf`\<newline>'' @
    ''2. `terraform/aws/variables.tf`  \<newline>'' @
    ''3. `terraform/gcp/main.tf`\<newline>'' @
    ''4. `terraform/gcp/variables.tf`\<newline>'' @
    ''\<newline>'' @
    ''### Training Platform  \<newline>'' @
    ''5. `training/src/train_distributed.py`\<newline>'' @
    ''6. `training/docker/Dockerfile`\<newline>'' @
    ''7. `kubernetes/training-job.yaml`\<newline>'' @
    ''\<newline>'' @
    ''### Monitoring\<newline>'' @
    ''8. `monitoring/prometheus/values.yaml`\<newline>'' @
    ''9. `monitoring/gpu-exporter/gpu_metrics.py`\<newline>'' @
    ''\<newline>'' @
    ''### Inference API\<newline>'' @
    ''10. `inference/app/main.py`\<newline>'' @
    ''11. `inference/Dockerfile`\<newline>'' @
    ''12. `kubernetes/inference-deployment.yaml`\<newline>'' @
    ''\<newline>'' @
    ''### CI/CD & GitOps\<newline>'' @
    ''13. `.github/workflows/ci-cd-pipeline.yaml`\<newline>'' @
    ''14. `scripts/quick-start.sh`\<newline>'' @
    ''15. `scripts/setup-local-dev.sh`\<newline>'' @
    ''\<newline>'' @
    ''## '' @ [CHR 0xC4, CHR 0x9F, CHR 0xC5, CHR 0xB8, CHR 0xE2, CHR 0x80, CHR 0x9D, CHR 0xC2, CHR 0xA7] @ '' Step 3: Configure\<newline>'' @
    ''\<newline>'' @
    ''Edit these files with your values:\<newline>'' @
    ''```bash\<newline>'' @
    ''# AWS settings\<newline>'' @
    ''nano terraform/aws/terraform.tfvars\<newline>'' @
    ''\<newline>'' @
    ''# GCP settings  \<newline>'' @
    ''nano terraform/gcp/terraform.tfvars\<newline>'' @
    ''```\<newline>'' @
    ''\<newline>'' @
    ''## '' @ [CHR 0xC3, CHR 0xA2, CHR 0xC5, CHR 0xA1, CHR 0xE2, CHR 0x84, CHR 0xA2, CHR 0xC3, CHR 0xAF, CHR 0xC2,
      CHR 0xB8] @ '' Step 4: Setup Cloud Access\<newline>'' @
    ''\<newline>'' @
    ''```bash\<newline>'' @
    ''# AWS\<newline>'' @
    ''aws configure\<newline>'' @
    ''\<newline>'' @
    ''# GCP\<newline>'' @
    ''gcloud auth login\<newline>'' @
    ''gcloud config set project YOUR_PROJECT_ID\<newline>'' @
    ''```\<newline>'' @
    ''\<newline>'' @
    ''## '' @ [CHR 0xC4, CHR 0x9F, CHR 0xC5, CHR 0xB8, CHR 0xC5, CHR 0xA1, CHR 0xE2, CHR 0x82, CHR 0xAC] @ '' Step 5: Deploy!\<newline>'' @
    ''\<newline>'' @
    ''```bash\<newline>'' @
    ''# Make scripts executable\<newline>'' @
    ''chmod +x scripts/*.sh\<newline>'' @
    ''\<newline>'' @
    ''# Run deployment\<newline>'' @
    ''./scripts/quick-start.sh\<newline>'' @
    ''```\<newline>'' @
    ''\<newline>'' @
    ''## '' @ [CHR 0xC4, CHR 0x9F, CHR 0xC5, CHR 0xB8, CHR 0xE2, CHR 0x80, CHR 0x9C, CHR 0xC5, CHR 0xA1] @ '' Need Help?\<newline>'' @
    ''\<newline>'' @
    ''- See `docs/TROUBLESHOOTING.md` for common issues\<newline>'' @
    ''- See `docs/ARCHITECTURE.md` for system overview  \<newline>'' @
    ''- See `docs/QUICK_REFERENCE.md` for commands\<newline>'' @
    ''\<newline>'' @
    ''## '' @ [CHR 0xC4, CHR 0x9F, CHR 0xC5, CHR 0xB8, CHR 0xE2, CHR 0x80, CHR 0x99, CHR 0xC2, CHR 0xA1] @ '' Tips\<newline>'' @
    ''\<newline>'' @
    ''- Start with one cloud provider (AWS or GCP) to minimize complexity\<newline>'' @
    ''- Use free tier accounts to minimize costs\<newline>'' @
    ''- Test locally with minikube before deploying to cloud\<newline>'' @
    ''- Read all documentation before starting\<newline>'' @
    ''\<newline>'' @
    ''---\<newline>'' @
    ''\<newline>'' @
    ''**Questions? Open an issue on GitHub!**\<newline>''\<close>

definition quick_ref :: string where
  \<open>quick_ref =
    ''# Quick Reference\<newline>'' @
    ''\<newline>'' @
    ''## '' @ [CHR 0xC4, CHR 0x9F, CHR 0xC5, CHR 0xB8, CHR 0xC5, CHR 0xA1, CHR 0xE2, CHR 0x82, CHR 0xAC] @ '' Deployment\<newline>'' @
    ''```bash\<newline>'' @
    ''./scripts/quick-start.sh                    # Full deployment\<newline>'' @
    ''./scripts/quick-start.sh infra              # Infrastructure only\<newline>'' @
    ''./scripts/quick-start.sh monitoring         # Monitoring only\<newline>'' @
    ''./scripts/quick-start.sh apps               # Applications only\<newline>'' @
    ''```\<newline>'' @
    ''\<newline>'' @
    ''## '' @ [CHR 0xC4, CHR 0x9F, CHR 0xC5, CHR 0xB8, CHR 0xE2, CHR 0x80, CHR 0x9D] @ '' Kubernetes Commands\<newline>'' @
    ''```bash\<newline>'' @
    ''# Get resources\<newline>'' @
    ''kubectl get pods --all-namespaces\<newline>'' @
    ''kubectl get nodes\<newline>'' @
    ''kubectl get services -n production\<newline>'' @
    ''\<newline>'' @
    ''# Logs\<newline>'' @
    ''kubectl logs -f deployment/ai-inference -n production\<newline>'' @
    ''kubectl logs -f job/distributed-ai-training\<newline>'' @
    ''\<newline>'' @
    ''# Scale\<newline>'' @
    ''kubectl scale deployment ai-inference --replicas=5 -n production\<newline>'' @
    ''\<newline>'' @
    ''# Port forward\<newline>'' @
    ''kubectl port-forward svc/ai-inference-service 8000:80 -n production\<newline>'' @
    ''kubectl port-forward svc/prometheus-grafana 3000:80 -n monitoring\<newline>'' @
    ''```\<newline>'' @
    ''\<newline>'' @
    ''## '' @ [CHR 0xC4, CHR 0x9F, CHR 0xC5, CHR 0xB8, CHR 0xE2, CHR 0x80, CHR 0x9C, CHR 0xC5, CHR 0xA0] @ '' Access Services\<newline>'' @
    ''```bash\<newline>'' @
    ''# Grafana (monitoring)\<newline>'' @
    ''kubectl port-forward svc/prometheus-grafana 3000:80 -n monitoring\<newline>'' @
    ''# http://localhost:3000 (admin/admin123)\<newline>'' @
    ''\<newline>'' @
    ''# AI Inference API\<newline>'' @
    ''kubectl port-forward svc/ai-inference-service 8000:80 -n production  \<newline>'' @
    ''# http://localhost:8000/docs\<newline>'' @
    ''\<newline>'' @
    ''# Prometheus\<newline>'' @
    ''kubectl port-forward svc/prometheus-kube-prometheus-prometheus 9090:9090 -n monitoring\<newline>'' @
    ''# http://localhost:9090\<newline>'' @
    ''\<newline>'' @
    ''# ArgoCD\<newline>'' @
    ''kubectl port-forward svc/argocd-server 8080:443 -n argocd\<newline>'' @
    ''# https://localhost:8080\<newline>'' @
    ''```\<newline>'' @
    ''\<newline>'' @
    ''## '' @ [CHR 0xC4, CHR 0x9F, CHR 0xC5, CHR 0xB8, CHR 0xE2, CHR 0x80, CHR 0x99, CHR 0xC2, CHR 0xB0] @ '' Cost Management\<newline>'' @
    ''```bash\<newline>'' @
    ''# Scale down\<newline>'' @
    ''kubectl scale deployment --all --replicas=0 -n production\<newline>'' @
    ''\<newline>'' @
    ''# Destroy\<newline>'' @
    ''cd terraform/aws && terraform destroy\<newline>'' @
    ''cd terraform/gcp && terraform destroy\<newline>'' @
    ''```\<newline>'' @
    ''\<newline>'' @
    ''## '' @ [CHR 0xC4, CHR 0x9F, CHR 0xC5, CHR 0xB8, CHR 0xE2, CHR 0x80, CHR 0x9D, CHR 0xC2, CHR 0xA7] @ '' Troubleshooting\<newline>'' @
    ''```bash\<newline>'' @
    ''# Check pod status\<newline>'' @
    ''kubectl describe pod <pod-name> -n <namespace>\<newline>'' @
    ''\<newline>'' @
    ''# View events\<newline>'' @
    ''kubectl get events --sort-by='.metadata.creationTimestamp' -n <namespace>\<newline>'' @
    ''\<newline>'' @
    ''# Resource usage\<newline>'' @
    ''kubectl top nodes\<newline>'' @
    ''kubectl top pods --all-namespaces\<newline>'' @
    ''\<newline>'' @
    ''# Update kubeconfig\<newline>'' @
    ''aws eks update-kubeconfig --region us-west-2 --name ai-infrastructure-eks\<newline>'' @
    ''gcloud container clusters get-credentials ai-infrastructure-gke --zone us-central1-a\<newline>'' @
    ''```\<newline>''\<close>

definition main :: action where
  \<open>main =
     steps
      [print_header ''AI Infrastructure Projects Installer'',
       if_then (\<lambda>w. \<not> path_exists (files w) (Path ''.git''))
         (steps
           [print_warning ''Not in a git repository. Initialize one first:'',
            print_info ''  git init'',
            print_info ''  git remote add origin https://github.com/YOUR_USERNAME/ai-infrastructure-projects'',
            print '''',
            (\<lambda>w. case input ''Continue anyway? (y/n): '' w of
                    (Inl e, w') \<Rightarrow> (Some e, w')
                  | (Inr response, w') \<Rightarrow>
                      if_then (\<lambda>w. lower response \<noteq> ''y'') (sys_exit 0) w')]),
       print_info ''Creating project structure...'',
       create_directory_structure,
       print '''',
       print_info ''Creating essential files...'',
       for_each (\<lambda>(filepath, content). create_file filepath content) FILES,
       print '''',
       print_info ''Creating placeholder files with instructions...'',
       for_each (\<lambda>(filepath, description). create_placeholder_note filepath description) placeholders,
       print '''',
       create_file ''docs/SETUP_INSTRUCTIONS.md'' setup_instructions,
       create_file ''docs/QUICK_REFERENCE.md'' quick_ref,
       print '''',
       print_header ''Installation Complete!'',
       print (OKGREEN @ ''Next steps:'' @ ENDC),
       print (''  1. Read: '' @ BOLD @ ''docs/SETUP_INSTRUCTIONS.md'' @ ENDC),
       print ''  2. Copy artifact contents into placeholder files'',
       print ''  3. Configure: terraform/*/terraform.tfvars'',
       print ''  4. Deploy: ./scripts/quick-start.sh'',
       print '''',
       print (OKCYAN @ ''Documentation:'' @ ENDC),
       print (''  '' @ [CHR 0xC3, CHR 0xA2, CHR 0xE2, CHR 0x82, CHR 0xAC, CHR 0xC2, CHR 0xA2] @ '' Setup Guide: docs/SETUP_INSTRUCTIONS.md''),
       print (''  '' @ [CHR 0xC3, CHR 0xA2, CHR 0xE2, CHR 0x82, CHR 0xAC, CHR 0xC2, CHR 0xA2] @ '' Quick Reference: docs/QUICK_REFERENCE.md''),
       print (''  '' @ [CHR 0xC3, CHR 0xA2, CHR 0xE2, CHR 0x82, CHR 0xAC, CHR 0xC2, CHR 0xA2] @ '' Architecture: docs/ARCHITECTURE.md''),
       print (''  '' @ [CHR 0xC3, CHR 0xA2, CHR 0xE2, CHR 0x82, CHR 0xAC, CHR 0xC2, CHR 0xA2] @ '' Troubleshooting: docs/TROUBLESHOOTING.md''),
       print '''',
       print (WARNING @ [CHR 0xC3, CHR 0xA2, CHR 0xC5, CHR 0xA1, CHR 0xC2, CHR 0xA0, CHR 0xC3, CHR 0xAF, CHR 0xC2, CHR 0xB8] @ ''  Don't forget to:'' @ ENDC),
       print (''  '' @ [CHR 0xC3, CHR 0xA2, CHR 0xE2, CHR 0x82, CHR 0xAC, CHR 0xC2, CHR 0xA2] @ '' Copy all artifact contents''),
       print (''  '' @ [CHR 0xC3, CHR 0xA2, CHR 0xE2, CHR 0x82, CHR 0xAC, CHR 0xC2, CHR 0xA2] @ '' Configure AWS and GCP credentials''),
       print (''  '' @ [CHR 0xC3, CHR 0xA2, CHR 0xE2, CHR 0x82, CHR 0xAC, CHR 0xC2, CHR 0xA2] @ '' Update terraform.tfvars files''),
       print '''']\<close>

text \<open>
  Running the script (\<^verbatim>\<open>if __name__ == "__main__": main()\<close>) in a working directory
  with contents \<open>fs\<close>, with the lines \<open>inp\<close> on standard input.
\<close>

definition run :: "filesystem \<Rightarrow> string list \<Rightarrow> error option \<times> world" where
  "run fs inp = main \<lparr>files = fs, stdin = inp, events = []\<rparr>"

section \<open>Notions for stating the properties\<close>

subsection \<open>Observations on a world\<close>

text \<open>
  The file-system events of a run (directories created, files written) and the
  prompts it issued, in the order they happened.
\<close>

fun is_fs_event :: "event \<Rightarrow> bool" where
  "is_fs_event (Mkdir p) = True"
| "is_fs_event (Write p c) = True"
| "is_fs_event e = False"

fun is_prompt :: "event \<Rightarrow> bool" where
  "is_prompt (Prompt s) = True"
| "is_prompt e = False"

definition fs_trace :: "world \<Rightarrow> event list" where
  "fs_trace w = filter is_fs_event (events w)"

definition prompts :: "world \<Rightarrow> event list" where
  "prompts w = filter is_prompt (events w)"

text \<open>
  The exceptions of the operating system, as opposed to \<^verbatim>\<open>EOFError\<close> and
  \<^verbatim>\<open>SystemExit\<close>.
\<close>

fun os_error :: "error \<Rightarrow> bool" where
  "os_error (FileNotFoundError p) = True"
| "os_error (FileExistsError p) = True"
| "os_error (NotADirectoryError p) = True"
| "os_error (IsADirectoryError p) = True"
| "os_error EOFError = False"
| "os_error (SystemExit code) = False"

subsection \<open>Directory creation\<close>

text \<open>
  A set of paths is free in a file system when none of them is occupied by a regular
  file: each is absent or already a directory. \<open>make_dirs S fs\<close> is \<open>fs\<close> with a
  directory at every path of \<open>S\<close>; \<open>made p w\<close> is the world after \<^verbatim>\<open>mkdir -p\<close> of
  \<open>p\<close>, the missing directories created parent first.
\<close>

definition free :: "filesystem \<Rightarrow> path set \<Rightarrow> bool" where
  "free fs S = (\<forall>q\<in>S. fs q = None \<or> fs q = Some Dir)"

definition make_dirs :: "path set \<Rightarrow> filesystem \<Rightarrow> filesystem" where
  "make_dirs S fs = (\<lambda>q. if q \<in> S then Some Dir else fs q)"

definition made :: "path \<Rightarrow> world \<Rightarrow> world" where
  "made p w =
     w\<lparr>files := make_dirs (set (ancestry p)) (files w),
       events := events w @ map Mkdir (filter (\<lambda>q. files w q = None) (ancestry p))\<rparr>"

subsection \<open>File-level operations\<close>

text \<open>
  What a statement does to the file system is summarised by a list of operations:
  \<^verbatim>\<open>mkdir(parents=True, exist_ok=True)\<close> of a path and \<^verbatim>\<open>write_text\<close> to a path. For
  each operation: when it succeeds, the file system it leaves, and the events it adds.
\<close>

datatype fs_op = MkdirP path | WriteText path string

fun op_ok :: "fs_op \<Rightarrow> filesystem \<Rightarrow> bool" where
  "op_ok (MkdirP p) fs = free fs (set (ancestry p))"
| "op_ok (WriteText p c) fs = (p \<noteq> [] \<and> is_dir fs (parent p) \<and> fs p \<noteq> Some Dir)"

fun op_apply :: "fs_op \<Rightarrow> filesystem \<Rightarrow> filesystem" where
  "op_apply (MkdirP p) fs = make_dirs (set (ancestry p)) fs"
| "op_apply (WriteText p c) fs = fs(p \<mapsto> File c)"

fun op_events :: "fs_op \<Rightarrow> filesystem \<Rightarrow> event list" where
  "op_events (MkdirP p) fs = map Mkdir (filter (\<lambda>q. fs q = None) (ancestry p))"
| "op_events (WriteText p c) fs = [Write p c]"

fun ops_ok :: "fs_op list \<Rightarrow> filesystem \<Rightarrow> bool" where
  "ops_ok [] fs = True"
| "ops_ok (x # xs) fs = (op_ok x fs \<and> ops_ok xs (op_apply x fs))"

fun ops_apply :: "fs_op list \<Rightarrow> filesystem \<Rightarrow> filesystem" where
  "ops_apply [] fs = fs"
| "ops_apply (x # xs) fs = ops_apply xs (op_apply x fs)"

fun ops_events :: "fs_op list \<Rightarrow> filesystem \<Rightarrow> event list" where
  "ops_events [] fs = []"
| "ops_events (x # xs) fs = op_events x fs @ ops_events xs (op_apply x fs)"

text \<open>
  A statement performs a list of operations when it behaves as the list on every world:
  it succeeds exactly when the list does, then leaves the file system and the file-system
  events of the list, raises operating-system errors only, and leaves standard input and
  the prompts alone.
\<close>

definition performs :: "action \<Rightarrow> fs_op list \<Rightarrow> bool" where
  "performs a xs =
     (\<forall>w. stdin (snd (a w)) = stdin w \<and> prompts (snd (a w)) = prompts w \<and>
          (\<forall>e. fst (a w) = Some e \<longrightarrow> os_error e) \<and>
          (fst (a w) = None \<longleftrightarrow> ops_ok xs (files w)) \<and>
          (ops_ok xs (files w) \<longrightarrow>
             files (snd (a w)) = ops_apply xs (files w) \<and>
             fs_trace (snd (a w)) = fs_trace w @ ops_events xs (files w)))"

subsection \<open>The two parts of \<open>main\<close>\<close>

text \<open>
  After its header, \<open>main\<close> is the repository check (source lines 595 to 603) followed by
  the installation proper (lines 605 to 824). Both parts are named here, with the text they
  have in \<open>main\<close>; lemma \<open>main_blocks\<close> below shows that \<open>main\<close> is their sequence.
\<close>

definition check_git_repo :: action where
  \<open>check_git_repo =
       if_then (\<lambda>w. \<not> path_exists (files w) (Path ''.git''))
         (steps
           [print_warning ''Not in a git repository. Initialize one first:'',
            print_info ''  git init'',
            print_info ''  git remote add origin https://github.com/YOUR_USERNAME/ai-infrastructure-projects'',
            print '''',
            (\<lambda>w. case input ''Continue anyway? (y/n): '' w of
                    (Inl e, w') \<Rightarrow> (Some e, w')
                  | (Inr response, w') \<Rightarrow>
                      if_then (\<lambda>w. lower response \<noteq> ''y'') (sys_exit 0) w')])\<close>

definition installation :: action where
  \<open>installation =
     steps
      [print_info ''Creating project structure...'',
       create_directory_structure,
       print '''',
       print_info ''Creating essential files...'',
       for_each (\<lambda>(filepath, content). create_file filepath content) FILES,
       print '''',
       print_info ''Creating placeholder files with instructions...'',
       for_each (\<lambda>(filepath, description). create_placeholder_note filepath description) placeholders,
       print '''',
       create_file ''docs/SETUP_INSTRUCTIONS.md'' setup_instructions,
       create_file ''docs/QUICK_REFERENCE.md'' quick_ref,
       print '''',
       print_header ''Installation Complete!'',
       print (OKGREEN @ ''Next steps:'' @ ENDC),
       print (''  1. Read: '' @ BOLD @ ''docs/SETUP_INSTRUCTIONS.md'' @ ENDC),
       print ''  2. Copy artifact contents into placeholder files'',
       print ''  3. Configure: terraform/*/terraform.tfvars'',
       print ''  4. Deploy: ./scripts/quick-start.sh'',
       print '''',
       print (OKCYAN @ ''Documentation:'' @ ENDC),
       print (''  '' @ [CHR 0xC3, CHR 0xA2, CHR 0xE2, CHR 0x82, CHR 0xAC, CHR 0xC2, CHR 0xA2] @ '' Setup Guide: docs/SETUP_INSTRUCTIONS.md''),
       print (''  '' @ [CHR 0xC3, CHR 0xA2, CHR 0xE2, CHR 0x82, CHR 0xAC, CHR 0xC2, CHR 0xA2] @ '' Quick Reference: docs/QUICK_REFERENCE.md''),
       print (''  '' @ [CHR 0xC3, CHR 0xA2, CHR 0xE2, CHR 0x82, CHR 0xAC, CHR 0xC2, CHR 0xA2] @ '' Architecture: docs/ARCHITECTURE.md''),
       print (''  '' @ [CHR 0xC3, CHR 0xA2, CHR 0xE2, CHR 0x82, CHR 0xAC, CHR 0xC2, CHR 0xA2] @ '' Troubleshooting: docs/TROUBLESHOOTING.md''),
       print '''',
       print (WARNING @ [CHR 0xC3, CHR 0xA2, CHR 0xC5, CHR 0xA1, CHR 0xC2, CHR 0xA0, CHR 0xC3, CHR 0xAF, CHR 0xC2, CHR 0xB8] @ ''  Don't forget to:'' @ ENDC),
       print (''  '' @ [CHR 0xC3, CHR 0xA2, CHR 0xE2, CHR 0x82, CHR 0xAC, CHR 0xC2, CHR 0xA2] @ '' Copy all artifact contents''),
       print (''  '' @ [CHR 0xC3, CHR 0xA2, CHR 0xE2, CHR 0x82, CHR 0xAC, CHR 0xC2, CHR 0xA2] @ '' Configure AWS and GCP credentials''),
       print (''  '' @ [CHR 0xC3, CHR 0xA2, CHR 0xE2, CHR 0x82, CHR 0xAC, CHR 0xC2, CHR 0xA2] @ '' Update terraform.tfvars files''),
       print '''']\<close>

subsection \<open>The installed state\<close>

text \<open>
  All files the script writes, in the order it writes them: the literal files, the
  placeholder notes, and the two documents. \<open>plan\<close> is the list of operations of the
  installation; \<open>dir_paths\<close> are the directories of the fixed list with their ancestors,
  \<open>file_paths\<close> the paths of the files.
\<close>

definition all_files :: "(string \<times> string) list" where
  "all_files =
     FILES @
     map (\<lambda>(filepath, description). (filepath, placeholder_content description)) placeholders @
     [(''docs/SETUP_INSTRUCTIONS.md'', setup_instructions),
      (''docs/QUICK_REFERENCE.md'', quick_ref)]"

definition file_ops :: "(string \<times> string) list \<Rightarrow> fs_op list" where
  "file_ops xs =
     concat (map (\<lambda>(filepath, content).
       [MkdirP (parent (Path filepath)), WriteText (Path filepath) content]) xs)"

definition plan :: "fs_op list" where
  "plan = map (\<lambda>directory. MkdirP (Path directory)) directories @ file_ops all_files"

definition dir_paths :: "path list" where
  "dir_paths = concat (map (\<lambda>directory. ancestry (Path directory)) directories)"

definition file_paths :: "path list" where
  "file_paths = map (\<lambda>(filepath, content). Path filepath) all_files"

text \<open>
  \<open>installed fs\<close> is the file system \<open>fs\<close> with every directory of \<open>dir_paths\<close> present and
  every file of \<open>all_files\<close> holding its content. A file system is compatible with the
  installation when no regular file sits where a directory is needed and no directory
  where a file is to be written. The run proceeds past the repository check when
  \<^verbatim>\<open>.git\<close> exists or the first line of input lowers to \<open>y\<close>.
\<close>

definition write_all :: "(string \<times> string) list \<Rightarrow> filesystem \<Rightarrow> filesystem" where
  "write_all xs fs = fold (\<lambda>(filepath, content) fs. fs(Path filepath \<mapsto> File content)) xs fs"

definition installed :: "filesystem \<Rightarrow> filesystem" where
  "installed fs = write_all all_files (make_dirs (set dir_paths) fs)"

definition compatible :: "filesystem \<Rightarrow> bool" where
  "compatible fs =
     (free fs (set dir_paths) \<and> (\<forall>p\<in>set file_paths. fs p \<noteq> Some Dir))"

definition proceeds :: "filesystem \<Rightarrow> string list \<Rightarrow> bool" where
  "proceeds fs inp =
     (path_exists fs (Path ''.git'') \<or>
      (case inp of [] \<Rightarrow> False | response # rest \<Rightarrow> lower response = ''y''))"

subsection \<open>Occurrences of a string\<close>

text \<open>
  The number of positions of a text at which a given string occurs.
\<close>

fun count_occurrences :: "string \<Rightarrow> string \<Rightarrow> nat" where
  "count_occurrences sub [] = (if sub = [] then 1 else 0)"
| "count_occurrences sub (c # cs) =
     (if prefix sub (c # cs) then 1 else 0) + count_occurrences sub cs"

section \<open>Lemmas\<close>

subsection \<open>Path resolution and directory creation\<close>

text \<open>
  \<open>Path_mkdir\<close> is unfolded by hand, one call at a time.
\<close>

declare Path_mkdir.simps [simp del]

lemma steps_None_iff:
  "steps (s # ss) w = (None, w') \<longleftrightarrow> (\<exists>w1. s w = (None, w1) \<and> steps ss w1 = (None, w'))"
  by (auto split: prod.splits option.splits)

lemma steps_append:
  "steps (xs @ ys) w = (case steps xs w of (None, w') \<Rightarrow> steps ys w' | (Some e, w') \<Rightarrow> (Some e, w'))"
  by (induction xs arbitrary: w) (auto split: prod.splits option.splits)

lemma ancestry_Nil [simp]: "ancestry [] = []"
  by (simp add: ancestry_def)

lemma ancestry_snoc [simp]: "ancestry (p @ [x]) = ancestry p @ [p @ [x]]"
  by (cases "prefixes p") (simp_all add: ancestry_def)

lemma set_ancestry: "set (ancestry p) = {q. prefix q p \<and> q \<noteq> []}"
  by (induction p rule: rev_induct) auto

lemma self_notin_ancestry_parent [simp]: "p @ [x] \<notin> set (ancestry p)"
  by (auto simp: set_ancestry)

lemma walk_Dir_iff: "walk fs p qs = Inr Dir \<longleftrightarrow> (\<forall>q\<in>set qs. fs q = Some Dir)"
  by (induction qs) (auto split: option.splits node.splits)

lemma is_dir_iff: "is_dir fs p \<longleftrightarrow> (\<forall>q\<in>set (ancestry p). fs q = Some Dir)"
  by (simp add: is_dir_def stat_def walk_Dir_iff)

lemma walk_free:
  "free fs (set qs) \<Longrightarrow>
   walk fs p qs = (if \<forall>q\<in>set qs. fs q = Some Dir then Inr Dir else Inl (FileNotFoundError p))"
  by (induction qs) (auto simp: free_def split: option.splits node.splits)

lemma os_mkdir_snoc:
  "os_mkdir (p @ [x]) w =
     (case walk (files w) (p @ [x]) (ancestry p) of
        Inl e \<Rightarrow> (Some e, w)
      | Inr (File c) \<Rightarrow> (Some (NotADirectoryError (p @ [x])), w)
      | Inr Dir \<Rightarrow>
          (case files w (p @ [x]) of
             Some n \<Rightarrow> (Some (FileExistsError (p @ [x])), w)
           | None \<Rightarrow>
               (None, w\<lparr>files := (files w)(p @ [x] \<mapsto> Dir),
                         events := events w @ [Mkdir (p @ [x])]\<rparr>)))"
  by (simp add: os_mkdir_def parent_def)

lemma make_dirs_same: "\<forall>q\<in>S. fs q = Some Dir \<Longrightarrow> make_dirs S fs = fs"
  by (auto simp: make_dirs_def)

lemma made_noop: "is_dir (files w) p \<Longrightarrow> made p w = w"
  by (simp add: made_def is_dir_iff make_dirs_same filter_empty_conv[THEN iffD2])

lemma mkdir_noop: "is_dir (files w) p \<Longrightarrow> Path_mkdir True True p w = (None, w)"
proof (cases p rule: rev_cases)
  case Nil
  then show ?thesis
    by (simp add: Path_mkdir.simps[of _ _ "[]"] os_mkdir_def is_dir_iff)
next
  case (snoc p' x)
  assume d: "is_dir (files w) p"
  then have "walk (files w) p (ancestry p') = Inr Dir" "files w p = Some Dir"
    using snoc by (auto simp: is_dir_iff walk_Dir_iff)
  then show ?thesis
    using d snoc by (simp add: Path_mkdir.simps[of _ _ "p' @ [x]"] os_mkdir_snoc)
qed

lemma mkdir_ok:
  "free (files w) (set (ancestry p)) \<Longrightarrow> Path_mkdir True True p w = (None, made p w)"
proof (induction p arbitrary: w rule: rev_induct)
  case Nil
  then show ?case
    by (simp add: mkdir_noop is_dir_iff made_noop)
next
  case (snoc x p)
  let ?p = "p @ [x]"
  from snoc.prems have fp: "free (files w) (set (ancestry p))"
    and fx: "files w ?p = None \<or> files w ?p = Some Dir"
    by (auto simp: free_def)
  show ?case
  proof (cases "is_dir (files w) p")
    case True
    then have wk: "walk (files w) ?p (ancestry p) = Inr Dir"
      by (simp add: is_dir_iff walk_Dir_iff)
    from fx show ?thesis
    proof
      assume n: "files w ?p = None"
      have "made ?p w = w\<lparr>files := (files w)(?p \<mapsto> Dir), events := events w @ [Mkdir ?p]\<rparr>"
        using True n
        by (auto simp: made_def make_dirs_def is_dir_iff fun_eq_iff filter_empty_conv[THEN iffD2])
      then show ?thesis
        using wk n by (simp add: Path_mkdir.simps[of _ _ ?p] os_mkdir_snoc)
    next
      assume "files w ?p = Some Dir"
      then have "is_dir (files w) ?p"
        using True by (simp add: is_dir_iff)
      then show ?thesis
        by (simp add: mkdir_noop made_noop)
    qed
  next
    case False
    then have wk: "walk (files w) ?p (ancestry p) = Inl (FileNotFoundError ?p)"
      using walk_free[OF fp, of ?p] by (simp add: is_dir_iff)
    define w1 where "w1 = made p w"
    have rec: "Path_mkdir True True p w = (None, w1)"
      unfolding w1_def by (rule snoc.IH[OF fp])
    have d1: "is_dir (files w1) p"
      by (simp add: w1_def made_def is_dir_iff make_dirs_def)
    then have wk1: "walk (files w1) ?p (ancestry p) = Inr Dir"
      by (simp add: is_dir_iff walk_Dir_iff)
    have fx1: "files w1 ?p = files w ?p"
      by (simp add: w1_def made_def make_dirs_def)
    have unfold: "Path_mkdir True True ?p w = Path_mkdir False True ?p w1"
      using wk rec by (simp add: Path_mkdir.simps[of True _ ?p] os_mkdir_snoc parent_def)
    from fx show ?thesis
    proof
      assume n: "files w ?p = None"
      have "made ?p w = w1\<lparr>files := (files w1)(?p \<mapsto> Dir), events := events w1 @ [Mkdir ?p]\<rparr>"
        using n by (auto simp: w1_def made_def make_dirs_def fun_eq_iff)
      then show ?thesis
        using unfold wk1 n fx1 by (simp add: Path_mkdir.simps[of False _ ?p] os_mkdir_snoc)
    next
      assume dx: "files w ?p = Some Dir"
      then have "is_dir (files w1) ?p"
        using d1 fx1 by (simp add: is_dir_iff)
      moreover have "made ?p w = w1"
        using dx by (auto simp: w1_def made_def make_dirs_def fun_eq_iff)
      ultimately show ?thesis
        using unfold wk1 dx fx1 by (simp add: Path_mkdir.simps[of False _ ?p] os_mkdir_snoc)
    qed
  qed
qed

lemma mkdir_fail:
  "\<not> free (files w) (set (ancestry p)) \<Longrightarrow> fst (Path_mkdir True True p w) \<noteq> None"
proof (induction p arbitrary: w rule: rev_induct)
  case Nil
  then show ?case by (simp add: free_def)
next
  case (snoc x p)
  let ?p = "p @ [x]"
  have nd: "\<not> is_dir (files w) ?p"
    using snoc.prems by (auto simp: is_dir_iff free_def)
  show ?case
  proof (cases "free (files w) (set (ancestry p))")
    case False
    then have rec: "fst (Path_mkdir True True p w) \<noteq> None"
      by (rule snoc.IH)
    from False have "walk (files w) ?p (ancestry p) \<noteq> Inr Dir"
      by (auto simp: walk_Dir_iff free_def)
    then show ?thesis
      using rec nd
      by (auto simp: Path_mkdir.simps[of True _ ?p] os_mkdir_snoc parent_def
               split: sum.splits node.splits error.splits prod.splits option.splits)
  next
    case True
    then obtain c where fx: "files w ?p = Some (File c)"
      using snoc.prems by (auto simp: free_def) (metis node.exhaust)
    show ?thesis
    proof (cases "is_dir (files w) p")
      case d: True
      then have "walk (files w) ?p (ancestry p) = Inr Dir"
        by (simp add: is_dir_iff walk_Dir_iff)
      then show ?thesis
        using fx nd by (simp add: Path_mkdir.simps[of True _ ?p] os_mkdir_snoc)
    next
      case False
      then have wk: "walk (files w) ?p (ancestry p) = Inl (FileNotFoundError ?p)"
        using walk_free[OF True, of ?p] by (simp add: is_dir_iff)
      define w1 where "w1 = made p w"
      have rec: "Path_mkdir True True p w = (None, w1)"
        unfolding w1_def by (rule mkdir_ok[OF True])
      have d1: "is_dir (files w1) p"
        by (simp add: w1_def made_def is_dir_iff make_dirs_def)
      then have wk1: "walk (files w1) ?p (ancestry p) = Inr Dir"
        by (simp add: is_dir_iff walk_Dir_iff)
      have fx1: "files w1 ?p = Some (File c)"
        using fx by (simp add: w1_def made_def make_dirs_def)
      then have nd1: "\<not> is_dir (files w1) ?p"
        by (simp add: is_dir_iff)
      have "Path_mkdir True True ?p w = Path_mkdir False True ?p w1"
        using wk rec by (simp add: Path_mkdir.simps[of True _ ?p] os_mkdir_snoc parent_def)
      then show ?thesis
        using wk1 fx1 nd1 by (simp add: Path_mkdir.simps[of False _ ?p] os_mkdir_snoc)
    qed
  qed
qed

lemma mkdir_iff:
  "Path_mkdir True True p w = (None, w') \<longleftrightarrow> free (files w) (set (ancestry p)) \<and> w' = made p w"
  using mkdir_ok[of w p] mkdir_fail[of w p] by (cases "free (files w) (set (ancestry p))") auto

lemma write_text_iff:
  "write_text p c w = (None, w') \<longleftrightarrow>
     p \<noteq> [] \<and> is_dir (files w) (parent p) \<and> files w p \<noteq> Some Dir \<and>
     w' = w\<lparr>files := (files w)(p \<mapsto> File c), events := events w @ [Write p c]\<rparr>"
proof -
  have "walk (files w) p (ancestry (parent p)) = Inr Dir \<longleftrightarrow> is_dir (files w) (parent p)"
    by (simp add: is_dir_iff walk_Dir_iff)
  then show ?thesis
    by (cases "walk (files w) p (ancestry (parent p))")
       (auto simp: write_text_def split: node.splits option.splits)
qed

subsection \<open>Errors and frame conditions\<close>

lemma walk_error:
  "walk fs p qs = Inl e \<Longrightarrow> e = FileNotFoundError p \<or> e = NotADirectoryError p"
  by (induction qs) (auto split: option.splits node.splits if_splits)

lemma os_mkdir_frame:
  "stdin (snd (os_mkdir p w)) = stdin w" "prompts (snd (os_mkdir p w)) = prompts w"
  by (auto simp: os_mkdir_def prompts_def split: sum.splits node.splits option.splits)

lemma os_mkdir_error: "os_mkdir p w = (Some e, w') \<Longrightarrow> os_error e"
  by (auto simp: os_mkdir_def split: sum.splits node.splits option.splits if_splits
           dest!: walk_error)

lemma Path_mkdir_frame:
  "stdin (snd (Path_mkdir a b p w)) = stdin w \<and> prompts (snd (Path_mkdir a b p w)) = prompts w \<and>
   (\<forall>e. fst (Path_mkdir a b p w) = Some e \<longrightarrow> os_error e)"
proof (induction a b p w rule: Path_mkdir.induct)
  case (1 parents exist_ok p w)
  show ?case
  proof (cases "os_mkdir p w")
    case (Pair r w1)
    have fr: "stdin w1 = stdin w" "prompts w1 = prompts w"
      using os_mkdir_frame[of p w] Pair by simp_all
    show ?thesis
    proof (cases r)
      case None
      then show ?thesis
        using Pair fr by (simp add: Path_mkdir.simps[of parents exist_ok p w])
    next
      case (Some e)
      then have oe: "os_error e"
        using Pair os_mkdir_error by blast
      show ?thesis
      proof (cases "(\<exists>q. e = FileNotFoundError q) \<and> \<not> (\<not> parents \<or> parent p = p)")
        case False
        then show ?thesis
          using Pair Some fr oe
          by (cases e) (auto simp: Path_mkdir.simps[of parents exist_ok p w])
      next
        case True
        then obtain q where e: "e = FileNotFoundError q" and c: "\<not> (\<not> parents \<or> parent p = p)"
          by blast
        note ih1 = "1.IH"(1)[OF Pair[symmetric] Some e c]
        have unf: "Path_mkdir parents exist_ok p w =
            (case Path_mkdir True True (parent p) w1 of
               (None, w'') \<Rightarrow> Path_mkdir False exist_ok p w''
             | (Some e, w'') \<Rightarrow> (Some e, w''))"
          using Pair Some e c by (subst Path_mkdir.simps) simp
        show ?thesis
        proof (cases "Path_mkdir True True (parent p) w1")
          case (Pair r2 w2)
          note P2 = this
          show ?thesis
          proof (cases r2)
            case None
            note ih2 = "1.IH"(2)[OF \<open>os_mkdir p w = (r, w1)\<close>[symmetric] \<open>r = Some e\<close> e c P2[symmetric] None]
            show ?thesis
              unfolding unf using P2 None ih1 ih2 fr by simp
          next
            case (Some e2)
            then show ?thesis
              unfolding unf using P2 ih1 fr by simp
          qed
        qed
      qed
    qed
  qed
qed

subsection \<open>Statements and the operations they perform\<close>

lemma ops_ok_append: "ops_ok (xs @ ys) fs \<longleftrightarrow> ops_ok xs fs \<and> ops_ok ys (ops_apply xs fs)"
  by (induction xs arbitrary: fs) auto

lemma ops_apply_append: "ops_apply (xs @ ys) fs = ops_apply ys (ops_apply xs fs)"
  by (induction xs arbitrary: fs) auto

lemma ops_events_append:
  "ops_events (xs @ ys) fs = ops_events xs fs @ ops_events ys (ops_apply xs fs)"
  by (induction xs arbitrary: fs) auto

lemma performs_print: "performs (print l) []"
  by (simp add: performs_def print_def prompts_def fs_trace_def)

lemma performs_steps_Nil: "performs (steps []) []"
  by (simp add: performs_def)

lemma performs_steps_Cons:
  assumes a: "performs a xs" and r: "performs (steps ss) ys"
  shows "performs (steps (a # ss)) (xs @ ys)"
  unfolding performs_def
proof
  fix w
  obtain r1 w1 where aw: "a w = (r1, w1)"
    by (cases "a w")
  note A = a[unfolded performs_def, rule_format, of w, unfolded aw, simplified]
  show "stdin (snd (steps (a # ss) w)) = stdin w \<and>
        prompts (snd (steps (a # ss) w)) = prompts w \<and>
        (\<forall>e. fst (steps (a # ss) w) = Some e \<longrightarrow> os_error e) \<and>
        (fst (steps (a # ss) w) = None \<longleftrightarrow> ops_ok (xs @ ys) (files w)) \<and>
        (ops_ok (xs @ ys) (files w) \<longrightarrow>
           files (snd (steps (a # ss) w)) = ops_apply (xs @ ys) (files w) \<and>
           fs_trace (snd (steps (a # ss) w)) = fs_trace w @ ops_events (xs @ ys) (files w))"
  proof (cases r1)
    case None
    note R = r[unfolded performs_def, rule_format, of w1]
    from None A have ok: "ops_ok xs (files w)" by simp
    with A have eq: "files w1 = ops_apply xs (files w)"
      "fs_trace w1 = fs_trace w @ ops_events xs (files w)" by simp_all
    show ?thesis
      using aw None A R ok eq
      by (simp add: ops_ok_append ops_apply_append ops_events_append)
  next
    case (Some e)
    then show ?thesis
      using aw A by (auto simp: ops_ok_append)
  qed
qed

lemma performs_for_each:
  "(\<And>x. x \<in> set xs \<Longrightarrow> performs (f x) (g x)) \<Longrightarrow> performs (for_each f xs) (concat (map g xs))"
  unfolding for_each_def
  by (induction xs) (auto intro: performs_steps_Nil performs_steps_Cons)

lemma performs_eq: "performs a xs \<Longrightarrow> ys = xs \<Longrightarrow> performs a ys"
  by simp

lemma performs_mkdir: "performs (Path_mkdir True True p) [MkdirP p]"
  unfolding performs_def
proof
  fix w
  show "stdin (snd (Path_mkdir True True p w)) = stdin w \<and>
        prompts (snd (Path_mkdir True True p w)) = prompts w \<and>
        (\<forall>e. fst (Path_mkdir True True p w) = Some e \<longrightarrow> os_error e) \<and>
        (fst (Path_mkdir True True p w) = None \<longleftrightarrow> ops_ok [MkdirP p] (files w)) \<and>
        (ops_ok [MkdirP p] (files w) \<longrightarrow>
           files (snd (Path_mkdir True True p w)) = ops_apply [MkdirP p] (files w) \<and>
           fs_trace (snd (Path_mkdir True True p w)) = fs_trace w @ ops_events [MkdirP p] (files w))"
  proof (cases "free (files w) (set (ancestry p))")
    case True
    then show ?thesis
      using Path_mkdir_frame[of True True p w] mkdir_ok[of w p]
      by (simp add: made_def fs_trace_def)
  next
    case False
    then show ?thesis
      using Path_mkdir_frame[of True True p w] mkdir_fail[of w p]
      by simp
  qed
qed

lemma write_text_frame:
  "stdin (snd (write_text p c w)) = stdin w" "prompts (snd (write_text p c w)) = prompts w"
  by (auto simp: write_text_def prompts_def split: sum.splits node.splits option.splits)

lemma write_text_error: "write_text p c w = (Some e, w') \<Longrightarrow> os_error e"
  by (auto simp: write_text_def split: sum.splits node.splits option.splits if_splits
           dest!: walk_error)

lemma performs_write: "performs (write_text p c) [WriteText p c]"
  unfolding performs_def
proof
  fix w
  obtain r w1 where ww: "write_text p c w = (r, w1)"
    by (cases "write_text p c w")
  show "stdin (snd (write_text p c w)) = stdin w \<and>
        prompts (snd (write_text p c w)) = prompts w \<and>
        (\<forall>e. fst (write_text p c w) = Some e \<longrightarrow> os_error e) \<and>
        (fst (write_text p c w) = None \<longleftrightarrow> ops_ok [WriteText p c] (files w)) \<and>
        (ops_ok [WriteText p c] (files w) \<longrightarrow>
           files (snd (write_text p c w)) = ops_apply [WriteText p c] (files w) \<and>
           fs_trace (snd (write_text p c w)) = fs_trace w @ ops_events [WriteText p c] (files w))"
  proof (cases r)
    case None
    then show ?thesis
      using ww write_text_frame[of p c w] write_text_iff[of p c w w1]
      by (auto simp: fs_trace_def)
  next
    case (Some e)
    then have "\<not> (p \<noteq> [] \<and> is_dir (files w) (parent p) \<and> files w p \<noteq> Some Dir)"
      using ww write_text_iff[of p c w] by (metis option.distinct(1) prod.inject)
    then show ?thesis
      using ww Some write_text_frame[of p c w] write_text_error[OF ww[unfolded Some]]
      by auto
  qed
qed

subsection \<open>The structure of \<open>main\<close>\<close>

lemma steps_nest: "steps (a # b # ss) = steps [a, b, steps ss]"
  by (rule ext) (auto split: prod.splits option.splits)

lemma main_blocks:
  "main = steps [print_header ''AI Infrastructure Projects Installer'', check_git_repo, installation]"
  unfolding main_def check_git_repo_def installation_def by (rule steps_nest)

lemma performs_print_success: "performs (print_success t) []"
  by (simp add: print_success_def performs_print)

lemma performs_print_info: "performs (print_info t) []"
  by (simp add: print_info_def performs_print)

lemma performs_print_warning: "performs (print_warning t) []"
  by (simp add: print_warning_def performs_print)

lemma performs_print_header: "performs (print_header t) []"
  unfolding print_header_def
  by (rule performs_eq, (rule performs_steps_Cons performs_steps_Nil performs_print)+) simp

lemma performs_create_file:
  "performs (create_file p c) [MkdirP (parent (Path p)), WriteText (Path p) c]"
  unfolding create_file_def Let_def
  by (rule performs_eq,
      (rule performs_steps_Cons performs_steps_Nil performs_mkdir performs_write
        performs_print_success)+)
     simp

lemma performs_create_directory_structure:
  "performs create_directory_structure (map (\<lambda>directory. MkdirP (Path directory)) directories)"
proof -
  have "performs (for_each (\<lambda>directory. Path_mkdir True True (Path directory)) directories)
          (concat (map (\<lambda>directory. [MkdirP (Path directory)]) directories))"
    by (rule performs_for_each) (rule performs_mkdir)
  then show ?thesis
    unfolding create_directory_structure_def
    by (rule performs_eq[OF performs_steps_Cons[OF _ performs_steps_Cons[OF performs_print_success performs_steps_Nil]]])
       (simp add: concat_map_singleton)
qed

lemma performs_files_loop:
  "performs (for_each (\<lambda>(filepath, content). create_file filepath content) xs) (file_ops xs)"
  unfolding file_ops_def
  by (rule performs_for_each) (auto intro: performs_create_file)

lemma performs_placeholders_loop:
  "performs (for_each (\<lambda>(filepath, description). create_placeholder_note filepath description) xs)
     (file_ops (map (\<lambda>(filepath, description). (filepath, placeholder_content description)) xs))"
proof -
  have "performs (for_each (\<lambda>(filepath, description). create_placeholder_note filepath description) xs)
     (concat (map (\<lambda>(filepath, description).
        [MkdirP (parent (Path filepath)), WriteText (Path filepath) (placeholder_content description)]) xs))"
    by (rule performs_for_each) (auto simp: create_placeholder_note_def intro: performs_create_file)
  then show ?thesis
    by (simp add: file_ops_def comp_def case_prod_unfold)
qed

lemma file_ops_append: "file_ops (xs @ ys) = file_ops xs @ file_ops ys"
  by (simp add: file_ops_def)

lemma performs_installation: "performs installation plan"
  unfolding installation_def
  by (rule performs_eq,
      (rule performs_steps_Cons performs_steps_Nil performs_print performs_print_info
        performs_print_header performs_create_directory_structure performs_files_loop
        performs_placeholders_loop performs_create_file)+)
     (simp add: plan_def all_files_def file_ops_append, simp add: file_ops_def)

subsection \<open>The paths of the installation\<close>

text \<open>
  The tables evaluated: the paths of all files, and the directories with their
  ancestors. No file path is a directory path, and every parent of a file is one.
\<close>

lemma file_names: "map fst all_files =
  [''README.md'', ''.gitignore'', ''LICENSE'', ''docs/ARCHITECTURE.md'', ''docs/TROUBLESHOOTING.md'',
   ''terraform/aws/main.tf'', ''terraform/aws/variables.tf'', ''terraform/gcp/main.tf'',
   ''terraform/gcp/variables.tf'', ''training/src/train_distributed.py'',
   ''training/docker/Dockerfile'', ''kubernetes/training-job.yaml'',
   ''monitoring/prometheus/values.yaml'', ''monitoring/gpu-exporter/gpu_metrics.py'',
   ''inference/app/main.py'', ''inference/Dockerfile'', ''kubernetes/inference-deployment.yaml'',
   ''.github/workflows/ci-cd-pipeline.yaml'', ''scripts/quick-start.sh'',
   ''scripts/setup-local-dev.sh'', ''docs/SETUP_INSTRUCTIONS.md'', ''docs/QUICK_REFERENCE.md'']"
  by (simp add: all_files_def FILES_def placeholders_def)

lemma file_paths_eval: "file_paths =
  [[''README.md''], [''.gitignore''], [''LICENSE''], [''docs'', ''ARCHITECTURE.md''],
   [''docs'', ''TROUBLESHOOTING.md''], [''terraform'', ''aws'', ''main.tf''],
   [''terraform'', ''aws'', ''variables.tf''], [''terraform'', ''gcp'', ''main.tf''],
   [''terraform'', ''gcp'', ''variables.tf''], [''training'', ''src'', ''train_distributed.py''],
   [''training'', ''docker'', ''Dockerfile''], [''kubernetes'', ''training-job.yaml''],
   [''monitoring'', ''prometheus'', ''values.yaml''],
   [''monitoring'', ''gpu-exporter'', ''gpu_metrics.py''], [''inference'', ''app'', ''main.py''],
   [''inference'', ''Dockerfile''], [''kubernetes'', ''inference-deployment.yaml''],
   [''.github'', ''workflows'', ''ci-cd-pipeline.yaml''], [''scripts'', ''quick-start.sh''],
   [''scripts'', ''setup-local-dev.sh''], [''docs'', ''SETUP_INSTRUCTIONS.md''],
   [''docs'', ''QUICK_REFERENCE.md'']]"
proof -
  have "file_paths = map Path (map fst all_files)"
    by (simp add: file_paths_def case_prod_unfold)
  then show ?thesis
    unfolding file_names by (simp add: Path_def)
qed

lemma dir_paths_eval: "dir_paths =
  [[''terraform''], [''terraform'', ''aws''], [''terraform''], [''terraform'', ''gcp''],
   [''kubernetes''], [''kubernetes'', ''rbac''], [''kubernetes''],
   [''kubernetes'', ''network-policies''], [''monitoring''], [''monitoring'', ''prometheus''],
   [''monitoring''], [''monitoring'', ''loki''], [''monitoring''],
   [''monitoring'', ''gpu-exporter''], [''monitoring''], [''monitoring'', ''deployment''],
   [''inference''], [''inference'', ''app''], [''training''], [''training'', ''src''],
   [''training''], [''training'', ''docker''], [''training''], [''training'', ''scripts''],
   [''istio''], [''argocd''], [''argocd'', ''applications''], [''argocd''],
   [''argocd'', ''projects''], [''.github''], [''.github'', ''workflows''], [''scripts''],
   [''tests''], [''docs'']]"
  by (simp add: dir_paths_def directories_def Path_def ancestry_def)

lemma files_apart:
  "\<forall>p\<in>set file_paths. p \<noteq> [] \<and> p \<notin> set dir_paths \<and> set (ancestry (parent p)) \<subseteq> set dir_paths"
  unfolding file_paths_eval dir_paths_eval by (simp add: ancestry_def parent_def)

lemma file_paths_distinct: "distinct file_paths"
  unfolding file_paths_eval by simp

subsection \<open>What the plan does to a file system\<close>

lemma distinct_ancestry: "distinct (ancestry p)"
  unfolding ancestry_def by (rule distinct_tl) (rule distinct_prefixes)

lemma mkdir_ops:
  fixes ds :: "string list"
  defines "S \<equiv> \<lambda>ds. set (concat (map (\<lambda>d. ancestry (Path d)) ds))"
  shows "ops_ok (map (\<lambda>d. MkdirP (Path d)) ds) fs \<longleftrightarrow> free fs (S ds)"
    and "ops_apply (map (\<lambda>d. MkdirP (Path d)) ds) fs = make_dirs (S ds) fs"
    and "\<exists>ms. ops_events (map (\<lambda>d. MkdirP (Path d)) ds) fs = map Mkdir ms \<and>
           set ms = {q \<in> S ds. fs q = None} \<and> distinct ms"
proof (induction ds arbitrary: fs)
  case Nil
  {
    case 1 show ?case by (simp add: S_def free_def)
  next
    case 2 show ?case by (simp add: S_def make_dirs_def)
  next
    case 3 show ?case by (simp add: S_def)
  }
next
  case (Cons d ds)
  let ?A = "set (ancestry (Path d))"
  have S: "S (d # ds) = ?A \<union> S ds"
    by (simp add: S_def)
  {
    case 1
    show ?case
      by (auto simp: S Cons.IH(1) Cons.IH(2) free_def make_dirs_def)
  next
    case 2
    show ?case
      by (auto simp: S Cons.IH(2) make_dirs_def fun_eq_iff)
  next
    case 3
    obtain ms where ms: "ops_events (map (\<lambda>d. MkdirP (Path d)) ds) (make_dirs ?A fs) = map Mkdir ms"
      "set ms = {q \<in> S ds. make_dirs ?A fs q = None}" "distinct ms"
      using Cons.IH(3)[of "make_dirs ?A fs"] by blast
    let ?ns = "filter (\<lambda>q. fs q = None) (ancestry (Path d)) @ ms"
    have "ops_events (map (\<lambda>d. MkdirP (Path d)) (d # ds)) fs = map Mkdir ?ns"
      using ms(1) by simp
    moreover have "set ?ns = {q \<in> S (d # ds). fs q = None}"
      using ms(2) by (auto simp: S make_dirs_def split: if_splits)
    moreover have "distinct ?ns"
      using ms(2,3) by (auto simp: distinct_ancestry make_dirs_def split: if_splits)
    ultimately show ?case
      by blast
  }
qed

lemma write_all_Cons:
  "write_all ((p, c) # xs) fs = write_all xs (fs(Path p \<mapsto> File c))"
  by (simp add: write_all_def)

lemma write_all_Nil [simp]: "write_all [] fs = fs"
  by (simp add: write_all_def)

lemma file_ops_Cons:
  "file_ops ((p, c) # xs) = MkdirP (parent (Path p)) # WriteText (Path p) c # file_ops xs"
  by (simp add: file_ops_def)

lemma file_ops_Nil [simp]: "file_ops [] = []"
  by (simp add: file_ops_def)

lemma file_ops_ready:
  assumes "\<forall>q\<in>D. fs q = Some Dir"
    and "\<forall>(p, c)\<in>set xs. Path p \<noteq> [] \<and> Path p \<notin> D \<and> set (ancestry (parent (Path p))) \<subseteq> D"
  shows "(ops_ok (file_ops xs) fs \<longleftrightarrow> (\<forall>(p, c)\<in>set xs. fs (Path p) \<noteq> Some Dir)) \<and>
         ops_apply (file_ops xs) fs = write_all xs fs \<and>
         ops_events (file_ops xs) fs = map (\<lambda>(p, c). Write (Path p) c) xs"
  using assms
proof (induction xs arbitrary: fs)
  case Nil
  then show ?case by simp
next
  case (Cons x xs)
  obtain p c where x: "x = (p, c)"
    by (cases x)
  let ?P = "Path p"
  let ?A = "set (ancestry (parent ?P))"
  from Cons.prems x have P: "?P \<noteq> []" "?P \<notin> D" "?A \<subseteq> D"
    by auto
  then have dirs: "\<forall>q\<in>?A. fs q = Some Dir"
    using Cons.prems(1) by blast
  then have mk: "make_dirs ?A fs = fs"
    by (rule make_dirs_same)
  have ev: "filter (\<lambda>q. fs q = None) (ancestry (parent ?P)) = []"
    using dirs by (simp add: filter_empty_conv)
  let ?fs = "fs(?P \<mapsto> File c)"
  have ready: "\<forall>q\<in>D. ?fs q = Some Dir"
    using Cons.prems(1) P(2) by auto
  have rest: "\<forall>(p, c)\<in>set xs. Path p \<noteq> [] \<and> Path p \<notin> D \<and> set (ancestry (parent (Path p))) \<subseteq> D"
    using Cons.prems(2) by simp
  note ih = Cons.IH[OF ready rest]
  have "?fs q \<noteq> Some Dir \<longleftrightarrow> fs q \<noteq> Some Dir" if "fs ?P \<noteq> Some Dir" for q
    using that by (cases "q = ?P") simp_all
  then have ok: "(\<forall>(p, c)\<in>set xs. ?fs (Path p) \<noteq> Some Dir) \<and> fs ?P \<noteq> Some Dir \<longleftrightarrow>
            (\<forall>(p, c)\<in>set (x # xs). fs (Path p) \<noteq> Some Dir)"
    using x by (auto simp del: fun_upd_apply)
  from ih have ih1: "ops_ok (file_ops xs) ?fs \<longleftrightarrow> (\<forall>(p, c)\<in>set xs. ?fs (Path p) \<noteq> Some Dir)"
    and ih2: "ops_apply (file_ops xs) ?fs = write_all xs ?fs"
    and ih3: "ops_events (file_ops xs) ?fs = map (\<lambda>(p, c). Write (Path p) c) xs"
    by blast+
  have head: "op_ok (MkdirP (parent ?P)) fs" "op_apply (MkdirP (parent ?P)) fs = fs"
    "op_events (MkdirP (parent ?P)) fs = []"
    "op_ok (WriteText ?P c) fs \<longleftrightarrow> fs ?P \<noteq> Some Dir"
    using dirs P(1) by (simp_all add: mk ev free_def is_dir_iff)
  have "ops_ok (file_ops (x # xs)) fs \<longleftrightarrow> fs ?P \<noteq> Some Dir \<and> ops_ok (file_ops xs) ?fs"
    unfolding x file_ops_Cons by (simp add: head del: fun_upd_apply op_ok.simps op_apply.simps(1))
  moreover have "ops_apply (file_ops (x # xs)) fs = ops_apply (file_ops xs) ?fs"
    unfolding x file_ops_Cons by (simp add: head del: fun_upd_apply op_apply.simps(1))
  moreover have "ops_events (file_ops (x # xs)) fs = Write ?P c # ops_events (file_ops xs) ?fs"
    unfolding x file_ops_Cons
    by (simp add: head del: fun_upd_apply op_apply.simps(1) op_events.simps(1))
  ultimately show ?case
    using ih1 ih2 ih3 ok by (auto simp: x write_all_Cons simp del: fun_upd_apply)
qed

lemma write_all_other:
  "p \<notin> set (map (\<lambda>(filepath, content). Path filepath) xs) \<Longrightarrow> write_all xs fs p = fs p"
  by (induction xs arbitrary: fs) (auto simp: write_all_Cons)

lemma write_all_lookup:
  "distinct (map (\<lambda>(filepath, content). Path filepath) xs) \<Longrightarrow> (p, c) \<in> set xs \<Longrightarrow>
   write_all xs fs (Path p) = Some (File c)"
proof (induction xs arbitrary: fs)
  case Nil
  then show ?case by simp
next
  case (Cons x xs)
  obtain p' c' where x: "x = (p', c')"
    by (cases x)
  show ?case
  proof (cases "(p, c) = x")
    case True
    then have "Path p \<notin> set (map (\<lambda>(filepath, content). Path filepath) xs)"
      using Cons.prems(1) by auto
    then show ?thesis
      using True x by (simp add: write_all_Cons write_all_other)
  next
    case False
    then have "(p, c) \<in> set xs" "distinct (map (\<lambda>(filepath, content). Path filepath) xs)"
      using Cons.prems by auto
    then show ?thesis
      using Cons.IH x by (simp add: write_all_Cons)
  qed
qed

lemma write_all_same:
  "\<forall>(p, c)\<in>set xs. fs (Path p) = Some (File c) \<Longrightarrow> write_all xs fs = fs"
proof (induction xs)
  case Nil
  then show ?case by simp
next
  case (Cons x xs)
  then show ?case
    by (cases x) (auto simp: write_all_Cons fun_upd_idem)
qed

lemma all_files_apart:
  "\<forall>(p, c)\<in>set all_files.
     Path p \<noteq> [] \<and> Path p \<notin> set dir_paths \<and> set (ancestry (parent (Path p))) \<subseteq> set dir_paths"
  using files_apart by (auto simp: file_paths_def)

lemmas mkdir_directories = mkdir_ops[of directories, folded dir_paths_def]

lemma make_dirs_ready: "\<forall>q\<in>D. make_dirs D fs q = Some Dir"
  by (simp add: make_dirs_def)

lemmas file_ops_installed = file_ops_ready[OF make_dirs_ready all_files_apart]

lemma plan_apply: "ops_apply plan fs = installed fs"
  using file_ops_installed[of fs]
  by (simp add: plan_def ops_apply_append mkdir_directories(2) installed_def)

lemma plan_ok: "ops_ok plan fs \<longleftrightarrow> compatible fs"
proof -
  have "make_dirs (set dir_paths) fs (Path p) = fs (Path p)" if "(p, c) \<in> set all_files" for p c
    using that all_files_apart by (auto simp: make_dirs_def)
  then have "(\<forall>(p, c)\<in>set all_files. make_dirs (set dir_paths) fs (Path p) \<noteq> Some Dir) \<longleftrightarrow>
        (\<forall>p\<in>set file_paths. fs p \<noteq> Some Dir)"
    by (auto simp: file_paths_def)
  then show ?thesis
    using file_ops_installed[of fs]
    by (simp add: plan_def ops_ok_append mkdir_directories(1,2) compatible_def)
qed

lemma plan_events:
  "\<exists>ms. ops_events plan fs = map Mkdir ms @ map (\<lambda>(p, c). Write (Path p) c) all_files \<and>
        set ms = {q \<in> set dir_paths. fs q = None} \<and> distinct ms"
  using file_ops_installed[of fs] mkdir_directories(3)[of fs]
  by (auto simp: plan_def ops_events_append mkdir_directories(2))

lemma all_files_distinct: "distinct (map (\<lambda>(filepath, content). Path filepath) all_files)"
  using file_paths_distinct by (simp add: file_paths_def)

lemma installed_file: "(p, c) \<in> set all_files \<Longrightarrow> installed fs (Path p) = Some (File c)"
  by (simp add: installed_def write_all_lookup[OF all_files_distinct])

lemma installed_dir: "q \<in> set dir_paths \<Longrightarrow> installed fs q = Some Dir"
proof -
  assume q: "q \<in> set dir_paths"
  then have "q \<notin> set (map (\<lambda>(filepath, content). Path filepath) all_files)"
    using files_apart by (auto simp: file_paths_def)
  then show ?thesis
    using q by (simp add: installed_def write_all_other make_dirs_def)
qed

lemma installed_other:
  "q \<notin> set dir_paths \<Longrightarrow> q \<notin> set file_paths \<Longrightarrow> installed fs q = fs q"
  by (simp add: installed_def write_all_other make_dirs_def file_paths_def)

lemma compatible_installed: "compatible (installed fs)"
  by (auto simp: compatible_def free_def installed_dir file_paths_def installed_file)

lemma installed_idem: "installed (installed fs) = installed fs"
proof -
  have "make_dirs (set dir_paths) (installed fs) = installed fs"
    by (rule make_dirs_same) (simp add: installed_dir)
  moreover have "write_all all_files (installed fs) = installed fs"
    by (rule write_all_same) (auto simp: installed_file)
  ultimately show ?thesis
    by (simp add: installed_def[of "installed fs"])
qed

subsection \<open>Reading the installed state\<close>

lemma walk_append_Dir:
  "\<forall>q\<in>set qs. fs q = Some Dir \<Longrightarrow> rs \<noteq> [] \<Longrightarrow> walk fs p (qs @ rs) = walk fs p rs"
  by (induction qs) auto

lemma stat_entry:
  "p \<noteq> [] \<Longrightarrow> is_dir fs (parent p) \<Longrightarrow> fs p = Some n \<Longrightarrow> stat fs p = Inr n"
proof (cases p rule: rev_cases)
  case Nil
  assume "p \<noteq> []"
  with Nil show ?thesis by simp
next
  case (snoc q x)
  assume "is_dir fs (parent p)" "fs p = Some n"
  then show ?thesis
    using snoc by (cases n) (simp_all add: stat_def parent_def is_dir_iff walk_append_Dir)
qed

lemma is_dir_installed: "d \<in> set directories \<Longrightarrow> is_dir (installed fs) (Path d)"
  by (auto simp: is_dir_iff dir_paths_def intro!: installed_dir)

lemma read_installed: "(p, c) \<in> set all_files \<Longrightarrow> read_text (installed fs) (Path p) = Inr c"
proof -
  assume pc: "(p, c) \<in> set all_files"
  then have ap: "Path p \<noteq> []" "set (ancestry (parent (Path p))) \<subseteq> set dir_paths"
    using all_files_apart by auto
  then have "is_dir (installed fs) (parent (Path p))"
    by (auto simp: is_dir_iff installed_dir)
  then have "stat (installed fs) (Path p) = Inr (File c)"
    using ap(1) installed_file[OF pc] by (rule_tac stat_entry)
  then show ?thesis
    by (simp add: read_text_def)
qed

subsection \<open>The repository check\<close>

lemma Path_git [simp]: "Path ''.git'' = [''.git'']"
  by (simp add: Path_def)

lemma path_exists_top: "path_exists fs [x] \<longleftrightarrow> fs [x] \<noteq> None"
  by (auto simp: path_exists_def stat_def ancestry_def split: option.splits node.splits)

lemma gate_pass:
  "path_exists (files w) (Path ''.git'') \<Longrightarrow> check_git_repo w = (None, w)"
  by (simp add: check_git_repo_def if_then_def)

lemma gate_ask:
  assumes "\<not> path_exists (files w) (Path ''.git'')"
  shows "fst (check_git_repo w) =
           (case stdin w of
              [] \<Rightarrow> Some EOFError
            | response # rest \<Rightarrow> if lower response \<noteq> ''y'' then Some (SystemExit 0) else None)"
    and "files (snd (check_git_repo w)) = files w"
    and "stdin (snd (check_git_repo w)) = tl (stdin w)"
    and "fs_trace (snd (check_git_repo w)) = fs_trace w"
    and "prompts (snd (check_git_repo w)) = prompts w @ [Prompt ''Continue anyway? (y/n): '']"
  using assms
  by (simp_all add: check_git_repo_def if_then_def print_warning_def print_info_def print_def
        input_def sys_exit_def raise_def Let_def fs_trace_def prompts_def split: list.splits)

lemma gate_decline_same:
  assumes "\<not> path_exists (files w) (Path ''.git'')" "lower r \<noteq> ''y''" "lower r' \<noteq> ''y''"
  shows "check_git_repo (w\<lparr>stdin := r # rest\<rparr>) = check_git_repo (w\<lparr>stdin := r' # rest\<rparr>)"
  using assms
  by (simp add: check_git_repo_def if_then_def print_warning_def print_info_def print_def
        input_def sys_exit_def raise_def Let_def)

subsection \<open>Runs\<close>

lemma header_facts:
  "fst (print_header t w) = None" "files (snd (print_header t w)) = files w"
  "stdin (snd (print_header t w)) = stdin w" "fs_trace (snd (print_header t w)) = fs_trace w"
  "prompts (snd (print_header t w)) = prompts w"
  using performs_print_header[of t, unfolded performs_def, rule_format, of w] by simp_all

lemma main_gate:
  "main w =
     (case check_git_repo (snd (print_header ''AI Infrastructure Projects Installer'' w)) of
        (None, w1) \<Rightarrow> installation w1
      | (Some e, w1) \<Rightarrow> (Some e, w1))"
  using header_facts(1)[of "''AI Infrastructure Projects Installer''" w]
  by (cases "print_header ''AI Infrastructure Projects Installer'' w")
     (auto simp: main_blocks split: prod.splits option.splits)

lemma run_declined:
  assumes "\<not> path_exists fs (Path ''.git'')" and "lower response \<noteq> ''y''"
  shows "fst (run fs (response # rest)) = Some (SystemExit 0)"
    and "files (snd (run fs (response # rest))) = fs"
    and "stdin (snd (run fs (response # rest))) = rest"
    and "fs_trace (snd (run fs (response # rest))) = []"
    and "prompts (snd (run fs (response # rest))) = [Prompt ''Continue anyway? (y/n): '']"
proof -
  define hw where
    "hw = snd (print_header ''AI Infrastructure Projects Installer''
                 \<lparr>files = fs, stdin = response # rest, events = []\<rparr>)"
  have h: "files hw = fs" "stdin hw = response # rest" "fs_trace hw = []" "prompts hw = []"
    by (simp_all add: hw_def header_facts) (simp_all add: fs_trace_def prompts_def)
  then have ng: "\<not> path_exists (files hw) (Path ''.git'')"
    using assms(1) by simp
  have g: "fst (check_git_repo hw) = Some (SystemExit 0)"
    using gate_ask(1)[OF ng] h assms(2) by simp
  have r: "run fs (response # rest) = (Some (SystemExit 0), snd (check_git_repo hw))"
    using g unfolding run_def main_gate hw_def[symmetric]
    by (cases "check_git_repo hw") simp
  show "fst (run fs (response # rest)) = Some (SystemExit 0)"
    and "files (snd (run fs (response # rest))) = fs"
    and "stdin (snd (run fs (response # rest))) = rest"
    and "fs_trace (snd (run fs (response # rest))) = []"
    and "prompts (snd (run fs (response # rest))) = [Prompt ''Continue anyway? (y/n): '']"
    using gate_ask(2-5)[OF ng] h by (simp_all add: r)
qed

lemma run_eof:
  assumes "\<not> path_exists fs (Path ''.git'')"
  shows "fst (run fs []) = Some EOFError"
    and "files (snd (run fs [])) = fs"
    and "fs_trace (snd (run fs [])) = []"
    and "prompts (snd (run fs [])) = [Prompt ''Continue anyway? (y/n): '']"
proof -
  define hw where
    "hw = snd (print_header ''AI Infrastructure Projects Installer''
                 \<lparr>files = fs, stdin = [], events = []\<rparr>)"
  have h: "files hw = fs" "stdin hw = []" "fs_trace hw = []" "prompts hw = []"
    by (simp_all add: hw_def header_facts) (simp_all add: fs_trace_def prompts_def)
  then have ng: "\<not> path_exists (files hw) (Path ''.git'')"
    using assms(1) by simp
  have g: "fst (check_git_repo hw) = Some EOFError"
    using gate_ask(1)[OF ng] h by simp
  have r: "run fs [] = (Some EOFError, snd (check_git_repo hw))"
    using g unfolding run_def main_gate hw_def[symmetric]
    by (cases "check_git_repo hw") simp
  show "fst (run fs []) = Some EOFError"
    and "files (snd (run fs [])) = fs"
    and "fs_trace (snd (run fs [])) = []"
    and "prompts (snd (run fs [])) = [Prompt ''Continue anyway? (y/n): '']"
    using gate_ask(2-5)[OF ng] h by (simp_all add: r)
qed

lemma run_proceeds:
  assumes "proceeds fs inp"
  shows "fst (run fs inp) = None \<longleftrightarrow> compatible fs"
    and "fst (run fs inp) = Some e \<Longrightarrow> os_error e"
    and "compatible fs \<Longrightarrow> files (snd (run fs inp)) = installed fs"
    and "compatible fs \<Longrightarrow>
           \<exists>ms. fs_trace (snd (run fs inp)) =
                  map Mkdir ms @ map (\<lambda>(p, c). Write (Path p) c) all_files \<and>
                set ms = {q \<in> set dir_paths. fs q = None} \<and> distinct ms"
    and "stdin (snd (run fs inp)) = (if path_exists fs (Path ''.git'') then inp else tl inp)"
    and "prompts (snd (run fs inp)) =
           (if path_exists fs (Path ''.git'') then [] else [Prompt ''Continue anyway? (y/n): ''])"
proof -
  define hw where
    "hw = snd (print_header ''AI Infrastructure Projects Installer''
                 \<lparr>files = fs, stdin = inp, events = []\<rparr>)"
  define gw where "gw = snd (check_git_repo hw)"
  have h: "files hw = fs" "stdin hw = inp" "fs_trace hw = []" "prompts hw = []"
    by (simp_all add: hw_def header_facts) (simp_all add: fs_trace_def prompts_def)
  have "check_git_repo hw = (None, gw) \<and> files gw = fs \<and> fs_trace gw = [] \<and>
    stdin gw = (if path_exists fs (Path ''.git'') then inp else tl inp) \<and>
    prompts gw =
       (if path_exists fs (Path ''.git'') then [] else [Prompt ''Continue anyway? (y/n): ''])"
  proof (cases "path_exists fs (Path ''.git'')")
    case True
    then have "check_git_repo hw = (None, hw)"
      using gate_pass[of hw] h by simp
    then show ?thesis
      using True h by (simp add: gw_def)
  next
    case False
    then have ng: "\<not> path_exists (files hw) (Path ''.git'')"
      using h by simp
    from False assms obtain response rest where
      inp: "inp = response # rest" "lower response = ''y''"
      by (auto simp: proceeds_def split: list.splits)
    have "fst (check_git_repo hw) = None"
      using gate_ask(1)[OF ng] h inp by simp
    then show ?thesis
      using gate_ask(2-5)[OF ng] h False
      by (simp add: gw_def prod_eq_iff)
  qed
  then have g: "check_git_repo hw = (None, gw)" "files gw = fs" "fs_trace gw = []"
    "stdin gw = (if path_exists fs (Path ''.git'') then inp else tl inp)"
    "prompts gw =
       (if path_exists fs (Path ''.git'') then [] else [Prompt ''Continue anyway? (y/n): ''])"
    by blast+
  have r: "run fs inp = installation gw"
    unfolding run_def main_gate hw_def[symmetric] by (simp add: g(1))
  note I = performs_installation[unfolded performs_def, rule_format, of gw,
      unfolded g(2) g(3) plan_ok plan_apply, folded r]
  show "fst (run fs inp) = None \<longleftrightarrow> compatible fs"
    using I by simp
  show "fst (run fs inp) = Some e \<Longrightarrow> os_error e"
    using I by simp
  show "compatible fs \<Longrightarrow> files (snd (run fs inp)) = installed fs"
    using I by simp
  show "compatible fs \<Longrightarrow>
           \<exists>ms. fs_trace (snd (run fs inp)) =
                  map Mkdir ms @ map (\<lambda>(p, c). Write (Path p) c) all_files \<and>
                set ms = {q \<in> set dir_paths. fs q = None} \<and> distinct ms"
    using I plan_events[of fs] by simp
  show "stdin (snd (run fs inp)) = (if path_exists fs (Path ''.git'') then inp else tl inp)"
    using I g(4) by simp
  show "prompts (snd (run fs inp)) =
           (if path_exists fs (Path ''.git'') then [] else [Prompt ''Continue anyway? (y/n): ''])"
    using I g(5) by simp
qed

subsection \<open>Lower case\<close>

lemma lower_char_y: "lower_char c = CHR ''y'' \<longleftrightarrow> c = CHR ''y'' \<or> c = CHR ''Y''"
proof (cases "65 \<le> (of_char c :: nat) \<and> (of_char c :: nat) \<le> 90")
  case True
  then have "(of_char c + 32 :: nat) mod 256 = of_char c + 32"
    by simp
  then have "lower_char c = CHR ''y'' \<longleftrightarrow> (of_char c :: nat) = of_char (CHR ''Y'')"
    using True by (simp add: lower_char_def char_of_eq_iff take_bit_eq_mod)
  moreover have "c \<noteq> CHR ''y''"
    using True by auto
  ultimately show ?thesis
    by (simp only: of_char_eq_iff) simp
next
  case False
  then have "lower_char c = c" "c \<noteq> CHR ''Y''"
    by (auto simp: lower_char_def)
  then show ?thesis
    by auto
qed

lemma lower_y: "lower r = ''y'' \<longleftrightarrow> r = ''y'' \<or> r = ''Y''"
  by (cases r) (auto simp: lower_def lower_char_y)

lemma run_completed:
  assumes "fst (run fs inp) = None"
  shows "proceeds fs inp" and "compatible fs" and "files (snd (run fs inp)) = installed fs"
proof -
  show p: "proceeds fs inp"
  proof (rule ccontr)
    assume n: "\<not> proceeds fs inp"
    then have ng: "\<not> path_exists fs (Path ''.git'')"
      by (simp add: proceeds_def)
    show False
    proof (cases inp)
      case Nil
      then show False
        using run_eof(1)[OF ng] assms by simp
    next
      case (Cons response rest)
      then have "lower response \<noteq> ''y''"
        using n by (simp add: proceeds_def)
      then show False
        using run_declined(1)[OF ng, of response rest] assms Cons by simp
    qed
  qed
  show c: "compatible fs"
    using run_proceeds(1)[OF p] assms by simp
  show "files (snd (run fs inp)) = installed fs"
    using run_proceeds(3)[OF p c] .
qed

lemma no_git_empty: "\<not> path_exists Map.empty (Path ''.git'')"
  by (simp add: path_exists_top)

lemma compatible_empty: "compatible Map.empty"
  by (simp add: compatible_def free_def)

lemma proceeds_yes: "lower response = ''y'' \<Longrightarrow> proceeds fs (response # rest)"
  by (simp add: proceeds_def)

lemma run_empty_yes: "fst (run Map.empty [''y'']) = None"
  using run_proceeds(1)[OF proceeds_yes, of "''y''" Map.empty "[]"] compatible_empty
  by (simp add: lower_y)

lemma compatible_stale: "compatible [[''README.md''] \<mapsto> File ''stale'']"
  unfolding compatible_def free_def dir_paths_eval by simp

lemma compatible_git_file: "compatible [[''.git''] \<mapsto> File ''gitdir: ../repo/.git'']"
  unfolding compatible_def free_def dir_paths_eval by simp

lemma in_FILES_all: "(p, c) \<in> set FILES \<Longrightarrow> (p, c) \<in> set all_files"
  by (simp add: all_files_def)

lemma in_placeholders_all:
  "(p, d) \<in> set placeholders \<Longrightarrow> (p, placeholder_content d) \<in> set all_files"
  by (auto simp: all_files_def)

subsection \<open>Further facts used by the claims\<close>

lemma sublist_skip: "sublist xs ys \<Longrightarrow> sublist xs (zs @ ys)"
  by (auto simp: sublist_def) (metis append.assoc)

lemma placeholder_counts:
  "list_all (\<lambda>(filepath, description).
     count_occurrences description (placeholder_content description) = 3) placeholders"
  by code_simp

lemma placeholder_contains: "sublist description (placeholder_content description)"
  unfolding placeholder_content_def by (rule sublist_appendI)

lemma exit_status_os_error: "os_error e \<Longrightarrow> exit_status (Some e) = 1"
  by (cases e) simp_all

lemma is_dir_exists: "is_dir fs p \<Longrightarrow> path_exists fs p"
  by (simp add: is_dir_def path_exists_def)

lemma all_installed_readable:
  "\<forall>(filepath, content)\<in>set all_files. read_text (installed fs) (Path filepath) = Inr content"
  using read_installed by blast

lemma header_world:
  "snd (print_header t \<lparr>files = fs, stdin = inp, events = []\<rparr>) =
   (snd (print_header t \<lparr>files = fs, stdin = [], events = []\<rparr>))\<lparr>stdin := inp\<rparr>"
  by (simp add: print_header_def print_def)

lemma run_decline_same:
  assumes "\<not> path_exists fs (Path ''.git'')" "lower r \<noteq> ''y''" "lower r' \<noteq> ''y''"
  shows "run fs (r # rest) = run fs (r' # rest)"
proof -
  define hw where
    "hw = snd (print_header ''AI Infrastructure Projects Installer''
                 \<lparr>files = fs, stdin = [], events = []\<rparr>)"
  have "files hw = fs"
    by (simp add: hw_def header_facts)
  then have ng: "\<not> path_exists (files hw) (Path ''.git'')"
    using assms(1) by simp
  show ?thesis
    unfolding run_def main_gate header_world[of _ fs "r # rest"] header_world[of _ fs "r' # rest"]
      hw_def[symmetric] gate_decline_same[OF ng assms(2,3)] ..
qed

subsection \<open>A run blocked while creating the directories\<close>

text \<open>
  Directory creation changes the file system at the path and its ancestors only, also
  when it fails. A run that proceeds in a working directory where a regular file occupies
  a directory path fails in \<open>create_directory_structure\<close>, before any file is written.
\<close>

lemma os_mkdir_files_frame: "q \<noteq> p \<Longrightarrow> files (snd (os_mkdir p w)) q = files w q"
  by (auto simp: os_mkdir_def split: sum.splits node.splits option.splits)

lemma self_in_ancestry: "p \<noteq> [] \<Longrightarrow> p \<in> set (ancestry p)"
  by (simp add: set_ancestry)

lemma ancestry_parent_subset: "set (ancestry (parent p)) \<subseteq> set (ancestry p)"
  by (auto simp: set_ancestry parent_def intro: prefix_order.trans prefixeq_butlast)

lemma Path_mkdir_files_frame:
  "q \<notin> set (ancestry p) \<Longrightarrow> files (snd (Path_mkdir a b p w)) q = files w q"
proof (induction a b p w rule: Path_mkdir.induct)
  case (1 parents exist_ok p w)
  have qp: "q \<noteq> p \<or> p = []"
    using "1.prems" self_in_ancestry by blast
  obtain r w1 where Pair: "os_mkdir p w = (r, w1)"
    by (cases "os_mkdir p w")
  have fr: "files w1 q = files w q"
  proof (cases "p = []")
    case True
    then show ?thesis
      using Pair by (simp add: os_mkdir_def)
  next
    case False
    then show ?thesis
      using os_mkdir_files_frame[of q p w] qp Pair by simp
  qed
  show ?case
  proof (cases r)
    case None
    then show ?thesis
      using Pair fr by (simp add: Path_mkdir.simps[of parents exist_ok p w])
  next
    case (Some e)
    show ?thesis
    proof (cases "(\<exists>x. e = FileNotFoundError x) \<and> \<not> (\<not> parents \<or> parent p = p)")
      case False
      then show ?thesis
        using Pair Some fr
        by (cases e) (auto simp: Path_mkdir.simps[of parents exist_ok p w])
    next
      case True
      then obtain x where e: "e = FileNotFoundError x" and c: "\<not> (\<not> parents \<or> parent p = p)"
        by blast
      have qpar: "q \<notin> set (ancestry (parent p))"
        using "1.prems" ancestry_parent_subset by blast
      note ih1 = "1.IH"(1)[OF Pair[symmetric] Some e c qpar]
      have unf: "Path_mkdir parents exist_ok p w =
          (case Path_mkdir True True (parent p) w1 of
             (None, w'') \<Rightarrow> Path_mkdir False exist_ok p w''
           | (Some e, w'') \<Rightarrow> (Some e, w''))"
        using Pair Some e c by (subst Path_mkdir.simps) simp
      obtain r2 w2 where P2: "Path_mkdir True True (parent p) w1 = (r2, w2)"
        by (cases "Path_mkdir True True (parent p) w1")
      show ?thesis
      proof (cases r2)
        case None
        note ih2 = "1.IH"(2)[OF Pair[symmetric] Some e c P2[symmetric] None "1.prems"]
        show ?thesis
          unfolding unf using P2 None ih1 ih2 fr by simp
      next
        case (Some e2)
        then show ?thesis
          unfolding unf using P2 ih1 fr by simp
      qed
    qed
  qed
qed

lemma steps_files_frame:
  "(\<And>s w. s \<in> set ss \<Longrightarrow> files (snd (s w)) q = files w q) \<Longrightarrow>
   files (snd (steps ss w)) q = files w q"
proof (induction ss arbitrary: w)
  case Nil
  then show ?case by simp
next
  case (Cons s ss)
  obtain r w1 where sw: "s w = (r, w1)"
    by (cases "s w")
  have "files w1 q = files w q"
    using Cons.prems[of s w] sw by simp
  moreover have "files (snd (steps ss w1)) q = files w1 q"
    by (rule Cons.IH) (simp add: Cons.prems)
  ultimately show ?case
    using sw by (cases r) simp_all
qed

lemma create_directory_structure_frame:
  assumes "q \<notin> set dir_paths"
  shows "files (snd (create_directory_structure w)) q = files w q"
  unfolding create_directory_structure_def for_each_def
proof (rule steps_files_frame)
  fix s w
  assume "s \<in> set [steps (map (\<lambda>directory. Path_mkdir True True (Path directory)) directories),
                     print_success ''Created directory structure'']"
  then consider "s = steps (map (\<lambda>directory. Path_mkdir True True (Path directory)) directories)"
    | "s = print_success ''Created directory structure''"
    by auto
  then show "files (snd (s w)) q = files w q"
  proof cases
    case 1
    have "files (snd (steps (map (\<lambda>directory. Path_mkdir True True (Path directory)) directories) w)) q =
          files w q"
    proof (rule steps_files_frame)
      fix s' w'
      assume "s' \<in> set (map (\<lambda>directory. Path_mkdir True True (Path directory)) directories)"
      then obtain d where d: "d \<in> set directories" "s' = Path_mkdir True True (Path d)"
        by auto
      then have "q \<notin> set (ancestry (Path d))"
        using assms by (auto simp: dir_paths_def)
      then show "files (snd (s' w')) q = files w' q"
        unfolding d(2) by (rule Path_mkdir_files_frame)
    qed
    then show ?thesis
      using 1 by simp
  next
    case 2
    then show ?thesis
      by (simp add: print_success_def print_def)
  qed
qed

lemma installation_blocked:
  assumes "\<not> free (files w) (set dir_paths)" and "q \<notin> set dir_paths"
  shows "fst (installation w) \<noteq> None" and "files (snd (installation w)) q = files w q"
proof -
  define w1 where "w1 = snd (print_info ''Creating project structure...'' w)"
  have pi: "print_info ''Creating project structure...'' w = (None, w1)" and f1: "files w1 = files w"
    by (simp_all add: w1_def print_info_def print_def)
  have "fst (create_directory_structure w1) \<noteq> None"
    using performs_create_directory_structure[unfolded performs_def, rule_format, of w1]
      assms(1) by (simp add: mkdir_directories(1) f1)
  then obtain e w2 where c: "create_directory_structure w1 = (Some e, w2)"
    by (cases "create_directory_structure w1") auto
  have i: "installation w = (Some e, w2)"
    unfolding installation_def by (simp add: pi c)
  show "fst (installation w) \<noteq> None"
    by (simp add: i)
  show "files (snd (installation w)) q = files w q"
    using create_directory_structure_frame[OF assms(2), of w1] by (simp add: i c f1)
qed

lemma run_installation:
  assumes "proceeds fs inp"
  shows "\<exists>gw. run fs inp = installation gw \<and> files gw = fs"
proof -
  define hw where
    "hw = snd (print_header ''AI Infrastructure Projects Installer''
                 \<lparr>files = fs, stdin = inp, events = []\<rparr>)"
  define gw where "gw = snd (check_git_repo hw)"
  have h: "files hw = fs" "stdin hw = inp"
    by (simp_all add: hw_def header_facts)
  have "check_git_repo hw = (None, gw) \<and> files gw = fs"
  proof (cases "path_exists fs (Path ''.git'')")
    case True
    then have "check_git_repo hw = (None, hw)"
      using gate_pass[of hw] h by simp
    then show ?thesis
      using h by (simp add: gw_def)
  next
    case False
    then have ng: "\<not> path_exists (files hw) (Path ''.git'')"
      using h by simp
    from False assms obtain response rest where
      inp: "inp = response # rest" "lower response = ''y''"
      by (auto simp: proceeds_def split: list.splits)
    have "fst (check_git_repo hw) = None"
      using gate_ask(1)[OF ng] h inp by simp
    then show ?thesis
      using gate_ask(2)[OF ng] h by (simp add: gw_def prod_eq_iff)
  qed
  then have "run fs inp = installation gw \<and> files gw = fs"
    unfolding run_def main_gate hw_def[symmetric] by simp
  then show ?thesis
    by blast
qed

lemma run_blocked:
  assumes "proceeds fs inp" and "\<not> free fs (set dir_paths)" and "q \<notin> set dir_paths"
  shows "fst (run fs inp) \<noteq> None" and "files (snd (run fs inp)) q = fs q"
proof -
  obtain gw where g: "run fs inp = installation gw" "files gw = fs"
    using run_installation[OF assms(1)] by blast
  show "fst (run fs inp) \<noteq> None" and "files (snd (run fs inp)) q = fs q"
    using installation_blocked[of gw q] assms(2,3) g by simp_all
qed

section \<open>The claims\<close>

text \<open>
  Every statement below is about \<open>run fs inp\<close>: the script started in a working
  directory with contents \<open>fs\<close> and with the lines \<open>inp\<close> on standard input. A run is
  completed when its result is \<open>None\<close>, that is, when \<open>main\<close> returned.
\<close>

subsection \<open>C1: declining the prompt leaves the file system untouched\<close>

text \<open>
  Claim C1. If no \<^verbatim>\<open>.git\<close> entry is present in the working directory and the user
  answers the confirmation prompt with anything that does not lower to \<open>y\<close>, the program
  exits (through \<^verbatim>\<open>sys.exit\<close>), the file system is exactly what it was before the run,
  and no directory was created and no file written on the way.
\<close>

theorem declined_run_writes_nothing:
  assumes "\<not> path_exists fs (Path ''.git'')" and "lower response \<noteq> ''y''"
  shows "fst (run fs (response # rest)) = Some (SystemExit 0) \<and>
         files (snd (run fs (response # rest))) = fs \<and>
         fs_trace (snd (run fs (response # rest))) = []"
  using run_declined(1,2,4)[OF assms] by simp

theorem declined_run_writes_nothing_witness:
  "\<not> path_exists Map.empty (Path ''.git'') \<and> lower ''n'' \<noteq> ''y'' \<and>
   fst (run Map.empty [''n'']) = Some (SystemExit 0) \<and>
   files (snd (run Map.empty [''n''])) = Map.empty \<and>
   fs_trace (snd (run Map.empty [''n''])) = []"
proof -
  have a: "\<not> path_exists Map.empty (Path ''.git'')"
    by (rule no_git_empty)
  have b: "lower ''n'' \<noteq> ''y''"
    by (simp add: lower_y)
  show ?thesis
    using declined_run_writes_nothing[OF a b, of "[]"] a b by simp
qed

subsection \<open>C2: the literal files hold their embedded content\<close>

text \<open>
  Claim C2. After a completed run, every path of the table \<open>FILES\<close> is a regular file
  whose content is exactly the content the table gives for it, whatever was at that path
  before the run. The witness starts from a working directory with a stale
  \<^verbatim>\<open>README.md\<close>.
\<close>

theorem literal_files_written:
  assumes "fst (run fs inp) = None" and "(filepath, content) \<in> set FILES"
  shows "read_text (files (snd (run fs inp))) (Path filepath) = Inr content"
  using run_completed(3)[OF assms(1)] read_installed[OF in_FILES_all[OF assms(2)]] by simp

theorem literal_files_written_witness:
  "fst (run [[''README.md''] \<mapsto> File ''stale''] [''y'']) = None \<and>
   (''README.md'', README_md) \<in> set FILES \<and>
   read_text [[''README.md''] \<mapsto> File ''stale''] (Path ''README.md'') = Inr ''stale'' \<and>
   read_text (files (snd (run [[''README.md''] \<mapsto> File ''stale''] [''y''])))
     (Path ''README.md'') = Inr README_md"
proof -
  have a: "fst (run [[''README.md''] \<mapsto> File ''stale''] [''y'']) = None"
    using run_proceeds(1)[OF proceeds_yes, of "''y''" _ "[]"] compatible_stale
    by (simp add: lower_y)
  have b: "(''README.md'', README_md) \<in> set FILES"
    by (simp add: FILES_def)
  have c: "read_text [[''README.md''] \<mapsto> File ''stale''] (Path ''README.md'') = Inr ''stale''"
    by (simp add: read_text_def stat_def ancestry_def Path_def)
  show ?thesis
    using literal_files_written[OF a b] a b c by simp
qed

subsection \<open>C3: the placeholder note embeds the description three times\<close>

text \<open>
  Claim C3 as stated: the note synthesized for a description embeds the description
  exactly twice, as the title and as a body paragraph. The formatted string of
  \<^verbatim>\<open>create_placeholder_note\<close> has three fields for the description, so the claim
  fails already for the second entry of the placeholder table: its description does not
  occur exactly twice in its note.
\<close>

theorem placeholder_embeds_twice_counterexample:
  "count_occurrences ''Project A - Terraform Variables''
     (placeholder_content ''Project A - Terraform Variables'') \<noteq> 2"
  by code_simp

text \<open>
  Claim C3, amended. The note is a fixed template that embeds the description three
  times: as the title line, inside the quoted artifact title of step 2, and as the
  paragraph under \<^verbatim>\<open>File Purpose\<close>. For every description the note starts with the
  title line, contains the other two lines, and is 511 bytes longer than three copies of
  the description; for every description of the placeholder table, the description occurs
  in its note at exactly three positions.
\<close>

theorem placeholder_embeds_thrice:
  \<open>prefix (''# '' @ description @ ''\<newline>'') (placeholder_content description) \<and>
   sublist (''2. Find the artifact titled: "'' @ description @ ''"\<newline>'')
     (placeholder_content description) \<and>
   sublist (''## File Purpose\<newline>\<newline>'' @ description @ ''\<newline>'')
     (placeholder_content description) \<and>
   length (placeholder_content description) = 511 + 3 * length description \<and>
   (\<forall>(filepath, d)\<in>set placeholders. count_occurrences d (placeholder_content d) = 3)\<close>
proof (intro conjI)
  show "prefix (''# '' @ description @ ''\<newline>'') (placeholder_content description)"
    by (simp add: placeholder_content_def)
  show \<open>sublist (''2. Find the artifact titled: "'' @ description @ ''"\<newline>'')
     (placeholder_content description)\<close>
    unfolding placeholder_content_def
    by (rule sublist_skip, rule sublist_skip, rule sublist_skip, rule sublist_skip,
        rule sublist_skip, rule sublist_skip, rule sublist_skip, rule sublist_skip,
        rule sublist_skip, rule sublist_skip, rule sublist_skip, rule prefix_imp_sublist)
       simp
  show "sublist (''## File Purpose\<newline>\<newline>'' @ description @ ''\<newline>'')
     (placeholder_content description)"
    unfolding placeholder_content_def
    by (rule sublist_skip, rule sublist_skip, rule sublist_skip, rule sublist_skip,
        rule sublist_skip, rule sublist_skip, rule sublist_skip, rule sublist_skip,
        rule sublist_skip, rule sublist_skip, rule sublist_skip, rule sublist_skip,
        rule sublist_skip, rule sublist_skip, rule sublist_skip, rule sublist_skip,
        rule sublist_skip, rule prefix_imp_sublist)
       simp
  show "length (placeholder_content description) = 511 + 3 * length description"
    by (simp add: placeholder_content_def)
  show "\<forall>(filepath, d)\<in>set placeholders. count_occurrences d (placeholder_content d) = 3"
    using placeholder_counts by (simp add: list_all_iff)
qed

theorem placeholder_embeds_thrice_witness:
  "(''terraform/aws/variables.tf'', ''Project A - Terraform Variables'') \<in> set placeholders \<and>
   count_occurrences ''Project A - Terraform Variables''
     (placeholder_content ''Project A - Terraform Variables'') = 3"
proof -
  have m: "(''terraform/aws/variables.tf'', ''Project A - Terraform Variables'') \<in> set placeholders"
    by (simp add: placeholders_def)
  show ?thesis
    using placeholder_embeds_thrice[of "''Project A - Terraform Variables''"] m by auto
qed

subsection \<open>C4: the exit status\<close>

text \<open>
  Claim C4 as stated: when the user declines the confirmation prompt, the program exits
  with a status that indicates abnormal termination. The source calls
  \<^verbatim>\<open>sys.exit(0)\<close>: in an empty working directory with the answer \<open>n\<close>, the exit status
  is 0, the status of a successful run.
\<close>

theorem declined_exit_status_counterexample:
  "exit_status (fst (run Map.empty [''n''])) = 0"
  using run_declined(1)[OF no_git_empty, of "''n''" "[]"] by (simp add: lower_y)

text \<open>
  Claim C4, amended. When the user declines the confirmation prompt, the program exits
  early through \<^verbatim>\<open>sys.exit(0)\<close>, with exit status 0. When the run proceeds and the working
  directory is compatible with the installation (no regular file where a directory is
  needed, no directory where a file is to be written), it completes, every file of the
  installation holds its content, and the exit status is 0 as well. When the run proceeds
  and the working directory is not compatible, an operating-system error ends the run with
  exit status 1.
\<close>

theorem exit_status_of_run:
  "(\<not> path_exists fs (Path ''.git'') \<and> lower response \<noteq> ''y'' \<longrightarrow>
      fst (run fs (response # rest)) = Some (SystemExit 0) \<and>
      exit_status (fst (run fs (response # rest))) = 0) \<and>
   (proceeds fs inp \<and> compatible fs \<longrightarrow>
      fst (run fs inp) = None \<and> exit_status (fst (run fs inp)) = 0 \<and>
      files (snd (run fs inp)) = installed fs \<and>
      (\<forall>(filepath, content)\<in>set all_files.
         read_text (files (snd (run fs inp))) (Path filepath) = Inr content)) \<and>
   (proceeds fs inp \<and> \<not> compatible fs \<longrightarrow> exit_status (fst (run fs inp)) = 1)"
proof (intro conjI impI)
  assume a: "\<not> path_exists fs (Path ''.git'') \<and> lower response \<noteq> ''y''"
  then show d: "fst (run fs (response # rest)) = Some (SystemExit 0)"
    using run_declined(1) by blast
  show "exit_status (fst (run fs (response # rest))) = 0"
    by (simp add: d)
next
  assume a: "proceeds fs inp \<and> compatible fs"
  then show n: "fst (run fs inp) = None"
    using run_proceeds(1) by blast
  show "exit_status (fst (run fs inp)) = 0"
    by (simp add: n)
  show f: "files (snd (run fs inp)) = installed fs"
    using a run_proceeds(3) by blast
  show "\<forall>(filepath, content)\<in>set all_files.
         read_text (files (snd (run fs inp))) (Path filepath) = Inr content"
    unfolding f by (rule all_installed_readable)
next
  assume a: "proceeds fs inp \<and> \<not> compatible fs"
  then obtain e where e: "fst (run fs inp) = Some e"
    using run_proceeds(1)[of fs inp] by (cases "fst (run fs inp)") auto
  then have "os_error e"
    using a run_proceeds(2) by blast
  then show "exit_status (fst (run fs inp)) = 1"
    by (simp add: e exit_status_os_error)
qed

theorem exit_status_of_run_witness:
  "(\<not> path_exists Map.empty (Path ''.git'') \<and> lower ''no'' \<noteq> ''y'') \<and>
   exit_status (fst (run Map.empty [''no''])) = 0 \<and>
   (proceeds Map.empty [''y''] \<and> compatible Map.empty) \<and>
   fst (run Map.empty [''y'']) = None \<and> exit_status (fst (run Map.empty [''y''])) = 0 \<and>
   (proceeds [[''docs''] \<mapsto> File ''notes''] [''y''] \<and>
    \<not> compatible [[''docs''] \<mapsto> File ''notes'']) \<and>
   exit_status (fst (run [[''docs''] \<mapsto> File ''notes''] [''y''])) = 1"
proof -
  have a: "\<not> path_exists Map.empty (Path ''.git'') \<and> lower ''no'' \<noteq> ''y''"
    using no_git_empty by (simp add: lower_y)
  have b: "proceeds Map.empty [''y''] \<and> compatible Map.empty"
    using compatible_empty by (simp add: proceeds_yes lower_y)
  have c: "proceeds [[''docs''] \<mapsto> File ''notes''] [''y''] \<and>
    \<not> compatible [[''docs''] \<mapsto> File ''notes'']"
    unfolding compatible_def free_def dir_paths_eval by (simp add: proceeds_yes lower_y)
  show ?thesis
    using exit_status_of_run[of Map.empty "''no''" "[]" "[''y'']"]
      exit_status_of_run[of "[[''docs''] \<mapsto> File ''notes'']" "''no''" "[]" "[''y'']"] a b c
    by simp
qed

subsection \<open>C5: a second run changes nothing\<close>

text \<open>
  Claim C5. When a run has completed and the script is run again in the resulting
  working directory, with the confirmation granted again (or \<^verbatim>\<open>.git\<close> present), the
  second run completes and leaves the file system exactly as the first run left it: every
  path holds the same content, nothing is appended or duplicated.
\<close>

theorem rerun_is_idempotent:
  assumes "fst (run fs inp) = None"
    and "proceeds (files (snd (run fs inp))) inp'"
  shows "fst (run (files (snd (run fs inp))) inp') = None \<and>
         files (snd (run (files (snd (run fs inp))) inp')) = files (snd (run fs inp))"
proof -
  have f: "files (snd (run fs inp)) = installed fs"
    by (rule run_completed(3)[OF assms(1)])
  have p: "proceeds (installed fs) inp'"
    using assms(2) f by simp
  show ?thesis
    using run_proceeds(1)[OF p] run_proceeds(3)[OF p compatible_installed]
    by (simp add: f compatible_installed installed_idem)
qed

theorem rerun_is_idempotent_witness:
  "fst (run Map.empty [''y'']) = None \<and>
   proceeds (files (snd (run Map.empty [''y'']))) [''Y''] \<and>
   fst (run (files (snd (run Map.empty [''y'']))) [''Y'']) = None \<and>
   files (snd (run (files (snd (run Map.empty [''y'']))) [''Y''])) =
     files (snd (run Map.empty [''y'']))"
proof -
  have a: "fst (run Map.empty [''y'']) = None"
    by (rule run_empty_yes)
  have b: "proceeds (files (snd (run Map.empty [''y'']))) [''Y'']"
    by (rule proceeds_yes) (simp add: lower_y)
  show ?thesis
    using rerun_is_idempotent[OF a b] a b by simp
qed

subsection \<open>C6: the directories exist after a run\<close>

text \<open>
  Claim C6. After a completed run every path of the fixed directory list exists and is a
  directory. Directory creation (\<^verbatim>\<open>mkdir(parents=True, exist_ok=True)\<close>) succeeds exactly
  when neither the path nor one of its ancestors is occupied by a regular file; it then
  creates the path with all its missing ancestors and touches no other path. When the
  directory already exists, it does not fail and changes nothing. (A directory that
  already exists is never an error; a regular file in the way is reported by the
  operating system, which the second conjunct makes precise.)
\<close>

theorem directories_exist:
  "(fst (run fs inp) = None \<longrightarrow>
      (\<forall>directory\<in>set directories.
         path_exists (files (snd (run fs inp))) (Path directory) \<and>
         is_dir (files (snd (run fs inp))) (Path directory))) \<and>
   (fst (Path_mkdir True True p w) = None \<longleftrightarrow> free (files w) (set (ancestry p))) \<and>
   (free (files w) (set (ancestry p)) \<longrightarrow>
      (\<exists>w'. Path_mkdir True True p w = (None, w') \<and>
            (\<forall>q\<in>set (ancestry p). files w' q = Some Dir) \<and> is_dir (files w') p \<and>
            (\<forall>q. q \<notin> set (ancestry p) \<longrightarrow> files w' q = files w q))) \<and>
   (is_dir (files w) p \<longrightarrow> Path_mkdir True True p w = (None, w))"
proof (intro conjI impI)
  assume "fst (run fs inp) = None"
  then have "files (snd (run fs inp)) = installed fs"
    by (rule run_completed(3))
  then show "\<forall>directory\<in>set directories.
         path_exists (files (snd (run fs inp))) (Path directory) \<and>
         is_dir (files (snd (run fs inp))) (Path directory)"
    by (simp add: is_dir_installed is_dir_exists)
next
  show "fst (Path_mkdir True True p w) = None \<longleftrightarrow> free (files w) (set (ancestry p))"
  proof (cases "free (files w) (set (ancestry p))")
    case True
    then show ?thesis
      using mkdir_ok[of w p] by simp
  next
    case False
    then show ?thesis
      using mkdir_fail[of w p] by simp
  qed
next
  assume "free (files w) (set (ancestry p))"
  then have "Path_mkdir True True p w = (None, made p w)"
    by (rule mkdir_ok)
  moreover have "\<forall>q\<in>set (ancestry p). files (made p w) q = Some Dir"
    by (simp add: made_def make_dirs_def)
  moreover from this have "is_dir (files (made p w)) p"
    by (simp add: is_dir_iff)
  moreover have "\<forall>q. q \<notin> set (ancestry p) \<longrightarrow> files (made p w) q = files w q"
    by (simp add: made_def make_dirs_def)
  ultimately show "\<exists>w'. Path_mkdir True True p w = (None, w') \<and>
            (\<forall>q\<in>set (ancestry p). files w' q = Some Dir) \<and> is_dir (files w') p \<and>
            (\<forall>q. q \<notin> set (ancestry p) \<longrightarrow> files w' q = files w q)"
    by blast
next
  assume "is_dir (files w) p"
  then show "Path_mkdir True True p w = (None, w)"
    by (rule mkdir_noop)
qed

theorem directories_exist_witness:
  "fst (run Map.empty [''y'']) = None \<and> ''docs'' \<in> set directories \<and>
   is_dir (files (snd (run Map.empty [''y'']))) (Path ''docs'') \<and>
   free (files \<lparr>files = Map.empty, stdin = [], events = []\<rparr>) (set (ancestry [''a'', ''b''])) \<and>
   (\<exists>w'. Path_mkdir True True [''a'', ''b''] \<lparr>files = Map.empty, stdin = [], events = []\<rparr> =
           (None, w') \<and>
         files w' [''a''] = Some Dir \<and> files w' [''a'', ''b''] = Some Dir) \<and>
   is_dir (files \<lparr>files = [[''a''] \<mapsto> Dir], stdin = [], events = []\<rparr>) [''a''] \<and>
   Path_mkdir True True [''a''] \<lparr>files = [[''a''] \<mapsto> Dir], stdin = [], events = []\<rparr> =
     (None, \<lparr>files = [[''a''] \<mapsto> Dir], stdin = [], events = []\<rparr>)"
proof -
  have a: "fst (run Map.empty [''y'']) = None"
    by (rule run_empty_yes)
  have b: "''docs'' \<in> set directories"
    by (simp add: directories_def)
  have c: "free (files \<lparr>files = Map.empty, stdin = [], events = []\<rparr>) (set (ancestry [''a'', ''b'']))"
    by (simp add: free_def)
  have d: "is_dir (files \<lparr>files = [[''a''] \<mapsto> Dir], stdin = [], events = []\<rparr>) [''a'']"
    by (simp add: is_dir_iff ancestry_def)
  have e: "set (ancestry [''a'', ''b'']) = {[''a''], [''a'', ''b'']}"
    by (auto simp: ancestry_def)
  show ?thesis
    using directories_exist[where fs = Map.empty and inp = "[''y'']"
        and w = "\<lparr>files = Map.empty, stdin = [], events = []\<rparr>" and p = "[''a'', ''b'']"]
      directories_exist[where fs = Map.empty and inp = "[''y'']"
        and w = "\<lparr>files = [[''a''] \<mapsto> Dir], stdin = [], events = []\<rparr>" and p = "[''a'']"]
      a b c d
    by (auto simp: e)
qed

subsection \<open>C7: the placeholder notes are written\<close>

text \<open>
  Claim C7. After a completed run, every path of the placeholder table is a regular file
  whose content is the note for its description, and the note contains the description
  verbatim. In particular \<^verbatim>\<open>training/src/train_distributed.py\<close> exists and contains
  \<^verbatim>\<open>Project B - Complete Distributed Training Implementation\<close>.
\<close>

theorem placeholder_files_written:
  assumes "fst (run fs inp) = None"
  shows "(\<forall>(filepath, description)\<in>set placeholders.
            read_text (files (snd (run fs inp))) (Path filepath) =
              Inr (placeholder_content description) \<and>
            sublist description (placeholder_content description)) \<and>
         (\<exists>content.
            read_text (files (snd (run fs inp))) (Path ''training/src/train_distributed.py'') =
              Inr content \<and>
            sublist ''Project B - Complete Distributed Training Implementation'' content)"
proof -
  have f: "files (snd (run fs inp)) = installed fs"
    by (rule run_completed(3)[OF assms])
  have a: "read_text (installed fs) (Path filepath) = Inr (placeholder_content description)"
    if "(filepath, description) \<in> set placeholders" for filepath description
    using read_installed[OF in_placeholders_all[OF that]] .
  have m: "(''training/src/train_distributed.py'',
            ''Project B - Complete Distributed Training Implementation'') \<in> set placeholders"
    by (simp add: placeholders_def)
  show ?thesis
    unfolding f using a a[OF m] placeholder_contains by blast
qed

theorem placeholder_files_written_witness:
  "fst (run Map.empty [''y'']) = None \<and>
   (''inference/app/main.py'', ''Project D - Complete AI Inference Platform'') \<in> set placeholders \<and>
   read_text (files (snd (run Map.empty [''y'']))) (Path ''inference/app/main.py'') =
     Inr (placeholder_content ''Project D - Complete AI Inference Platform'') \<and>
   sublist ''Project D - Complete AI Inference Platform''
     (placeholder_content ''Project D - Complete AI Inference Platform'')"
proof -
  have a: "fst (run Map.empty [''y'']) = None"
    by (rule run_empty_yes)
  have m: "(''inference/app/main.py'', ''Project D - Complete AI Inference Platform'') \<in> set placeholders"
    by (simp add: placeholders_def)
  show ?thesis
    using placeholder_files_written[OF a] a m by auto
qed

subsection \<open>C8: the order of the writes\<close>

text \<open>
  Claim C8. The file-system events of a completed run are, in this order: the creation of
  the directories that were missing (each directory of the fixed list and its ancestors,
  each once), then one write per entry of \<open>FILES\<close> in table order, then one write per
  entry of the placeholder table in table order, then the setup instructions and the
  quick reference. No directory is created after the first file is written.
\<close>

theorem writes_in_fixed_order:
  assumes "fst (run fs inp) = None"
  shows "\<exists>created.
           fs_trace (snd (run fs inp)) =
             map Mkdir created @
             map (\<lambda>(filepath, content). Write (Path filepath) content) FILES @
             map (\<lambda>(filepath, description).
                    Write (Path filepath) (placeholder_content description)) placeholders @
             [Write (Path ''docs/SETUP_INSTRUCTIONS.md'') setup_instructions,
              Write (Path ''docs/QUICK_REFERENCE.md'') quick_ref] \<and>
           set created = {q \<in> set dir_paths. fs q = None} \<and> distinct created"
proof -
  note c = run_completed(1,2)[OF assms]
  obtain ms where ms: "fs_trace (snd (run fs inp)) =
      map Mkdir ms @ map (\<lambda>(p, c). Write (Path p) c) all_files"
    "set ms = {q \<in> set dir_paths. fs q = None}" "distinct ms"
    using run_proceeds(4)[OF c] by blast
  have "map (\<lambda>(p, c). Write (Path p) c) all_files =
      map (\<lambda>(filepath, content). Write (Path filepath) content) FILES @
      map (\<lambda>(filepath, description).
             Write (Path filepath) (placeholder_content description)) placeholders @
      [Write (Path ''docs/SETUP_INSTRUCTIONS.md'') setup_instructions,
       Write (Path ''docs/QUICK_REFERENCE.md'') quick_ref]"
    by (simp add: all_files_def comp_def case_prod_unfold)
  then show ?thesis
    using ms by auto
qed

theorem writes_in_fixed_order_witness:
  "fst (run Map.empty [''y'']) = None \<and>
   (\<exists>created.
      fs_trace (snd (run Map.empty [''y''])) =
        map Mkdir created @
        map (\<lambda>(filepath, content). Write (Path filepath) content) FILES @
        map (\<lambda>(filepath, description).
               Write (Path filepath) (placeholder_content description)) placeholders @
        [Write (Path ''docs/SETUP_INSTRUCTIONS.md'') setup_instructions,
         Write (Path ''docs/QUICK_REFERENCE.md'') quick_ref] \<and>
      set created = set dir_paths \<and> distinct created)"
proof -
  have a: "fst (run Map.empty [''y'']) = None"
    by (rule run_empty_yes)
  show ?thesis
    using writes_in_fixed_order[OF a] a by simp
qed

subsection \<open>C9: only \<open>y\<close> and \<open>Y\<close> confirm\<close>

text \<open>
  Claim C9. Without a \<^verbatim>\<open>.git\<close> entry, the run proceeds past the prompt only when the
  answer lowers to \<open>y\<close>, that is, when it is \<open>y\<close> or \<open>Y\<close>. Every other answer makes the
  program exit without creating or writing anything, and the whole run is then the same as
  for the answer \<open>n\<close>: the source treats no declining answer specially. An answer that
  lowers to \<open>y\<close> never ends in \<^verbatim>\<open>SystemExit\<close>; the run then completes exactly when the
  working directory is compatible with the installation. The witness runs the answers
  \<^verbatim>\<open>yes\<close>, \<^verbatim>\<open>Y es\<close>, the empty line, \<^verbatim>\<open>no\<close> and \<^verbatim>\<open>Y\<close>.
\<close>

theorem only_y_confirms:
  assumes "\<not> path_exists fs (Path ''.git'')"
  shows "(lower response = ''y'' \<longleftrightarrow> response = ''y'' \<or> response = ''Y'') \<and>
         (lower response \<noteq> ''y'' \<longrightarrow>
            fst (run fs (response # rest)) = Some (SystemExit 0) \<and>
            files (snd (run fs (response # rest))) = fs \<and>
            fs_trace (snd (run fs (response # rest))) = [] \<and>
            run fs (response # rest) = run fs (''n'' # rest)) \<and>
         (lower response = ''y'' \<longrightarrow>
            fst (run fs (response # rest)) \<noteq> Some (SystemExit 0) \<and>
            (fst (run fs (response # rest)) = None \<longleftrightarrow> compatible fs) \<and>
            (compatible fs \<longrightarrow> files (snd (run fs (response # rest))) = installed fs))"
proof (intro conjI impI)
  show "lower response = ''y'' \<longleftrightarrow> response = ''y'' \<or> response = ''Y''"
    by (rule lower_y)
next
  assume d: "lower response \<noteq> ''y''"
  show "fst (run fs (response # rest)) = Some (SystemExit 0)"
    "files (snd (run fs (response # rest))) = fs"
    "fs_trace (snd (run fs (response # rest))) = []"
    using run_declined(1,2,4)[OF assms d] by simp_all
  have "lower ''n'' \<noteq> ''y''"
    by (simp add: lower_y)
  then show "run fs (response # rest) = run fs (''n'' # rest)"
    using run_decline_same[OF assms d] by simp
next
  assume y: "lower response = ''y''"
  then have p: "proceeds fs (response # rest)"
    by (rule proceeds_yes)
  show "fst (run fs (response # rest)) \<noteq> Some (SystemExit 0)"
    using run_proceeds(2)[OF p, of "SystemExit 0"] by auto
  show "fst (run fs (response # rest)) = None \<longleftrightarrow> compatible fs"
    by (rule run_proceeds(1)[OF p])
  show "files (snd (run fs (response # rest))) = installed fs" if "compatible fs"
    using run_proceeds(3)[OF p that] .
qed

theorem only_y_confirms_witness:
  "\<not> path_exists Map.empty (Path ''.git'') \<and>
   fst (run Map.empty [''yes'']) = Some (SystemExit 0) \<and>
   files (snd (run Map.empty [''yes''])) = Map.empty \<and>
   fst (run Map.empty [''Y es'']) = Some (SystemExit 0) \<and>
   fst (run Map.empty ['''']) = Some (SystemExit 0) \<and>
   run Map.empty [''no''] = run Map.empty [''n''] \<and>
   fst (run Map.empty [''Y'']) = None \<and>
   files (snd (run Map.empty [''Y''])) = installed Map.empty"
proof -
  have a: "\<not> path_exists Map.empty (Path ''.git'')"
    by (rule no_git_empty)
  have d: "lower ''yes'' \<noteq> ''y''" "lower ''Y es'' \<noteq> ''y''" "lower '''' \<noteq> ''y''"
    "lower ''no'' \<noteq> ''y''" "lower ''Y'' = ''y''"
    by (simp_all add: lower_y)
  have "fst (run Map.empty [''yes'']) = Some (SystemExit 0) \<and>
        files (snd (run Map.empty [''yes''])) = Map.empty"
    using only_y_confirms[OF a, of "''yes''" "[]"] d by blast
  moreover have "fst (run Map.empty [''Y es'']) = Some (SystemExit 0)"
    using only_y_confirms[OF a, of "''Y es''" "[]"] d by blast
  moreover have "fst (run Map.empty ['''']) = Some (SystemExit 0)"
    using only_y_confirms[OF a, of "''''" "[]"] d by blast
  moreover have "run Map.empty [''no''] = run Map.empty [''n'']"
    using only_y_confirms[OF a, of "''no''" "[]"] d by blast
  moreover have "fst (run Map.empty [''Y'']) = None \<and>
        files (snd (run Map.empty [''Y''])) = installed Map.empty"
    using only_y_confirms[OF a, of "''Y''" "[]"] compatible_empty d by blast
  ultimately show ?thesis
    using a by blast
qed

subsection \<open>C10: the prompt is skipped exactly when \<^verbatim>\<open>.git\<close> exists\<close>

text \<open>
  Claim C10 as stated: the prompt is skipped exactly when an entry named \<^verbatim>\<open>.git\<close> exists,
  and when it exists the program performs all writes with no user interaction. The first
  half holds; the second fails where the installation is blocked. In a working directory
  with a directory \<^verbatim>\<open>.git\<close> and a regular file \<^verbatim>\<open>docs\<close>, no prompt is issued, the
  creation of the directory \<^verbatim>\<open>docs\<close> raises, the run does not complete, and
  \<^verbatim>\<open>README.md\<close> is not written.
\<close>

theorem git_present_blocked_counterexample:
  "path_exists [[''.git''] \<mapsto> Dir, [''docs''] \<mapsto> File ''notes''] (Path ''.git'') \<and>
   prompts (snd (run [[''.git''] \<mapsto> Dir, [''docs''] \<mapsto> File ''notes''] [])) = [] \<and>
   fst (run [[''.git''] \<mapsto> Dir, [''docs''] \<mapsto> File ''notes''] []) \<noteq> None \<and>
   files (snd (run [[''.git''] \<mapsto> Dir, [''docs''] \<mapsto> File ''notes''] []))
     [''README.md''] = None"
proof -
  let ?fs = "[[''.git''] \<mapsto> Dir, [''docs''] \<mapsto> File ''notes'']"
  have g: "path_exists ?fs (Path ''.git'')"
    by (simp add: path_exists_top)
  then have p: "proceeds ?fs []"
    by (simp add: proceeds_def)
  have b: "\<not> free ?fs (set dir_paths)"
    unfolding free_def dir_paths_eval by simp
  have q: "[''README.md''] \<notin> set dir_paths"
    unfolding dir_paths_eval by simp
  show ?thesis
    using g run_proceeds(6)[OF p] run_blocked[OF p b q] by simp
qed

text \<open>
  Claim C10, amended. A run issues no prompt exactly when an entry named \<^verbatim>\<open>.git\<close> exists
  in the working directory, be it a directory or a regular file. When it exists, standard
  input is not read and the run never ends in \<^verbatim>\<open>SystemExit\<close> or \<^verbatim>\<open>EOFError\<close>; it
  completes exactly when the working directory is compatible with the installation (no
  regular file where a directory is needed, no directory where a file is to be written),
  and every file of the installation then holds its content.
\<close>

theorem prompt_skipped_iff_git:
  "(prompts (snd (run fs inp)) = [] \<longleftrightarrow> path_exists fs (Path ''.git'')) \<and>
   (path_exists fs (Path ''.git'') \<longleftrightarrow> fs [''.git''] \<noteq> None) \<and>
   (path_exists fs (Path ''.git'') \<longrightarrow>
      stdin (snd (run fs inp)) = inp \<and>
      fst (run fs inp) \<noteq> Some (SystemExit 0) \<and> fst (run fs inp) \<noteq> Some EOFError \<and>
      (fst (run fs inp) = None \<longleftrightarrow> compatible fs) \<and>
      (compatible fs \<longrightarrow>
         files (snd (run fs inp)) = installed fs \<and>
         (\<forall>(filepath, content)\<in>set all_files.
            read_text (files (snd (run fs inp))) (Path filepath) = Inr content)))"
proof (intro conjI impI)
  show "prompts (snd (run fs inp)) = [] \<longleftrightarrow> path_exists fs (Path ''.git'')"
  proof (cases "proceeds fs inp")
    case True
    then show ?thesis
      using run_proceeds(6) by simp
  next
    case False
    then have ng: "\<not> path_exists fs (Path ''.git'')"
      by (simp add: proceeds_def)
    show ?thesis
    proof (cases inp)
      case Nil
      then show ?thesis
        using run_eof(4)[OF ng] ng by simp
    next
      case (Cons response rest)
      then have "lower response \<noteq> ''y''"
        using False by (simp add: proceeds_def)
      then show ?thesis
        using run_declined(5)[OF ng, of response rest] ng Cons by simp
    qed
  qed
next
  show "path_exists fs (Path ''.git'') \<longleftrightarrow> fs [''.git''] \<noteq> None"
    by (simp add: path_exists_top)
next
  assume g: "path_exists fs (Path ''.git'')"
  then have p: "proceeds fs inp"
    by (simp add: proceeds_def)
  show "stdin (snd (run fs inp)) = inp"
    using run_proceeds(5)[OF p] g by simp
  show "fst (run fs inp) \<noteq> Some (SystemExit 0)" "fst (run fs inp) \<noteq> Some EOFError"
    using run_proceeds(2)[OF p, of "SystemExit 0"] run_proceeds(2)[OF p, of EOFError] by auto
  show "fst (run fs inp) = None \<longleftrightarrow> compatible fs"
    by (rule run_proceeds(1)[OF p])
  show f: "files (snd (run fs inp)) = installed fs" if "compatible fs"
    using run_proceeds(3)[OF p that] .
  show "\<forall>(filepath, content)\<in>set all_files.
            read_text (files (snd (run fs inp))) (Path filepath) = Inr content" if "compatible fs"
    unfolding f[OF that] by (rule all_installed_readable)
qed

theorem prompt_skipped_iff_git_witness:
  "path_exists [[''.git''] \<mapsto> File ''gitdir: ../repo/.git''] (Path ''.git'') \<and>
   compatible [[''.git''] \<mapsto> File ''gitdir: ../repo/.git''] \<and>
   prompts (snd (run [[''.git''] \<mapsto> File ''gitdir: ../repo/.git''] [])) = [] \<and>
   fst (run [[''.git''] \<mapsto> File ''gitdir: ../repo/.git''] []) = None \<and>
   files (snd (run [[''.git''] \<mapsto> File ''gitdir: ../repo/.git''] [])) =
     installed [[''.git''] \<mapsto> File ''gitdir: ../repo/.git''] \<and>
   path_exists [[''.git''] \<mapsto> Dir] (Path ''.git'') \<and>
   prompts (snd (run [[''.git''] \<mapsto> Dir] [''n''])) = [] \<and>
   stdin (snd (run [[''.git''] \<mapsto> Dir] [''n''])) = [''n''] \<and>
   prompts (snd (run Map.empty [''y''])) \<noteq> []"
proof -
  have a: "path_exists [[''.git''] \<mapsto> File ''gitdir: ../repo/.git''] (Path ''.git'')"
    "path_exists [[''.git''] \<mapsto> Dir] (Path ''.git'')"
    by (simp_all add: path_exists_top)
  show ?thesis
    using prompt_skipped_iff_git[of "[[''.git''] \<mapsto> File ''gitdir: ../repo/.git'']" "[]"]
      prompt_skipped_iff_git[of "[[''.git''] \<mapsto> Dir]" "[''n'']"]
      prompt_skipped_iff_git[of Map.empty "[''y'']"]
      a compatible_git_file no_git_empty
    by simp
qed

end
